theory Spec2Isabelle
  imports Complex_Main
begin

unbundle bit_operations_syntax

section \<open>Numbers\<close>

text \<open>
  The renderer (\<^verbatim>\<open>src/lib/renderer.ts\<close>) computes with JavaScript numbers. Row and
  column indices, code points, flag words, colour channels and line counts are modelled
  as \<open>int\<close>; pixel geometry, opacities and the scroll position \<open>viewportY\<close> (which may
  be fractional) are modelled as \<open>rat\<close>, so arithmetic is exact and the rounding of
  IEEE doubles is not part of the model.
\<close>

definition Math_round :: "rat \<Rightarrow> rat" where
  "Math_round x = of_int \<lfloor>x + 1 / 2\<rfloor>"

definition Math_floor :: "rat \<Rightarrow> rat" where
  "Math_floor x = of_int \<lfloor>x\<rfloor>"

definition Math_ceil :: "rat \<Rightarrow> rat" where
  "Math_ceil x = of_int \<lceil>x\<rceil>"

text \<open>JavaScript's \<^verbatim>\<open>%\<close> truncates towards zero.\<close>

definition js_rem :: "int \<Rightarrow> int \<Rightarrow> int" where
  "js_rem a b = (if a < 0 then - ((- a) mod b) else a mod b)"

text \<open>Reading \<^verbatim>\<open>xs[i]\<close>: \<^verbatim>\<open>undefined\<close> outside the array is \<open>None\<close>.\<close>

definition js_index :: "'a list \<Rightarrow> int \<Rightarrow> 'a option" where
  "js_index xs i = (if 0 \<le> i \<and> nat i < length xs then Some (xs ! nat i) else None)"

section \<open>The drawing surface\<close>

text \<open>
  The canvas and its 2D context belong to the host. They are modelled as a recorder:
  a property holds the value last assigned to it, and every call that draws or changes
  the canvas is appended to \<open>ops\<close> together with the styles in force at the call.
  Arc angles are stored in units of \<^verbatim>\<open>Math.PI\<close>.
\<close>

datatype color = Css string | Rgb int int int | Rgba int int int rat

datatype fontspec = Font string rat string

datatype LineCap = Butt | Round | Square

datatype path_cmd =
    MoveTo rat rat
  | LineTo rat rat
  | Arc rat rat rat rat rat
  | ClosePath

type_synonym jsstring = "int list"

datatype canvas_op =
    FillRect color rat rat rat rat rat
  | FillText color rat fontspec jsstring rat rat
  | Fill color rat "path_cmd list"
  | Stroke color rat rat LineCap "path_cmd list"
  | Scale rat rat
  | SetStyleWidth rat
  | SetStyleHeight rat
  | SetCanvasWidth rat
  | SetCanvasHeight rat

record ctx2d =
  fillStyle :: color
  strokeStyle :: color
  globalAlpha :: rat
  font :: fontspec
  lineWidth :: rat
  lineCap :: LineCap
  textBaseline :: string
  textAlign :: string
  path :: "path_cmd list"
  canvas_width :: rat
  canvas_height :: rat
  ops :: "canvas_op list"

definition fillRect :: "rat \<Rightarrow> rat \<Rightarrow> rat \<Rightarrow> rat \<Rightarrow> ctx2d \<Rightarrow> ctx2d" where
  "fillRect x y w h c = c\<lparr>ops := ops c @ [FillRect (fillStyle c) (globalAlpha c) x y w h]\<rparr>"

definition fillText :: "jsstring \<Rightarrow> rat \<Rightarrow> rat \<Rightarrow> ctx2d \<Rightarrow> ctx2d" where
  "fillText s x y c =
     c\<lparr>ops := ops c @ [FillText (fillStyle c) (globalAlpha c) (font c) s x y]\<rparr>"

definition beginPath :: "ctx2d \<Rightarrow> ctx2d" where
  "beginPath c = c\<lparr>path := []\<rparr>"

definition moveTo :: "rat \<Rightarrow> rat \<Rightarrow> ctx2d \<Rightarrow> ctx2d" where
  "moveTo x y c = c\<lparr>path := path c @ [MoveTo x y]\<rparr>"

definition lineTo :: "rat \<Rightarrow> rat \<Rightarrow> ctx2d \<Rightarrow> ctx2d" where
  "lineTo x y c = c\<lparr>path := path c @ [LineTo x y]\<rparr>"

definition arc :: "rat \<Rightarrow> rat \<Rightarrow> rat \<Rightarrow> rat \<Rightarrow> rat \<Rightarrow> ctx2d \<Rightarrow> ctx2d" where
  "arc x y r a0 a1 c = c\<lparr>path := path c @ [Arc x y r a0 a1]\<rparr>"

definition closePath :: "ctx2d \<Rightarrow> ctx2d" where
  "closePath c = c\<lparr>path := path c @ [ClosePath]\<rparr>"

definition fill :: "ctx2d \<Rightarrow> ctx2d" where
  "fill c = c\<lparr>ops := ops c @ [Fill (fillStyle c) (globalAlpha c) (path c)]\<rparr>"

definition stroke :: "ctx2d \<Rightarrow> ctx2d" where
  "stroke c =
     c\<lparr>ops := ops c @ [Stroke (strokeStyle c) (globalAlpha c) (lineWidth c) (lineCap c) (path c)]\<rparr>"

definition scale :: "rat \<Rightarrow> rat \<Rightarrow> ctx2d \<Rightarrow> ctx2d" where
  "scale sx sy c = c\<lparr>ops := ops c @ [Scale sx sy]\<rparr>"

section \<open>Glyph classification\<close>

definition isBoxDrawingChar :: "int \<Rightarrow> bool" where
  "isBoxDrawingChar codepoint \<longleftrightarrow> codepoint \<ge> 0x2500 \<and> codepoint \<le> 0x257f"

datatype LineStyle = LNone | Light | Heavy | Double

datatype BoxLines = BoxLines (up: LineStyle) (right: LineStyle) (down: LineStyle) (left: LineStyle)

text \<open>\<^verbatim>\<open>BOX_DRAWING_MAP\<close>, in the order of the source.\<close>

definition BOX_DRAWING_MAP :: "(int \<times> BoxLines) list" where
  "BOX_DRAWING_MAP = [
    (0x2500, BoxLines LNone Light LNone Light),
    (0x2502, BoxLines Light LNone Light LNone),
    (0x250c, BoxLines LNone Light Light LNone),
    (0x2510, BoxLines LNone LNone Light Light),
    (0x2514, BoxLines Light Light LNone LNone),
    (0x2518, BoxLines Light LNone LNone Light),
    (0x251c, BoxLines Light Light Light LNone),
    (0x2524, BoxLines Light LNone Light Light),
    (0x252c, BoxLines LNone Light Light Light),
    (0x2534, BoxLines Light Light LNone Light),
    (0x253c, BoxLines Light Light Light Light),
    (0x2501, BoxLines LNone Heavy LNone Heavy),
    (0x2503, BoxLines Heavy LNone Heavy LNone),
    (0x250f, BoxLines LNone Heavy Heavy LNone),
    (0x2513, BoxLines LNone LNone Heavy Heavy),
    (0x2517, BoxLines Heavy Heavy LNone LNone),
    (0x251b, BoxLines Heavy LNone LNone Heavy),
    (0x2523, BoxLines Heavy Heavy Heavy LNone),
    (0x252b, BoxLines Heavy LNone Heavy Heavy),
    (0x2533, BoxLines LNone Heavy Heavy Heavy),
    (0x253b, BoxLines Heavy Heavy LNone Heavy),
    (0x254b, BoxLines Heavy Heavy Heavy Heavy),
    (0x2550, BoxLines LNone Double LNone Double),
    (0x2551, BoxLines Double LNone Double LNone),
    (0x2554, BoxLines LNone Double Double LNone),
    (0x2557, BoxLines LNone LNone Double Double),
    (0x255a, BoxLines Double Double LNone LNone),
    (0x255d, BoxLines Double LNone LNone Double),
    (0x2560, BoxLines Double Double Double LNone),
    (0x2563, BoxLines Double LNone Double Double),
    (0x2566, BoxLines LNone Double Double Double),
    (0x2569, BoxLines Double Double LNone Double),
    (0x256c, BoxLines Double Double Double Double),
    (0x250d, BoxLines LNone Heavy Light LNone),
    (0x250e, BoxLines LNone Light Heavy LNone),
    (0x2511, BoxLines LNone LNone Light Heavy),
    (0x2512, BoxLines LNone LNone Heavy Light),
    (0x2515, BoxLines Light Heavy LNone LNone),
    (0x2516, BoxLines Heavy Light LNone LNone),
    (0x2519, BoxLines Light LNone LNone Heavy),
    (0x251a, BoxLines Heavy LNone LNone Light),
    (0x251d, BoxLines Light Heavy Light LNone),
    (0x251e, BoxLines Heavy Light Light LNone),
    (0x251f, BoxLines Light Light Heavy LNone),
    (0x2520, BoxLines Heavy Light Heavy LNone),
    (0x2521, BoxLines Heavy Heavy Light LNone),
    (0x2522, BoxLines Light Heavy Heavy LNone),
    (0x2525, BoxLines Light LNone Light Heavy),
    (0x2526, BoxLines Heavy LNone Light Light),
    (0x2527, BoxLines Light LNone Heavy Light),
    (0x2528, BoxLines Heavy LNone Heavy Light),
    (0x2529, BoxLines Heavy LNone Light Heavy),
    (0x252a, BoxLines Light LNone Heavy Heavy),
    (0x252d, BoxLines LNone Light Light Heavy),
    (0x252e, BoxLines LNone Heavy Light Light),
    (0x252f, BoxLines LNone Heavy Light Heavy),
    (0x2530, BoxLines LNone Light Heavy Light),
    (0x2531, BoxLines LNone Light Heavy Heavy),
    (0x2532, BoxLines LNone Heavy Heavy Light),
    (0x2535, BoxLines Light Light LNone Heavy),
    (0x2536, BoxLines Light Heavy LNone Light),
    (0x2537, BoxLines Light Heavy LNone Heavy),
    (0x2538, BoxLines Heavy Light LNone Light),
    (0x2539, BoxLines Heavy Light LNone Heavy),
    (0x253a, BoxLines Heavy Heavy LNone Light),
    (0x253d, BoxLines Light Light Light Heavy),
    (0x253e, BoxLines Light Heavy Light Light),
    (0x253f, BoxLines Light Heavy Light Heavy),
    (0x2540, BoxLines Heavy Light Light Light),
    (0x2541, BoxLines Light Light Heavy Light),
    (0x2542, BoxLines Heavy Light Heavy Light),
    (0x2543, BoxLines Heavy Light Light Heavy),
    (0x2544, BoxLines Heavy Heavy Light Light),
    (0x2545, BoxLines Light Light Heavy Heavy),
    (0x2546, BoxLines Light Heavy Heavy Light),
    (0x2547, BoxLines Heavy Heavy Light Heavy),
    (0x2548, BoxLines Light Heavy Heavy Heavy),
    (0x2549, BoxLines Heavy Light Heavy Heavy),
    (0x254a, BoxLines Heavy Heavy Heavy Light),
    (0x2552, BoxLines LNone Double Light LNone),
    (0x2553, BoxLines LNone Light Double LNone),
    (0x2555, BoxLines LNone LNone Light Double),
    (0x2556, BoxLines LNone LNone Double Light),
    (0x2558, BoxLines Light Double LNone LNone),
    (0x2559, BoxLines Double Light LNone LNone),
    (0x255b, BoxLines Light LNone LNone Double),
    (0x255c, BoxLines Double LNone LNone Light),
    (0x255e, BoxLines Light Double Light LNone),
    (0x255f, BoxLines Double Light Double LNone),
    (0x2561, BoxLines Light LNone Light Double),
    (0x2562, BoxLines Double LNone Double Light),
    (0x2564, BoxLines LNone Double Light Double),
    (0x2565, BoxLines LNone Light Double Light),
    (0x2567, BoxLines Light Double LNone Double),
    (0x2568, BoxLines Double Light LNone Light),
    (0x256a, BoxLines Light Double Light Double),
    (0x256b, BoxLines Double Light Double Light),
    (0x2504, BoxLines LNone Light LNone Light),
    (0x2505, BoxLines LNone Heavy LNone Heavy),
    (0x2506, BoxLines Light LNone Light LNone),
    (0x2507, BoxLines Heavy LNone Heavy LNone),
    (0x2508, BoxLines LNone Light LNone Light),
    (0x2509, BoxLines LNone Heavy LNone Heavy),
    (0x250a, BoxLines Light LNone Light LNone),
    (0x250b, BoxLines Heavy LNone Heavy LNone),
    (0x254c, BoxLines LNone Light LNone Light),
    (0x254d, BoxLines LNone Heavy LNone Heavy),
    (0x254e, BoxLines Light LNone Light LNone),
    (0x254f, BoxLines Heavy LNone Heavy LNone),
    (0x256d, BoxLines LNone Light Light LNone),
    (0x256e, BoxLines LNone LNone Light Light),
    (0x256f, BoxLines Light LNone LNone Light),
    (0x2570, BoxLines Light Light LNone LNone),
    (0x2574, BoxLines LNone LNone LNone Light),
    (0x2575, BoxLines Light LNone LNone LNone),
    (0x2576, BoxLines LNone Light LNone LNone),
    (0x2577, BoxLines LNone LNone Light LNone),
    (0x2578, BoxLines LNone LNone LNone Heavy),
    (0x2579, BoxLines Heavy LNone LNone LNone),
    (0x257a, BoxLines LNone Heavy LNone LNone),
    (0x257b, BoxLines LNone LNone Heavy LNone),
    (0x257c, BoxLines LNone Heavy LNone Light),
    (0x257d, BoxLines Light LNone Heavy LNone),
    (0x257e, BoxLines LNone Light LNone Heavy),
    (0x257f, BoxLines Heavy LNone Light LNone)]"

definition getBoxLines :: "int \<Rightarrow> BoxLines option" where
  "getBoxLines codepoint = map_of BOX_DRAWING_MAP codepoint"

definition isBlockElement :: "int \<Rightarrow> bool" where
  "isBlockElement codepoint \<longleftrightarrow> codepoint \<ge> 0x2580 \<and> codepoint \<le> 0x259f"

datatype BlockType =
    Full
  | Upper rat
  | Lower rat
  | LeftB rat
  | RightB rat
  | Quadrants (tl: bool) (tr: bool) (bl: bool) (br: bool)
  | Shade rat

text \<open>The \<^verbatim>\<open>switch\<close> of \<^verbatim>\<open>getBlockType\<close> as a table; \<^verbatim>\<open>default\<close> is \<open>None\<close>.\<close>

definition BLOCK_TYPES :: "(int \<times> BlockType) list" where
  "BLOCK_TYPES = [
    (0x2580, Upper 4),
    (0x2581, Lower 1),
    (0x2582, Lower 2),
    (0x2583, Lower 3),
    (0x2584, Lower 4),
    (0x2585, Lower 5),
    (0x2586, Lower 6),
    (0x2587, Lower 7),
    (0x2588, Full),
    (0x2589, LeftB 7),
    (0x258a, LeftB 6),
    (0x258b, LeftB 5),
    (0x258c, LeftB 4),
    (0x258d, LeftB 3),
    (0x258e, LeftB 2),
    (0x258f, LeftB 1),
    (0x2590, RightB 4),
    (0x2591, Shade (1 / 4)),
    (0x2592, Shade (1 / 2)),
    (0x2593, Shade (3 / 4)),
    (0x2594, Upper 1),
    (0x2595, RightB 1),
    (0x2596, Quadrants False False True False),
    (0x2597, Quadrants False False False True),
    (0x2598, Quadrants True False False False),
    (0x2599, Quadrants True False True True),
    (0x259a, Quadrants True False False True),
    (0x259b, Quadrants True True True False),
    (0x259c, Quadrants True True False True),
    (0x259d, Quadrants False True False False),
    (0x259e, Quadrants False True True False),
    (0x259f, Quadrants False True True True)]"

definition getBlockType :: "int \<Rightarrow> BlockType option" where
  "getBlockType codepoint = map_of BLOCK_TYPES codepoint"

definition isBraillePattern :: "int \<Rightarrow> bool" where
  "isBraillePattern codepoint \<longleftrightarrow> codepoint \<ge> 0x2800 \<and> codepoint \<le> 0x28ff"

definition getBrailleDots :: "int \<Rightarrow> bool list" where
  "getBrailleDots codepoint =
     (let pattern = codepoint - 0x2800 in
      [pattern AND 0x01 \<noteq> 0, pattern AND 0x02 \<noteq> 0, pattern AND 0x04 \<noteq> 0,
       pattern AND 0x08 \<noteq> 0, pattern AND 0x10 \<noteq> 0, pattern AND 0x20 \<noteq> 0,
       pattern AND 0x40 \<noteq> 0, pattern AND 0x80 \<noteq> 0])"

definition isSextant :: "int \<Rightarrow> bool" where
  "isSextant codepoint \<longleftrightarrow> codepoint \<ge> 0x1fb00 \<and> codepoint \<le> 0x1fb3b"

definition getSextantSegments :: "int \<Rightarrow> bool list" where
  "getSextantSegments codepoint =
     (let pattern = codepoint - 0x1fb00 + 1;
          pattern = (if pattern \<ge> 63 then pattern + 1 else pattern) in
      [pattern AND 0x01 \<noteq> 0, pattern AND 0x02 \<noteq> 0, pattern AND 0x04 \<noteq> 0,
       pattern AND 0x08 \<noteq> 0, pattern AND 0x10 \<noteq> 0, pattern AND 0x20 \<noteq> 0])"

datatype TriangleCorner = LowerRight | LowerLeft | UpperLeft | UpperRight

definition isCornerTriangle :: "int \<Rightarrow> bool" where
  "isCornerTriangle codepoint \<longleftrightarrow> codepoint \<ge> 0x25e2 \<and> codepoint \<le> 0x25e5"

definition getTriangleCorner :: "int \<Rightarrow> TriangleCorner option" where
  "getTriangleCorner codepoint =
     (if codepoint = 0x25e2 then Some LowerRight
      else if codepoint = 0x25e3 then Some LowerLeft
      else if codepoint = 0x25e4 then Some UpperLeft
      else if codepoint = 0x25e5 then Some UpperRight
      else None)"

definition isPowerlineChar :: "int \<Rightarrow> bool" where
  "isPowerlineChar codepoint \<longleftrightarrow>
     codepoint \<in> set [0xe0b0, 0xe0b2, 0xe0b4, 0xe0b6, 0x25b6, 0x25c0, 0x25b2, 0x25bc, 0x25ba, 0x25c4]"

datatype PowerlineType = PRight | PLeft | PUp | PDown

definition getPowerlineDirection :: "int \<Rightarrow> PowerlineType option" where
  "getPowerlineDirection codepoint =
     (if codepoint \<in> set [0xe0b0, 0xe0b4, 0x25b6, 0x25ba] then Some PRight
      else if codepoint \<in> set [0xe0b2, 0xe0b6, 0x25c0, 0x25c4] then Some PLeft
      else if codepoint = 0x25b2 then Some PUp
      else if codepoint = 0x25bc then Some PDown
      else None)"

datatype WedgeCorner = BLc | BRc | TLc | TRc

datatype WedgeSize = Small | Half | Large

datatype ScanPosition = PosUpper | PosLower

datatype ScanPart = PartLeft | PartRight

datatype WedgeType =
    Diagonal WedgeCorner WedgeSize
  | HalfScanline ScanPosition ScanPart

definition isLegacyWedge :: "int \<Rightarrow> bool" where
  "isLegacyWedge codepoint \<longleftrightarrow> codepoint \<ge> 0x1fb3c \<and> codepoint \<le> 0x1fb8b"

text \<open>
  \<^verbatim>\<open>sizes[i] || 'half'\<close> and \<^verbatim>\<open>corners[i]\<close>: inside each guarded range the index is
  within the four-element array; the fallbacks of the source are kept.
\<close>

definition wedge_sizes :: "WedgeSize list" where
  "wedge_sizes = [Small, Half, Half, Large]"

definition wedge_corners :: "WedgeCorner list" where
  "wedge_corners = [BLc, BRc, TLc, TRc]"

definition size_at :: "int \<Rightarrow> WedgeSize" where
  "size_at i = (case js_index wedge_sizes i of Some s \<Rightarrow> s | None \<Rightarrow> Half)"

definition getLegacyWedgeType :: "int \<Rightarrow> WedgeType option" where
  "getLegacyWedgeType codepoint =
     (if codepoint \<ge> 0x1fb3c \<and> codepoint \<le> 0x1fb3f then
        Some (Diagonal BLc (size_at (codepoint - 0x1fb3c)))
      else if codepoint \<ge> 0x1fb40 \<and> codepoint \<le> 0x1fb43 then
        Some (Diagonal BRc (size_at (codepoint - 0x1fb40)))
      else if codepoint \<ge> 0x1fb44 \<and> codepoint \<le> 0x1fb47 then
        Some (Diagonal TLc (size_at (codepoint - 0x1fb44)))
      else if codepoint \<ge> 0x1fb48 \<and> codepoint \<le> 0x1fb4b then
        Some (Diagonal TRc (size_at (codepoint - 0x1fb48)))
      else if codepoint \<ge> 0x1fb4c \<and> codepoint \<le> 0x1fb67 then
        (let idx = codepoint - 0x1fb4c in
         Some (Diagonal (wedge_corners ! nat (idx mod 4)) Half))
      else if codepoint \<ge> 0x1fb68 \<and> codepoint \<le> 0x1fb6f then
        Some (Diagonal (wedge_corners ! nat ((codepoint - 0x1fb68) mod 4)) Large)
      else if codepoint \<ge> 0x1fb70 \<and> codepoint \<le> 0x1fb75 then
        Some (HalfScanline PosUpper PartLeft)
      else if codepoint \<ge> 0x1fb76 \<and> codepoint \<le> 0x1fb7b then
        Some (HalfScanline PosUpper PartRight)
      else if codepoint \<ge> 0x1fb7c \<and> codepoint \<le> 0x1fb8b then
        (let idx = codepoint - 0x1fb7c in
         Some (HalfScanline (if idx < 8 then PosUpper else PosLower)
                 (if idx mod 2 = 0 then PartLeft else PartRight)))
      else None)"

definition isOctant :: "int \<Rightarrow> bool" where
  "isOctant codepoint \<longleftrightarrow> codepoint \<ge> 0x1cd00 \<and> codepoint \<le> 0x1cde5"

definition getOctantCells :: "int \<Rightarrow> bool list" where
  "getOctantCells codepoint =
     (let pattern = codepoint - 0x1cd00 in
      [pattern AND 0x01 \<noteq> 0, pattern AND 0x02 \<noteq> 0, pattern AND 0x04 \<noteq> 0,
       pattern AND 0x08 \<noteq> 0, pattern AND 0x10 \<noteq> 0, pattern AND 0x20 \<noteq> 0,
       pattern AND 0x40 \<noteq> 0, pattern AND 0x80 \<noteq> 0])"

definition isSmoothMosaic :: "int \<Rightarrow> bool" where
  "isSmoothMosaic codepoint \<longleftrightarrow> codepoint \<ge> 0x1fb90 \<and> codepoint \<le> 0x1fbaf"

definition isRoundedCorner :: "int \<Rightarrow> bool" where
  "isRoundedCorner codepoint \<longleftrightarrow> codepoint \<ge> 0x256d \<and> codepoint \<le> 0x2570"

datatype RoundedCornerType = DownRight | DownLeft | UpLeft | UpRight

definition getRoundedCornerType :: "int \<Rightarrow> RoundedCornerType option" where
  "getRoundedCornerType codepoint =
     (if codepoint = 0x256d then Some DownRight
      else if codepoint = 0x256e then Some DownLeft
      else if codepoint = 0x256f then Some UpLeft
      else if codepoint = 0x2570 then Some UpRight
      else None)"

datatype Direction = Horizontal | Vertical

datatype Weight = WLight | WHeavy

datatype DashedLineConfig =
  DashedLineConfig (direction: Direction) (weight: Weight) (dashes: int)

definition isDashedLine :: "int \<Rightarrow> bool" where
  "isDashedLine codepoint \<longleftrightarrow>
     (codepoint \<ge> 0x2504 \<and> codepoint \<le> 0x250b) \<or> (codepoint \<ge> 0x254c \<and> codepoint \<le> 0x254f)"

text \<open>The \<^verbatim>\<open>switch\<close> of \<^verbatim>\<open>getDashedLineConfig\<close> as a table.\<close>

definition DASHED_CONFIGS :: "(int \<times> DashedLineConfig) list" where
  "DASHED_CONFIGS = [
    (0x2504, DashedLineConfig Horizontal WLight 3),
    (0x2505, DashedLineConfig Horizontal WHeavy 3),
    (0x2506, DashedLineConfig Vertical WLight 3),
    (0x2507, DashedLineConfig Vertical WHeavy 3),
    (0x2508, DashedLineConfig Horizontal WLight 4),
    (0x2509, DashedLineConfig Horizontal WHeavy 4),
    (0x250a, DashedLineConfig Vertical WLight 4),
    (0x250b, DashedLineConfig Vertical WHeavy 4),
    (0x254c, DashedLineConfig Horizontal WLight 2),
    (0x254d, DashedLineConfig Horizontal WHeavy 2),
    (0x254e, DashedLineConfig Vertical WLight 2),
    (0x254f, DashedLineConfig Vertical WHeavy 2)]"

definition getDashedLineConfig :: "int \<Rightarrow> DashedLineConfig option" where
  "getDashedLineConfig codepoint = map_of DASHED_CONFIGS codepoint"

section \<open>The procedural glyph engine\<close>

text \<open>
  The drawing procedures read \<^verbatim>\<open>this.metrics\<close> and act on \<^verbatim>\<open>this.ctx\<close> only; they take
  the metrics and the context as arguments and return the context.
\<close>

record FontMetrics =
  mwidth :: rat
  mheight :: rat
  baseline :: rat

definition getThickness :: "rat \<Rightarrow> rat \<Rightarrow> rat \<Rightarrow> LineStyle \<Rightarrow> rat" where
  "getThickness lightThickness heavyThickness doubleLineThickness style =
     (case style of
        Light \<Rightarrow> lightThickness
      | Heavy \<Rightarrow> heavyThickness
      | Double \<Rightarrow> doubleLineThickness
      | LNone \<Rightarrow> 0)"

text \<open>The horizontal half of \<^verbatim>\<open>drawBoxChar\<close> (left and right stubs).\<close>

definition boxHorizontal ::
  "BoxLines \<Rightarrow> rat \<Rightarrow> rat \<Rightarrow> rat \<Rightarrow> rat \<Rightarrow> rat \<Rightarrow> rat \<Rightarrow> rat \<Rightarrow> rat \<Rightarrow> ctx2d \<Rightarrow> ctx2d" where
  "boxHorizontal lines cellX width centerX centerY lightThickness heavyThickness doubleGap
      doubleLineThickness c =
     (if left lines \<noteq> LNone \<or> right lines \<noteq> LNone then
        (if left lines = Double \<or> right lines = Double then
           (let offset = (doubleGap + doubleLineThickness) / 2;
                c = (if left lines \<noteq> LNone then
                       (let c = fillRect cellX (centerY - offset - doubleLineThickness / 2)
                                  (width / 2 + (if right lines \<noteq> LNone then doubleLineThickness / 2 else 0))
                                  doubleLineThickness c;
                            c = fillRect cellX (centerY + offset - doubleLineThickness / 2)
                                  (width / 2 + (if right lines \<noteq> LNone then doubleLineThickness / 2 else 0))
                                  doubleLineThickness c
                        in c)
                     else c);
                c = (if right lines \<noteq> LNone then
                       (let c = fillRect
                                  (centerX - (if left lines \<noteq> LNone then doubleLineThickness / 2 else 0))
                                  (centerY - offset - doubleLineThickness / 2)
                                  (width / 2 + (if left lines \<noteq> LNone then doubleLineThickness / 2 else 0))
                                  doubleLineThickness c;
                            c = fillRect
                                  (centerX - (if left lines \<noteq> LNone then doubleLineThickness / 2 else 0))
                                  (centerY + offset - doubleLineThickness / 2)
                                  (width / 2 + (if left lines \<noteq> LNone then doubleLineThickness / 2 else 0))
                                  doubleLineThickness c
                        in c)
                     else c)
            in c)
         else
           (let leftThickness =
                  getThickness lightThickness heavyThickness doubleLineThickness (left lines);
                rightThickness =
                  getThickness lightThickness heavyThickness doubleLineThickness (right lines)
            in
              if left lines \<noteq> LNone \<and> right lines \<noteq> LNone \<and> left lines = right lines then
                (let thickness = leftThickness in
                 fillRect cellX (Math_round (centerY - thickness / 2)) width thickness c)
              else
                (let c = (if left lines \<noteq> LNone then
                            (let thickness = leftThickness;
                                 extendPastCenter = (if right lines \<noteq> LNone then thickness / 2 else 0)
                             in fillRect cellX (Math_round (centerY - thickness / 2))
                                  (Math_ceil (width / 2 + extendPastCenter)) thickness c)
                          else c);
                     c = (if right lines \<noteq> LNone then
                            (let thickness = rightThickness;
                                 extendPastCenter = (if left lines \<noteq> LNone then thickness / 2 else 0)
                             in fillRect (Math_floor (centerX - extendPastCenter))
                                  (Math_round (centerY - thickness / 2))
                                  (Math_ceil (width / 2 + extendPastCenter)) thickness c)
                          else c)
                 in c)))
      else c)"

text \<open>The vertical half of \<^verbatim>\<open>drawBoxChar\<close> (up and down stubs).\<close>

definition boxVertical ::
  "BoxLines \<Rightarrow> rat \<Rightarrow> rat \<Rightarrow> rat \<Rightarrow> rat \<Rightarrow> rat \<Rightarrow> rat \<Rightarrow> rat \<Rightarrow> rat \<Rightarrow> ctx2d \<Rightarrow> ctx2d" where
  "boxVertical lines cellY height centerX centerY lightThickness heavyThickness doubleGap
      doubleLineThickness c =
     (if up lines \<noteq> LNone \<or> down lines \<noteq> LNone then
        (if up lines = Double \<or> down lines = Double then
           (let offset = (doubleGap + doubleLineThickness) / 2;
                c = (if up lines \<noteq> LNone then
                       (let c = fillRect (Math_round (centerX - offset - doubleLineThickness / 2)) cellY
                                  doubleLineThickness
                                  (Math_ceil (height / 2 + doubleLineThickness / 2)) c;
                            c = fillRect (Math_round (centerX + offset - doubleLineThickness / 2)) cellY
                                  doubleLineThickness
                                  (Math_ceil (height / 2 + doubleLineThickness / 2)) c
                        in c)
                     else c);
                c = (if down lines \<noteq> LNone then
                       (let c = fillRect (Math_round (centerX - offset - doubleLineThickness / 2))
                                  (Math_floor (centerY - doubleLineThickness / 2))
                                  doubleLineThickness
                                  (Math_ceil (height / 2 + doubleLineThickness / 2)) c;
                            c = fillRect (Math_round (centerX + offset - doubleLineThickness / 2))
                                  (Math_floor (centerY - doubleLineThickness / 2))
                                  doubleLineThickness
                                  (Math_ceil (height / 2 + doubleLineThickness / 2)) c
                        in c)
                     else c)
            in c)
         else
           (let upThickness =
                  getThickness lightThickness heavyThickness doubleLineThickness (up lines);
                downThickness =
                  getThickness lightThickness heavyThickness doubleLineThickness (down lines)
            in
              if up lines \<noteq> LNone \<and> down lines \<noteq> LNone \<and> up lines = down lines then
                (let thickness = upThickness in
                 fillRect (Math_round (centerX - thickness / 2)) cellY thickness height c)
              else
                (let c = (if up lines \<noteq> LNone then
                            (let thickness = upThickness;
                                 extendPastCenter = (if down lines \<noteq> LNone then thickness / 2 else 0)
                             in fillRect (Math_round (centerX - thickness / 2)) cellY thickness
                                  (Math_ceil (height / 2 + extendPastCenter)) c)
                          else c);
                     c = (if down lines \<noteq> LNone then
                            (let thickness = downThickness;
                                 extendPastCenter = (if up lines \<noteq> LNone then thickness / 2 else 0)
                             in fillRect (Math_round (centerX - thickness / 2))
                                  (Math_floor (centerY - extendPastCenter)) thickness
                                  (Math_ceil (height / 2 + extendPastCenter)) c)
                          else c)
                 in c)))
      else c)"

definition drawBoxChar :: "FontMetrics \<Rightarrow> int \<Rightarrow> rat \<Rightarrow> rat \<Rightarrow> color \<Rightarrow> ctx2d \<Rightarrow> ctx2d" where
  "drawBoxChar m codepoint cellX cellY fgColor c =
     (case getBoxLines codepoint of
        None \<Rightarrow> c
      | Some lines \<Rightarrow>
          (let width = mwidth m;
               height = mheight m;
               lightThickness = max 1 (Math_round (height / 12));
               heavyThickness = max 2 (Math_round (height / 6));
               doubleGap = max 2 (Math_round (height / 8));
               doubleLineThickness = max 1 (Math_round (height / 16));
               centerX = cellX + width / 2;
               centerY = cellY + height / 2;
               c = c\<lparr>fillStyle := fgColor\<rparr>;
               c = boxHorizontal lines cellX width centerX centerY lightThickness heavyThickness
                     doubleGap doubleLineThickness c;
               c = boxVertical lines cellY height centerX centerY lightThickness heavyThickness
                     doubleGap doubleLineThickness c
           in c))"

definition drawBlockChar :: "FontMetrics \<Rightarrow> int \<Rightarrow> rat \<Rightarrow> rat \<Rightarrow> color \<Rightarrow> ctx2d \<Rightarrow> ctx2d" where
  "drawBlockChar m codepoint cellX cellY fgColor c =
     (case getBlockType codepoint of
        None \<Rightarrow> c
      | Some block \<Rightarrow>
          (let width = mwidth m;
               height = mheight m;
               c = c\<lparr>fillStyle := fgColor\<rparr>
           in case block of
                Full \<Rightarrow> fillRect cellX cellY width height c
              | Upper eighths \<Rightarrow>
                  (let upperHeight = Math_round ((height * eighths) / 8)
                   in fillRect cellX cellY width upperHeight c)
              | Lower eighths \<Rightarrow>
                  (let lowerHeight = Math_round ((height * eighths) / 8)
                   in fillRect cellX (cellY + height - lowerHeight) width lowerHeight c)
              | LeftB eighths \<Rightarrow>
                  (let leftWidth = Math_round ((width * eighths) / 8)
                   in fillRect cellX cellY leftWidth height c)
              | RightB eighths \<Rightarrow>
                  (let rightWidth = Math_round ((width * eighths) / 8)
                   in fillRect (cellX + width - rightWidth) cellY rightWidth height c)
              | Quadrants qtl qtr qbl qbr \<Rightarrow>
                  (let halfW = Math_ceil (width / 2);
                       halfH = Math_ceil (height / 2);
                       midX = cellX + Math_floor (width / 2);
                       midY = cellY + Math_floor (height / 2);
                       c = (if qtl then fillRect cellX cellY halfW halfH c else c);
                       c = (if qtr then fillRect midX cellY halfW halfH c else c);
                       c = (if qbl then fillRect cellX midY halfW halfH c else c);
                       c = (if qbr then fillRect midX midY halfW halfH c else c)
                   in c)
              | Shade density \<Rightarrow>
                  (let c = c\<lparr>globalAlpha := density\<rparr>;
                       c = fillRect cellX cellY width height c;
                       c = c\<lparr>globalAlpha := 1\<rparr>
                   in c)))"

definition drawBrailleChar :: "FontMetrics \<Rightarrow> int \<Rightarrow> rat \<Rightarrow> rat \<Rightarrow> color \<Rightarrow> ctx2d \<Rightarrow> ctx2d" where
  "drawBrailleChar m codepoint cellX cellY fgColor c =
     (let dots = getBrailleDots codepoint;
          width = mwidth m;
          height = mheight m;
          paddingX = width * (15 / 100);
          paddingY = height * (1 / 10);
          dotAreaWidth = width - paddingX * 2;
          dotAreaHeight = height - paddingY * 2;
          dotRadius = max 1 (min (dotAreaWidth / 4) (dotAreaHeight / 8) * (9 / 10));
          colSpacing = dotAreaWidth;
          rowSpacing = dotAreaHeight / 3;
          startX = cellX + paddingX + dotRadius;
          startY = cellY + paddingY + dotRadius;
          c = c\<lparr>fillStyle := fgColor\<rparr>;
          dotPositions = [(0, 0), (0, 1), (0, 2), (1, 0), (1, 1), (1, 2), (0, 3), (1, 3)]
      in foldl (\<lambda>c i.
           if dots ! i then
             (let (col, row) = dotPositions ! i;
                  dotX = startX + col * colSpacing;
                  dotY = startY + row * rowSpacing;
                  c = beginPath c;
                  c = arc dotX dotY dotRadius 0 2 c;
                  c = fill c
              in c)
           else c) c [0..<8])"

definition drawSextantChar :: "FontMetrics \<Rightarrow> int \<Rightarrow> rat \<Rightarrow> rat \<Rightarrow> color \<Rightarrow> ctx2d \<Rightarrow> ctx2d" where
  "drawSextantChar m codepoint cellX cellY fgColor c =
     (let segments = getSextantSegments codepoint;
          width = mwidth m;
          height = mheight m;
          segW = Math_ceil (width / 2);
          segH = Math_ceil (height / 3);
          c = c\<lparr>fillStyle := fgColor\<rparr>;
          segmentPositions = [(0, 0), (1, 0), (0, 1), (1, 1), (0, 2), (1, 2)]
      in foldl (\<lambda>c i.
           if segments ! i then
             (let (col, row) = segmentPositions ! i;
                  segX = cellX + col * Math_floor (width / 2);
                  segY = cellY + row * Math_floor (height / 3);
                  actualW = (if col = 1 then width - Math_floor (width / 2) else segW);
                  actualH = (if row = 2 then height - Math_floor (height / 3) * 2 else segH)
              in fillRect segX segY actualW actualH c)
           else c) c [0..<6])"

definition drawCornerTriangle :: "FontMetrics \<Rightarrow> int \<Rightarrow> rat \<Rightarrow> rat \<Rightarrow> color \<Rightarrow> ctx2d \<Rightarrow> ctx2d" where
  "drawCornerTriangle m codepoint cellX cellY fgColor c =
     (case getTriangleCorner codepoint of
        None \<Rightarrow> c
      | Some corner \<Rightarrow>
          (let width = mwidth m;
               height = mheight m;
               c = c\<lparr>fillStyle := fgColor\<rparr>;
               c = beginPath c;
               c = (case corner of
                      LowerRight \<Rightarrow>
                        (let c = moveTo (cellX + width) cellY c;
                             c = lineTo (cellX + width) (cellY + height) c;
                             c = lineTo cellX (cellY + height) c
                         in c)
                    | LowerLeft \<Rightarrow>
                        (let c = moveTo cellX cellY c;
                             c = lineTo (cellX + width) (cellY + height) c;
                             c = lineTo cellX (cellY + height) c
                         in c)
                    | UpperLeft \<Rightarrow>
                        (let c = moveTo cellX cellY c;
                             c = lineTo (cellX + width) cellY c;
                             c = lineTo cellX (cellY + height) c
                         in c)
                    | UpperRight \<Rightarrow>
                        (let c = moveTo cellX cellY c;
                             c = lineTo (cellX + width) cellY c;
                             c = lineTo (cellX + width) (cellY + height) c
                         in c));
               c = closePath c;
               c = fill c
           in c))"

definition drawPowerlineChar :: "FontMetrics \<Rightarrow> int \<Rightarrow> rat \<Rightarrow> rat \<Rightarrow> color \<Rightarrow> ctx2d \<Rightarrow> ctx2d" where
  "drawPowerlineChar m codepoint cellX cellY fgColor c =
     (case getPowerlineDirection codepoint of
        None \<Rightarrow> c
      | Some dir \<Rightarrow>
          (let width = mwidth m;
               height = mheight m;
               c = c\<lparr>fillStyle := fgColor\<rparr>;
               c = beginPath c;
               c = (case dir of
                      PRight \<Rightarrow>
                        (let c = moveTo cellX cellY c;
                             c = lineTo (cellX + width) (cellY + height / 2) c;
                             c = lineTo cellX (cellY + height) c
                         in c)
                    | PLeft \<Rightarrow>
                        (let c = moveTo (cellX + width) cellY c;
                             c = lineTo cellX (cellY + height / 2) c;
                             c = lineTo (cellX + width) (cellY + height) c
                         in c)
                    | PUp \<Rightarrow>
                        (let c = moveTo cellX (cellY + height) c;
                             c = lineTo (cellX + width / 2) cellY c;
                             c = lineTo (cellX + width) (cellY + height) c
                         in c)
                    | PDown \<Rightarrow>
                        (let c = moveTo cellX cellY c;
                             c = lineTo (cellX + width / 2) (cellY + height) c;
                             c = lineTo (cellX + width) cellY c
                         in c));
               c = closePath c;
               c = fill c
           in c))"

definition drawLegacyWedge :: "FontMetrics \<Rightarrow> int \<Rightarrow> rat \<Rightarrow> rat \<Rightarrow> color \<Rightarrow> ctx2d \<Rightarrow> ctx2d" where
  "drawLegacyWedge m codepoint cellX cellY fgColor c =
     (case getLegacyWedgeType codepoint of
        None \<Rightarrow> c
      | Some wedge \<Rightarrow>
          (let width = mwidth m;
               height = mheight m;
               c = c\<lparr>fillStyle := fgColor\<rparr>;
               c = beginPath c
           in case wedge of
                Diagonal from sz \<Rightarrow>
                  (let sizeFactor = (case sz of Small \<Rightarrow> 33 / 100 | Half \<Rightarrow> 1 / 2 | Large \<Rightarrow> 67 / 100);
                       c = (case from of
                              BLc \<Rightarrow>
                                (let c = moveTo cellX (cellY + height) c;
                                     c = lineTo (cellX + width * sizeFactor) (cellY + height) c;
                                     c = lineTo cellX (cellY + height * (1 - sizeFactor)) c
                                 in c)
                            | BRc \<Rightarrow>
                                (let c = moveTo (cellX + width) (cellY + height) c;
                                     c = lineTo (cellX + width * (1 - sizeFactor)) (cellY + height) c;
                                     c = lineTo (cellX + width) (cellY + height * (1 - sizeFactor)) c
                                 in c)
                            | TLc \<Rightarrow>
                                (let c = moveTo cellX cellY c;
                                     c = lineTo (cellX + width * sizeFactor) cellY c;
                                     c = lineTo cellX (cellY + height * sizeFactor) c
                                 in c)
                            | TRc \<Rightarrow>
                                (let c = moveTo (cellX + width) cellY c;
                                     c = lineTo (cellX + width * (1 - sizeFactor)) cellY c;
                                     c = lineTo (cellX + width) (cellY + height * sizeFactor) c
                                 in c));
                       c = closePath c;
                       c = fill c
                   in c)
              | HalfScanline position part \<Rightarrow>
                  (let halfW = width / 2;
                       halfH = height / 2;
                       startX = (if part = PartLeft then cellX else cellX + halfW);
                       startY = (if position = PosUpper then cellY else cellY + halfH)
                   in fillRect startX startY halfW halfH c)))"

definition drawOctant :: "FontMetrics \<Rightarrow> int \<Rightarrow> rat \<Rightarrow> rat \<Rightarrow> color \<Rightarrow> ctx2d \<Rightarrow> ctx2d" where
  "drawOctant m codepoint cellX cellY fgColor c =
     (let cells = getOctantCells codepoint;
          width = mwidth m;
          height = mheight m;
          cellW = Math_ceil (width / 2);
          cellH = Math_ceil (height / 4);
          c = c\<lparr>fillStyle := fgColor\<rparr>;
          positions = [(0, 0), (1, 0), (0, 1), (1, 1), (0, 2), (1, 2), (0, 3), (1, 3)]
      in foldl (\<lambda>c i.
           if cells ! i then
             (let (col, row) = positions ! i;
                  x = cellX + col * Math_floor (width / 2);
                  y = cellY + row * Math_floor (height / 4);
                  w = (if col = 1 then width - Math_floor (width / 2) else cellW);
                  h = (if row = 3 then height - Math_floor (height / 4) * 3 else cellH)
              in fillRect x y w h c)
           else c) c [0..<8])"

definition drawSmoothMosaic :: "FontMetrics \<Rightarrow> int \<Rightarrow> rat \<Rightarrow> rat \<Rightarrow> color \<Rightarrow> ctx2d \<Rightarrow> ctx2d" where
  "drawSmoothMosaic m codepoint cellX cellY fgColor c =
     (let width = mwidth m;
          height = mheight m;
          c = c\<lparr>fillStyle := fgColor\<rparr>;
          offset = codepoint - 0x1fb90;
          c = beginPath c
      in if offset < 8 then
           (let c = (case js_index wedge_corners (js_rem offset 4) of
                       Some BLc \<Rightarrow>
                         (let c = moveTo cellX (cellY + height) c;
                              c = lineTo (cellX + width) (cellY + height) c;
                              c = lineTo cellX cellY c
                          in c)
                     | Some BRc \<Rightarrow>
                         (let c = moveTo (cellX + width) (cellY + height) c;
                              c = lineTo cellX (cellY + height) c;
                              c = lineTo (cellX + width) cellY c
                          in c)
                     | Some TLc \<Rightarrow>
                         (let c = moveTo cellX cellY c;
                              c = lineTo (cellX + width) cellY c;
                              c = lineTo cellX (cellY + height) c
                          in c)
                     | Some TRc \<Rightarrow>
                         (let c = moveTo (cellX + width) cellY c;
                              c = lineTo cellX cellY c;
                              c = lineTo (cellX + width) (cellY + height) c
                          in c)
                     | None \<Rightarrow> c);
                c = closePath c;
                c = fill c
            in c)
         else
           (let c = fillRect cellX cellY (width / 2) (height / 2) c;
                c = fillRect (cellX + width / 2) (cellY + height / 2) (width / 2) (height / 2) c
            in c))"

definition drawRoundedCorner :: "FontMetrics \<Rightarrow> int \<Rightarrow> rat \<Rightarrow> rat \<Rightarrow> color \<Rightarrow> ctx2d \<Rightarrow> ctx2d" where
  "drawRoundedCorner m codepoint cellX cellY fgColor c =
     (let width = mwidth m;
          height = mheight m;
          thickness = max 1 (Math_round (height / 12));
          centerX = Math_round (cellX + width / 2);
          centerY = Math_round (cellY + height / 2);
          radius = min width height / 2 - thickness / 2;
          c = c\<lparr>strokeStyle := fgColor\<rparr>;
          c = c\<lparr>lineWidth := thickness\<rparr>;
          c = c\<lparr>lineCap := Square\<rparr>;
          c = beginPath c;
          c = (case getRoundedCornerType codepoint of
                 Some DownRight \<Rightarrow>
                   (let c = arc (centerX + radius) (centerY + radius) radius 1 (3 / 2) c;
                        c = moveTo centerX (Math_round (cellY + height / 2 - radius)) c;
                        c = lineTo centerX cellY c;
                        c = moveTo (Math_round (cellX + width / 2 + radius)) centerY c;
                        c = lineTo (cellX + width) centerY c
                    in c)
               | Some DownLeft \<Rightarrow>
                   (let c = arc (centerX - radius) (centerY + radius) radius (3 / 2) 2 c;
                        c = moveTo centerX (Math_round (cellY + height / 2 - radius)) c;
                        c = lineTo centerX cellY c;
                        c = moveTo (Math_round (cellX + width / 2 - radius)) centerY c;
                        c = lineTo cellX centerY c
                    in c)
               | Some UpLeft \<Rightarrow>
                   (let c = arc (centerX - radius) (centerY - radius) radius 0 (1 / 2) c;
                        c = moveTo centerX (Math_round (cellY + height / 2 + radius)) c;
                        c = lineTo centerX (cellY + height) c;
                        c = moveTo (Math_round (cellX + width / 2 - radius)) centerY c;
                        c = lineTo cellX centerY c
                    in c)
               | Some UpRight \<Rightarrow>
                   (let c = arc (centerX + radius) (centerY - radius) radius (1 / 2) 1 c;
                        c = moveTo centerX (Math_round (cellY + height / 2 + radius)) c;
                        c = lineTo centerX (cellY + height) c;
                        c = moveTo (Math_round (cellX + width / 2 + radius)) centerY c;
                        c = lineTo (cellX + width) centerY c
                    in c)
               | None \<Rightarrow> c);
          c = stroke c
      in c)"

definition drawDashedLine :: "FontMetrics \<Rightarrow> int \<Rightarrow> rat \<Rightarrow> rat \<Rightarrow> color \<Rightarrow> ctx2d \<Rightarrow> ctx2d" where
  "drawDashedLine m codepoint cellX cellY fgColor c =
     (case getDashedLineConfig codepoint of
        None \<Rightarrow> c
      | Some config \<Rightarrow>
          (let width = mwidth m;
               height = mheight m;
               baseThickness = max 1 (Math_round (height / 12));
               thickness = (if weight config = WHeavy then baseThickness * 2 else baseThickness);
               c = c\<lparr>fillStyle := fgColor\<rparr>;
               centerX = Math_round (cellX + width / 2);
               centerY = Math_round (cellY + height / 2)
           in if direction config = Horizontal then
                (let dashWidth = width / (of_int (dashes config) * 2 - 1);
                     y = Math_round (centerY - thickness / 2)
                 in foldl (\<lambda>c i.
                      (let x = Math_round (cellX + of_int i * dashWidth * 2)
                       in fillRect x y (Math_round dashWidth) thickness c)) c [0..dashes config - 1])
              else
                (let dashHeight = height / (of_int (dashes config) * 2 - 1);
                     x = Math_round (centerX - thickness / 2)
                 in foldl (\<lambda>c i.
                      (let y = Math_round (cellY + of_int i * dashHeight * 2)
                       in fillRect x y thickness (Math_round dashHeight) c)) c [0..dashes config - 1])))"

section \<open>Cells, collaborators and renderer state\<close>

text \<open>
  Modelled from the spec: \<^verbatim>\<open>GhosttyCell\<close> and \<^verbatim>\<open>CellFlags\<close> are imported from
  \<^verbatim>\<open>./types\<close>, which is not among the sources. The cell has the fields of the spec's
  data model (section 3). The spec names the flags of the bitfield but not their bit
  values, so the masks are a parameter \<open>F\<close> of every function that tests a flag.
\<close>

record GhosttyCell =
  codepoint :: int
  fg_r :: int
  fg_g :: int
  fg_b :: int
  bg_r :: int
  bg_g :: int
  bg_b :: int
  flags :: int
  width :: int
  hyperlink_id :: int
  grapheme_len :: int

record CellFlags =
  BOLD :: int
  ITALIC :: int
  UNDERLINE :: int
  STRIKETHROUGH :: int
  INVERSE :: int
  INVISIBLE :: int
  BLINK :: int
  FAINT :: int

text \<open>\<^verbatim>\<open>cell.flags & CellFlags.X\<close> used as a condition.\<close>

definition has_flag :: "GhosttyCell \<Rightarrow> int \<Rightarrow> bool" where
  "has_flag cell flag \<longleftrightarrow> flags cell AND flag \<noteq> 0"

text \<open>
  Modelled from the spec: \<^verbatim>\<open>ITheme\<close> is imported from \<^verbatim>\<open>./interfaces\<close>; only the six
  non-palette colours of the theme are kept (the renderer's draw path reads no other).
\<close>

record ITheme =
  foreground :: string
  background :: string
  cursor :: string
  cursorAccent :: string
  selectionBackground :: string
  selectionForeground :: string

record CursorInfo =
  cursor_x :: int
  cursor_y :: int
  cursor_visible :: bool

record Dimensions =
  cols :: int
  rows :: int

text \<open>
  Modelled from the spec: the implementation of \<^verbatim>\<open>IRenderable\<close> (the terminal buffer) is
  not among the sources; only the interface is declared in \<^verbatim>\<open>renderer.ts\<close>. The buffer
  is a value holding what its query methods return and the set of dirty rows;
  \<^verbatim>\<open>isRowDirty\<close> reads that set and \<^verbatim>\<open>clearDirty\<close> empties it (spec sections 6 and 8).
  The optional methods \<^verbatim>\<open>needsFullRedraw\<close> and \<^verbatim>\<open>getGraphemeString\<close> are \<open>None\<close> when the
  buffer does not have them.
\<close>

record IRenderable =
  getLine :: "int \<Rightarrow> GhosttyCell list option"
  getCursor :: CursorInfo
  getDimensions :: Dimensions
  dirtyRows :: "int set"
  needsFullRedraw :: "bool option"
  getGraphemeString :: "(int \<Rightarrow> int \<Rightarrow> jsstring) option"

definition isRowDirty :: "IRenderable \<Rightarrow> int \<Rightarrow> bool" where
  "isRowDirty buffer y \<longleftrightarrow> y \<in> dirtyRows buffer"

definition clearDirty :: "IRenderable \<Rightarrow> IRenderable" where
  "clearDirty buffer = buffer\<lparr>dirtyRows := {}\<rparr>"

record IScrollbackProvider =
  getScrollbackLine :: "int \<Rightarrow> GhosttyCell list option"
  getScrollbackLength :: int

record SelectionCoords =
  startCol :: int
  startRow :: int
  endCol :: int
  endRow :: int

text \<open>
  Modelled from the spec: \<^verbatim>\<open>SelectionManager\<close> is imported from \<^verbatim>\<open>./selection-manager\<close>,
  which is not among the sources. It holds what \<^verbatim>\<open>hasSelection\<close> and
  \<^verbatim>\<open>getSelectionCoords\<close> return and the set returned by \<^verbatim>\<open>getDirtySelectionRows\<close>;
  \<^verbatim>\<open>clearDirtySelectionRows\<close> empties that set (spec section 6).
\<close>

record SelectionManager =
  hasSelection :: bool
  getSelectionCoords :: "SelectionCoords option"
  getDirtySelectionRows :: "int set"

definition clearDirtySelectionRows :: "SelectionManager \<Rightarrow> SelectionManager" where
  "clearDirtySelectionRows sm = sm\<lparr>getDirtySelectionRows := {}\<rparr>"

record LinkRange =
  startX :: int
  startY :: int
  endX :: int
  endY :: int

datatype CursorStyle = Block | Underline | Bar

text \<open>The renderer's own methods that \<^verbatim>\<open>render\<close> calls; each records its entry in the
  field \<open>calls\<close> of the renderer, so that a statement can tell which method issued
  a drawing call.\<close>

datatype method_call =
    CallResize int int
  | CallRenderLine int
  | CallRenderCursor int int
  | CallRenderScrollbar

text \<open>
  The fields of \<^verbatim>\<open>CanvasRenderer\<close>. The canvas element and its context are the single
  field \<open>ctx\<close>. \<open>selectionManager\<close> holds the manager itself, so that a call of
  \<^verbatim>\<open>clearDirtySelectionRows\<close> shows in the renderer returned by \<open>render\<close>. The field
  \<open>calls\<close> is the record of method entries described above; the source has no such
  field.
\<close>

record CanvasRenderer =
  ctx :: ctx2d
  calls :: "method_call list"
  fontSize :: rat
  fontFamily :: string
  cursorStyle :: CursorStyle
  cursorBlink :: bool
  theme :: ITheme
  devicePixelRatio :: rat
  metrics :: FontMetrics
  cursorVisible :: bool
  lastCursorPosition :: "int \<times> int"
  lastViewportY :: rat
  currentBuffer :: "IRenderable option"
  selectionManager :: "SelectionManager option"
  currentSelectionCoords :: "SelectionCoords option"
  hoveredHyperlinkId :: int
  previousHoveredHyperlinkId :: int
  hoveredLinkRange :: "LinkRange option"
  previousHoveredLinkRange :: "LinkRange option"
  cursorSuppressed :: bool

text \<open>
  The only exception the draw path can raise: \<^verbatim>\<open>String.fromCodePoint\<close> rejects a
  number that is not a code point. No method of the renderer catches it, so it leaves
  the renderer as it is at the throw: a method that can raise returns \<open>Inr\<close> with the
  renderer it leaves when it returns, or \<open>Inl\<close> with the exception and the renderer
  as the throw leaves it. \<open>outcome\<close> is that renderer in either case.
\<close>

datatype error = RangeError

definition outcome :: "(error \<times> 's) + 's \<Rightarrow> 's" where
  "outcome res = (case res of Inl (e, s) \<Rightarrow> s | Inr s \<Rightarrow> s)"

definition String_fromCodePoint :: "int \<Rightarrow> error + jsstring" where
  "String_fromCodePoint cp = (if 0 \<le> cp \<and> cp \<le> 0x10FFFF then Inr [cp] else Inl RangeError)"

definition rgbToCSS :: "int \<Rightarrow> int \<Rightarrow> int \<Rightarrow> color" where
  "rgbToCSS r g b = Rgb r g b"

definition isInSelection :: "CanvasRenderer \<Rightarrow> int \<Rightarrow> int \<Rightarrow> bool" where
  "isInSelection r x y =
     (case currentSelectionCoords r of
        None \<Rightarrow> False
      | Some sel \<Rightarrow>
          if startRow sel = endRow sel then
            y = startRow sel \<and> x \<ge> startCol sel \<and> x \<le> endCol sel
          else if y = startRow sel then x \<ge> startCol sel
          else if y = endRow sel then x \<le> endCol sel
          else if y > startRow sel \<and> y < endRow sel then True
          else False)"

section \<open>The cell painter\<close>

definition renderCellBackground ::
  "CellFlags \<Rightarrow> CanvasRenderer \<Rightarrow> GhosttyCell \<Rightarrow> int \<Rightarrow> int \<Rightarrow> CanvasRenderer" where
  "renderCellBackground F r cell x y =
     (let cellX = of_int x * mwidth (metrics r);
          cellY = of_int y * mheight (metrics r);
          cellWidth = mwidth (metrics r) * of_int (width cell);
          isSelected = isInSelection r x y
      in if isSelected then
           r\<lparr>ctx := fillRect cellX cellY cellWidth (mheight (metrics r))
                     ((ctx r)\<lparr>fillStyle := Css (selectionBackground (theme r))\<rparr>)\<rparr>
         else
           (let (bgr, bgg, bgb) =
                  (if has_flag cell (INVERSE F) then (fg_r cell, fg_g cell, fg_b cell)
                   else (bg_r cell, bg_g cell, bg_b cell));
                isDefaultBg = (bgr = 0 \<and> bgg = 0 \<and> bgb = 0)
            in if \<not> isDefaultBg then
                 r\<lparr>ctx := fillRect cellX cellY cellWidth (mheight (metrics r))
                           ((ctx r)\<lparr>fillStyle := rgbToCSS bgr bgg bgb\<rparr>)\<rparr>
               else r))"

text \<open>The statement repeated after every procedural branch of \<^verbatim>\<open>renderCellText\<close>:
  \<^verbatim>\<open>if (cell.flags & CellFlags.FAINT) this.ctx.globalAlpha = 1.0\<close>.\<close>

definition resetFaint :: "CellFlags \<Rightarrow> GhosttyCell \<Rightarrow> ctx2d \<Rightarrow> ctx2d" where
  "resetFaint F cell c = (if has_flag cell (FAINT F) then c\<lparr>globalAlpha := 1\<rparr> else c)"

text \<open>One of the four decoration strokes of \<^verbatim>\<open>renderCellText\<close>: a 1-px line from
  \<open>(cellX, lineY)\<close> to \<open>(cellX + cellWidth, lineY)\<close> in the given stroke style.\<close>

definition strokeLine :: "color \<Rightarrow> rat \<Rightarrow> rat \<Rightarrow> rat \<Rightarrow> ctx2d \<Rightarrow> ctx2d" where
  "strokeLine style cellX cellWidth lineY c =
     (let c = c\<lparr>strokeStyle := style\<rparr>;
          c = c\<lparr>lineWidth := 1\<rparr>;
          c = beginPath c;
          c = moveTo cellX lineY c;
          c = lineTo (cellX + cellWidth) lineY c;
          c = stroke c
      in c)"

text \<open>The decorations drawn after the text: underline, strikethrough, hovered OSC-8
  hyperlink underline and hovered regex-link underline.\<close>

definition cellDecorations ::
  "CellFlags \<Rightarrow> CanvasRenderer \<Rightarrow> GhosttyCell \<Rightarrow> int \<Rightarrow> int \<Rightarrow> ctx2d \<Rightarrow> ctx2d" where
  "cellDecorations F r cell x y c =
     (let cellX = of_int x * mwidth (metrics r);
          cellY = of_int y * mheight (metrics r);
          cellWidth = mwidth (metrics r) * of_int (width cell);
          c = (if has_flag cell (UNDERLINE F) then
                 (let underlineY = cellY + baseline (metrics r) + 2
                  in strokeLine (fillStyle c) cellX cellWidth underlineY c)
               else c);
          c = (if has_flag cell (STRIKETHROUGH F) then
                 (let strikeY = cellY + mheight (metrics r) / 2
                  in strokeLine (fillStyle c) cellX cellWidth strikeY c)
               else c);
          c = (if hyperlink_id cell > 0 then
                 (let isHovered = (hyperlink_id cell = hoveredHyperlinkId r)
                  in if isHovered then
                       (let underlineY = cellY + baseline (metrics r) + 2
                        in strokeLine (Css ''#4A90E2'') cellX cellWidth underlineY c)
                     else c)
               else c);
          c = (case hoveredLinkRange r of
                 None \<Rightarrow> c
               | Some rng \<Rightarrow>
                   (let isInRange =
                          ((y = startY rng \<and> x \<ge> startX rng \<and> (y < endY rng \<or> x \<le> endX rng))
                           \<or> (y > startY rng \<and> y < endY rng)
                           \<or> (y = endY rng \<and> x \<le> endX rng \<and> (y > startY rng \<or> x \<ge> startX rng)))
                    in if isInRange then
                         (let underlineY = cellY + baseline (metrics r) + 2
                          in strokeLine (Css ''#4A90E2'') cellX cellWidth underlineY c)
                       else c))
      in c)"

text \<open>The set-up part of \<^verbatim>\<open>renderCellText\<close>: font, fill colour (selection foreground, or
  the cell's foreground with INVERSE applied) and the FAINT alpha.\<close>

definition setTextStyle :: "CellFlags \<Rightarrow> CanvasRenderer \<Rightarrow> GhosttyCell \<Rightarrow> int \<Rightarrow> int \<Rightarrow> ctx2d" where
  "setTextStyle F r cell x y =
     (let isSelected = isInSelection r x y;
          fontStyle = (if has_flag cell (ITALIC F) then ''italic '' else [])
                      @ (if has_flag cell (BOLD F) then ''bold '' else []);
          c = (ctx r)\<lparr>font := Font fontStyle (fontSize r) (fontFamily r)\<rparr>;
          c = (if isSelected then c\<lparr>fillStyle := Css (selectionForeground (theme r))\<rparr>
               else
                 (let (fgr, fgg, fgb) =
                        (if has_flag cell (INVERSE F) then (bg_r cell, bg_g cell, bg_b cell)
                         else (fg_r cell, fg_g cell, fg_b cell))
                  in c\<lparr>fillStyle := rgbToCSS fgr fgg fgb\<rparr>));
          c = (if has_flag cell (FAINT F) then c\<lparr>globalAlpha := 1 / 2\<rparr> else c)
      in c)"

definition renderCellText ::
  "CellFlags \<Rightarrow> CanvasRenderer \<Rightarrow> GhosttyCell \<Rightarrow> int \<Rightarrow> int
     \<Rightarrow> (error \<times> CanvasRenderer) + CanvasRenderer" where
  "renderCellText F r cell x y =
     (let m = metrics r;
          cellX = of_int x * mwidth m;
          cellY = of_int y * mheight m
      in if has_flag cell (INVISIBLE F) then Inr r
         else
           (let c = setTextStyle F r cell x y;
                textX = cellX;
                textY = cellY + baseline m;
                cp = (if codepoint cell = 0 then 32 else codepoint cell);
                fgColor = fillStyle c
            in if isBoxDrawingChar cp then
                 Inr (r\<lparr>ctx := resetFaint F cell (drawBoxChar m cp cellX cellY fgColor c)\<rparr>)
               else if isBlockElement cp then
                 Inr (r\<lparr>ctx := resetFaint F cell (drawBlockChar m cp cellX cellY fgColor c)\<rparr>)
               else if isBraillePattern cp then
                 Inr (r\<lparr>ctx := resetFaint F cell (drawBrailleChar m cp cellX cellY fgColor c)\<rparr>)
               else if isSextant cp then
                 Inr (r\<lparr>ctx := resetFaint F cell (drawSextantChar m cp cellX cellY fgColor c)\<rparr>)
               else if isCornerTriangle cp then
                 Inr (r\<lparr>ctx := resetFaint F cell (drawCornerTriangle m cp cellX cellY fgColor c)\<rparr>)
               else if isPowerlineChar cp then
                 Inr (r\<lparr>ctx := resetFaint F cell (drawPowerlineChar m cp cellX cellY fgColor c)\<rparr>)
               else if isLegacyWedge cp then
                 Inr (r\<lparr>ctx := resetFaint F cell (drawLegacyWedge m cp cellX cellY fgColor c)\<rparr>)
               else if isOctant cp then
                 Inr (r\<lparr>ctx := resetFaint F cell (drawOctant m cp cellX cellY fgColor c)\<rparr>)
               else if isSmoothMosaic cp then
                 Inr (r\<lparr>ctx := resetFaint F cell (drawSmoothMosaic m cp cellX cellY fgColor c)\<rparr>)
               else if isRoundedCorner cp then
                 Inr (r\<lparr>ctx := resetFaint F cell (drawRoundedCorner m cp cellX cellY fgColor c)\<rparr>)
               else if isDashedLine cp then
                 Inr (r\<lparr>ctx := resetFaint F cell (drawDashedLine m cp cellX cellY fgColor c)\<rparr>)
               else
                 (case (case currentBuffer r of
                          None \<Rightarrow> None
                        | Some buffer \<Rightarrow> if grapheme_len cell > 0 then getGraphemeString buffer else None) of
                    Some grapheme \<Rightarrow>
                      Inr (r\<lparr>ctx := cellDecorations F r cell x y
                                       (resetFaint F cell (fillText (grapheme y x) textX textY c))\<rparr>)
                  | None \<Rightarrow>
                      (case String_fromCodePoint cp of
                         Inl e \<Rightarrow> Inl (e, r\<lparr>ctx := c\<rparr>)
                       | Inr char \<Rightarrow>
                           Inr (r\<lparr>ctx := cellDecorations F r cell x y
                                            (resetFaint F cell (fillText char textX textY c))\<rparr>)))))"

text \<open>The two loops of \<^verbatim>\<open>renderLine\<close> over \<^verbatim>\<open>x = 0 .. line.length - 1\<close>; cells of width
  0 are skipped.\<close>

fun renderLine_backgrounds ::
  "CellFlags \<Rightarrow> CanvasRenderer \<Rightarrow> GhosttyCell list \<Rightarrow> int \<Rightarrow> int \<Rightarrow> CanvasRenderer" where
  "renderLine_backgrounds F r [] x y = r"
| "renderLine_backgrounds F r (cell # rest) x y =
     (if width cell = 0 then renderLine_backgrounds F r rest (x + 1) y
      else renderLine_backgrounds F (renderCellBackground F r cell x y) rest (x + 1) y)"

fun renderLine_texts ::
  "CellFlags \<Rightarrow> CanvasRenderer \<Rightarrow> GhosttyCell list \<Rightarrow> int \<Rightarrow> int
     \<Rightarrow> (error \<times> CanvasRenderer) + CanvasRenderer" where
  "renderLine_texts F r [] x y = Inr r"
| "renderLine_texts F r (cell # rest) x y =
     (if width cell = 0 then renderLine_texts F r rest (x + 1) y
      else
        (case renderCellText F r cell x y of
           Inl e \<Rightarrow> Inl e
         | Inr r' \<Rightarrow> renderLine_texts F r' rest (x + 1) y))"

definition renderLine ::
  "CellFlags \<Rightarrow> CanvasRenderer \<Rightarrow> GhosttyCell list \<Rightarrow> int \<Rightarrow> int
     \<Rightarrow> (error \<times> CanvasRenderer) + CanvasRenderer" where
  "renderLine F r line y ncols =
     (let r = r\<lparr>calls := calls r @ [CallRenderLine y]\<rparr>;
          lineY = of_int y * mheight (metrics r);
          c = (ctx r)\<lparr>fillStyle := Css (background (theme r))\<rparr>;
          c = fillRect 0 lineY (of_int ncols * mwidth (metrics r)) (mheight (metrics r)) c;
          r = renderLine_backgrounds F (r\<lparr>ctx := c\<rparr>) line 0 y
      in renderLine_texts F r line 0 y)"

section \<open>The frame orchestrator\<close>

definition resize :: "CanvasRenderer \<Rightarrow> int \<Rightarrow> int \<Rightarrow> CanvasRenderer" where
  "resize r ncols nrows =
     (let r = r\<lparr>calls := calls r @ [CallResize ncols nrows]\<rparr>;
          cssWidth = of_int ncols * mwidth (metrics r);
          cssHeight = of_int nrows * mheight (metrics r);
          c = ctx r;
          c = c\<lparr>ops := ops c @ [SetStyleWidth cssWidth]\<rparr>;
          c = c\<lparr>ops := ops c @ [SetStyleHeight cssHeight]\<rparr>;
          c = c\<lparr>canvas_width := cssWidth * devicePixelRatio r,
                ops := ops c @ [SetCanvasWidth (cssWidth * devicePixelRatio r)]\<rparr>;
          c = c\<lparr>canvas_height := cssHeight * devicePixelRatio r,
                ops := ops c @ [SetCanvasHeight (cssHeight * devicePixelRatio r)]\<rparr>;
          c = scale (devicePixelRatio r) (devicePixelRatio r) c;
          c = c\<lparr>textBaseline := ''alphabetic''\<rparr>;
          c = c\<lparr>textAlign := ''left''\<rparr>;
          c = c\<lparr>fillStyle := Css (background (theme r))\<rparr>;
          c = fillRect 0 0 cssWidth cssHeight c
      in r\<lparr>ctx := c\<rparr>)"

definition renderCursor :: "CanvasRenderer \<Rightarrow> int \<Rightarrow> int \<Rightarrow> CanvasRenderer" where
  "renderCursor r x y =
     (let r = r\<lparr>calls := calls r @ [CallRenderCursor x y]\<rparr>;
          cursorX = of_int x * mwidth (metrics r);
          cursorY = of_int y * mheight (metrics r);
          c = (ctx r)\<lparr>fillStyle := Css (cursor (theme r))\<rparr>;
          c = (case cursorStyle r of
                 Block \<Rightarrow> fillRect cursorX cursorY (mwidth (metrics r)) (mheight (metrics r)) c
               | Underline \<Rightarrow>
                   (let underlineHeight = max 2 (Math_floor (mheight (metrics r) * (15 / 100)))
                    in fillRect cursorX (cursorY + mheight (metrics r) - underlineHeight)
                         (mwidth (metrics r)) underlineHeight c)
               | Bar \<Rightarrow>
                   (let barWidth = max 2 (Math_floor (mwidth (metrics r) * (15 / 100)))
                    in fillRect cursorX cursorY barWidth (mheight (metrics r)) c))
      in r\<lparr>ctx := c\<rparr>)"

definition renderScrollbar :: "CanvasRenderer \<Rightarrow> rat \<Rightarrow> int \<Rightarrow> int \<Rightarrow> rat \<Rightarrow> CanvasRenderer" where
  "renderScrollbar r viewportY scrollbackLength visibleRows opacity =
     (let r = r\<lparr>calls := calls r @ [CallRenderScrollbar]\<rparr>;
          c = ctx r;
          canvasHeight = canvas_height c / devicePixelRatio r;
          canvasWidth = canvas_width c / devicePixelRatio r;
          scrollbarWidth = 8;
          scrollbarX = canvasWidth - scrollbarWidth - 4;
          scrollbarPadding = 4;
          scrollbarTrackHeight = canvasHeight - scrollbarPadding * 2;
          c = c\<lparr>fillStyle := Css (background (theme r))\<rparr>;
          c = fillRect (scrollbarX - 2) 0 (scrollbarWidth + 6) canvasHeight c
      in if opacity \<le> 0 \<or> scrollbackLength = 0 then r\<lparr>ctx := c\<rparr>
         else
           (let totalLines = scrollbackLength + visibleRows;
                thumbHeight = max 20 ((of_int visibleRows / of_int totalLines) * scrollbarTrackHeight);
                scrollPosition = viewportY / of_int scrollbackLength;
                thumbY = scrollbarPadding + (scrollbarTrackHeight - thumbHeight) * (1 - scrollPosition);
                c = c\<lparr>fillStyle := Rgba 128 128 128 ((1 / 10) * opacity)\<rparr>;
                c = fillRect scrollbarX scrollbarPadding scrollbarWidth scrollbarTrackHeight c;
                isScrolled = (viewportY > 0);
                baseOpacity = (if isScrolled then 1 / 2 else 3 / 10);
                c = c\<lparr>fillStyle := Rgba 128 128 128 (baseOpacity * opacity)\<rparr>;
                c = fillRect scrollbarX thumbY scrollbarWidth thumbHeight c
            in r\<lparr>ctx := c\<rparr>))"

text \<open>
  The line of a viewport row, as fetched in the row loop of \<^verbatim>\<open>render\<close>: the comparison
  uses \<^verbatim>\<open>viewportY\<close> itself, the offsets use \<^verbatim>\<open>Math.floor(viewportY)\<close>.
\<close>

definition fetchLine ::
  "IRenderable \<Rightarrow> rat \<Rightarrow> IScrollbackProvider option \<Rightarrow> int \<Rightarrow> int \<Rightarrow> GhosttyCell list option" where
  "fetchLine buffer viewportY scrollbackProvider scrollbackLength y =
     (if viewportY > 0 then
        (case (of_int y < viewportY, scrollbackProvider) of
           (True, Some provider) \<Rightarrow>
             (let scrollbackOffset = scrollbackLength - \<lfloor>viewportY\<rfloor> + y
              in getScrollbackLine provider scrollbackOffset)
         | _ \<Rightarrow>
             (let screenRow = (if viewportY > 0 then y - \<lfloor>viewportY\<rfloor> else y)
              in getLine buffer screenRow))
      else getLine buffer y)"

text \<open>The same fetch as written a second time in the hyperlink scan of \<^verbatim>\<open>render\<close>.\<close>

definition fetchLine_scan ::
  "IRenderable \<Rightarrow> rat \<Rightarrow> IScrollbackProvider option \<Rightarrow> int \<Rightarrow> int \<Rightarrow> GhosttyCell list option" where
  "fetchLine_scan buffer viewportY scrollbackProvider scrollbackLength y =
     (if viewportY > 0 then
        (case (of_int y < viewportY, scrollbackProvider) of
           (True, Some provider) \<Rightarrow>
             (let scrollbackOffset = scrollbackLength - \<lfloor>viewportY\<rfloor> + y
              in getScrollbackLine provider scrollbackOffset)
         | _ \<Rightarrow>
             (let screenRow = y - \<lfloor>viewportY\<rfloor>
              in getLine buffer screenRow))
      else getLine buffer y)"

text \<open>
  \<^verbatim>\<open>render\<close>, in the order of the source. Its parts are separate definitions:
  the beginning, the repaint of the cursor lines, the selection rows, the link rows,
  the set of rows to render, the row loop and the end. \<^verbatim>\<open>render\<close> returns the renderer
  and the buffer it leaves, or the exception raised on the way with both.
  (\<^verbatim>\<open>anyLinesRendered\<close> is written but never read and is left out.)
\<close>

definition render_cursorLines ::
  "CellFlags \<Rightarrow> CanvasRenderer \<Rightarrow> IRenderable \<Rightarrow> bool
     \<Rightarrow> (error \<times> CanvasRenderer) + CanvasRenderer" where
  "render_cursorLines F r buffer forceAll =
     (let cur = getCursor buffer;
          dims = getDimensions buffer;
          cursorMoved = (cursor_x cur \<noteq> fst (lastCursorPosition r)
                         \<or> cursor_y cur \<noteq> snd (lastCursorPosition r))
      in if cursorMoved \<or> cursorBlink r then
           (case (if \<not> forceAll \<and> \<not> isRowDirty buffer (cursor_y cur) then
                    (case getLine buffer (cursor_y cur) of
                       Some line \<Rightarrow> renderLine F r line (cursor_y cur) (cols dims)
                     | None \<Rightarrow> Inr r)
                  else Inr r) of
              Inl e \<Rightarrow> Inl e
            | Inr r \<Rightarrow>
                if cursorMoved \<and> snd (lastCursorPosition r) \<noteq> cursor_y cur then
                  (if \<not> forceAll \<and> \<not> isRowDirty buffer (snd (lastCursorPosition r)) then
                     (case getLine buffer (snd (lastCursorPosition r)) of
                        Some line \<Rightarrow> renderLine F r line (snd (lastCursorPosition r)) (cols dims)
                      | None \<Rightarrow> Inr r)
                   else Inr r)
                else Inr r)
         else Inr r)"

definition render_selectionRows :: "CanvasRenderer \<Rightarrow> CanvasRenderer \<times> int set" where
  "render_selectionRows r =
     (let hasSel = (case selectionManager r of Some sm \<Rightarrow> hasSelection sm | None \<Rightarrow> False);
          r = r\<lparr>currentSelectionCoords :=
                  (if hasSel then
                     (case selectionManager r of Some sm \<Rightarrow> getSelectionCoords sm | None \<Rightarrow> None)
                   else None)\<rparr>;
          selectionRows =
            (case currentSelectionCoords r of
               Some coords \<Rightarrow> set [startRow coords..endRow coords]
             | None \<Rightarrow> {})
      in case selectionManager r of
           Some sm \<Rightarrow>
             (let dirty = getDirtySelectionRows sm
              in if dirty \<noteq> {} then
                   (r\<lparr>selectionManager := Some (clearDirtySelectionRows sm)\<rparr>, selectionRows \<union> dirty)
                 else (r, selectionRows))
         | None \<Rightarrow> (r, selectionRows))"

definition render_hyperlinkRows ::
  "CanvasRenderer \<Rightarrow> IRenderable \<Rightarrow> rat \<Rightarrow> IScrollbackProvider option \<Rightarrow> int
     \<Rightarrow> CanvasRenderer \<times> int set" where
  "render_hyperlinkRows r buffer viewportY scrollbackProvider scrollbackLength =
     (let dims = getDimensions buffer;
          hyperlinkChanged = (hoveredHyperlinkId r \<noteq> previousHoveredHyperlinkId r);
          linkRangeChanged = (hoveredLinkRange r \<noteq> previousHoveredLinkRange r);
          idRows =
            (if hyperlinkChanged then
               set (filter
                 (\<lambda>y. case fetchLine_scan buffer viewportY scrollbackProvider scrollbackLength y of
                        Some line \<Rightarrow>
                          list_ex (\<lambda>cell. hyperlink_id cell = hoveredHyperlinkId r
                                          \<or> hyperlink_id cell = previousHoveredHyperlinkId r) line
                      | None \<Rightarrow> False)
                 [0..rows dims - 1])
             else {});
          r = (if hyperlinkChanged then r\<lparr>previousHoveredHyperlinkId := hoveredHyperlinkId r\<rparr>
               else r);
          rangeRows =
            (if linkRangeChanged then
               (case previousHoveredLinkRange r of
                  Some old \<Rightarrow> set [startY old..endY old]
                | None \<Rightarrow> {})
               \<union> (case hoveredLinkRange r of
                    Some new \<Rightarrow> set [startY new..endY new]
                  | None \<Rightarrow> {})
             else {});
          r = (if linkRangeChanged then r\<lparr>previousHoveredLinkRange := hoveredLinkRange r\<rparr>
               else r)
      in (r, idRows \<union> rangeRows))"

definition render_rowsToRender ::
  "IRenderable \<Rightarrow> bool \<Rightarrow> rat \<Rightarrow> int set \<Rightarrow> int set \<Rightarrow> int set" where
  "render_rowsToRender buffer forceAll viewportY selectionRows hyperlinkRows =
     (let dims = getDimensions buffer
      in set (concat (map
           (\<lambda>y. let needsRender =
                       (if viewportY > 0 then True
                        else forceAll \<or> isRowDirty buffer y \<or> y \<in> selectionRows \<or> y \<in> hyperlinkRows)
                 in if needsRender then
                      [y] @ (if y > 0 then [y - 1] else [])
                          @ (if y < rows dims - 1 then [y + 1] else [])
                    else [])
           [0..rows dims - 1])))"

fun render_rows ::
  "CellFlags \<Rightarrow> CanvasRenderer \<Rightarrow> IRenderable \<Rightarrow> rat \<Rightarrow> IScrollbackProvider option \<Rightarrow> int
     \<Rightarrow> int set \<Rightarrow> int list \<Rightarrow> (error \<times> CanvasRenderer) + CanvasRenderer" where
  "render_rows F r buffer viewportY scrollbackProvider scrollbackLength rowsToRender [] = Inr r"
| "render_rows F r buffer viewportY scrollbackProvider scrollbackLength rowsToRender (y # ys) =
     (if y \<notin> rowsToRender then
        render_rows F r buffer viewportY scrollbackProvider scrollbackLength rowsToRender ys
      else
        (case fetchLine buffer viewportY scrollbackProvider scrollbackLength y of
           None \<Rightarrow> render_rows F r buffer viewportY scrollbackProvider scrollbackLength rowsToRender ys
         | Some line \<Rightarrow>
             (case renderLine F r line y (cols (getDimensions buffer)) of
                Inl e \<Rightarrow> Inl e
              | Inr r' \<Rightarrow>
                  render_rows F r' buffer viewportY scrollbackProvider scrollbackLength rowsToRender ys)))"

definition shouldDrawCursor :: "CanvasRenderer \<Rightarrow> IRenderable \<Rightarrow> rat \<Rightarrow> bool" where
  "shouldDrawCursor r buffer viewportY \<longleftrightarrow>
     viewportY = 0 \<and> cursor_visible (getCursor buffer) \<and> cursorVisible r \<and> \<not> cursorSuppressed r"

text \<open>The end of \<^verbatim>\<open>render\<close>, after the row loop: cursor, scrollbar, last cursor position
  and \<^verbatim>\<open>buffer.clearDirty()\<close>. \<open>currentBuffer\<close> refers to the buffer object, so it shows
  the cleared buffer as well.\<close>

definition render_finish ::
  "CanvasRenderer \<Rightarrow> IRenderable \<Rightarrow> rat \<Rightarrow> IScrollbackProvider option \<Rightarrow> int \<Rightarrow> rat
     \<Rightarrow> CanvasRenderer \<times> IRenderable" where
  "render_finish r buffer viewportY scrollbackProvider scrollbackLength scrollbarOpacity =
     (let cur = getCursor buffer;
          dims = getDimensions buffer;
          r = (if shouldDrawCursor r buffer viewportY then renderCursor r (cursor_x cur) (cursor_y cur)
               else r);
          r = (if scrollbackProvider \<noteq> None \<and> scrollbarOpacity > 0 then
                 renderScrollbar r viewportY scrollbackLength (rows dims) scrollbarOpacity
               else r);
          r = r\<lparr>lastCursorPosition := (cursor_x cur, cursor_y cur)\<rparr>;
          buffer = clearDirty buffer
      in (r\<lparr>currentBuffer := Some buffer\<rparr>, buffer))"

text \<open>The beginning of \<^verbatim>\<open>render\<close>: buffer reference, forced full redraw, canvas resize and
  viewport change. It returns the renderer and the value of \<^verbatim>\<open>forceAll\<close>.\<close>

definition render_prepare ::
  "CanvasRenderer \<Rightarrow> IRenderable \<Rightarrow> bool \<Rightarrow> rat \<Rightarrow> CanvasRenderer \<times> bool" where
  "render_prepare r buffer forceAll viewportY =
     (let r = r\<lparr>currentBuffer := Some buffer\<rparr>;
          dims = getDimensions buffer;
          forceAll = (if needsFullRedraw buffer = Some True then True else forceAll);
          needsResize =
            (canvas_width (ctx r) \<noteq> of_int (cols dims) * mwidth (metrics r) * devicePixelRatio r
             \<or> canvas_height (ctx r) \<noteq> of_int (rows dims) * mheight (metrics r) * devicePixelRatio r);
          r = (if needsResize then resize r (cols dims) (rows dims) else r);
          forceAll = (if needsResize then True else forceAll);
          viewportChanged = (viewportY \<noteq> lastViewportY r);
          r = (if viewportChanged then r\<lparr>lastViewportY := viewportY\<rparr> else r);
          forceAll = (if viewportChanged then True else forceAll)
      in (r, forceAll))"

text \<open>The part of \<^verbatim>\<open>render\<close> between the beginning and the end: cursor lines, selection
  rows, link rows and the row loop.\<close>

definition render_paint ::
  "CellFlags \<Rightarrow> CanvasRenderer \<Rightarrow> IRenderable \<Rightarrow> bool \<Rightarrow> rat \<Rightarrow> IScrollbackProvider option
     \<Rightarrow> (error \<times> CanvasRenderer) + CanvasRenderer" where
  "render_paint F r buffer forceAll viewportY scrollbackProvider =
     (let dims = getDimensions buffer;
          scrollbackLength =
            (case scrollbackProvider of Some provider \<Rightarrow> getScrollbackLength provider | None \<Rightarrow> 0)
      in case render_cursorLines F r buffer forceAll of
           Inl e \<Rightarrow> Inl e
         | Inr r \<Rightarrow>
             (let (r, selectionRows) = render_selectionRows r;
                  (r, hyperlinkRows) =
                    render_hyperlinkRows r buffer viewportY scrollbackProvider scrollbackLength;
                  rowsToRender =
                    render_rowsToRender buffer forceAll viewportY selectionRows hyperlinkRows
              in render_rows F r buffer viewportY scrollbackProvider scrollbackLength
                   rowsToRender [0..rows dims - 1]))"

text \<open>\<^verbatim>\<open>render\<close> itself. An exception leaves the buffer as it was given: \<^verbatim>\<open>clearDirty\<close> has
  not been called.\<close>

definition render ::
  "CellFlags \<Rightarrow> CanvasRenderer \<Rightarrow> IRenderable \<Rightarrow> bool \<Rightarrow> rat \<Rightarrow> IScrollbackProvider option \<Rightarrow> rat
     \<Rightarrow> (error \<times> CanvasRenderer \<times> IRenderable) + CanvasRenderer \<times> IRenderable" where
  "render F r buffer forceAll viewportY scrollbackProvider scrollbarOpacity =
     (let scrollbackLength =
            (case scrollbackProvider of Some provider \<Rightarrow> getScrollbackLength provider | None \<Rightarrow> 0);
          (r, forceAll) = render_prepare r buffer forceAll viewportY
      in case render_paint F r buffer forceAll viewportY scrollbackProvider of
           Inl (e, r) \<Rightarrow> Inl (e, r, buffer)
         | Inr r \<Rightarrow>
             Inr (render_finish r buffer viewportY scrollbackProvider scrollbackLength
                    scrollbarOpacity))"

section \<open>Observations on the recorded drawing calls\<close>

text \<open>\<open>adds P c c'\<close>: the context \<open>c'\<close> has the recorded calls of \<open>c\<close> followed by new
  calls that all satisfy \<open>P\<close>.\<close>

definition adds :: "(canvas_op \<Rightarrow> bool) \<Rightarrow> ctx2d \<Rightarrow> ctx2d \<Rightarrow> bool" where
  "adds P c c' \<longleftrightarrow> (\<exists>new. ops c' = ops c @ new \<and> list_all P new)"

fun isFillRect :: "canvas_op \<Rightarrow> bool" where
  "isFillRect (FillRect _ _ _ _ _ _) = True"
| "isFillRect _ = False"

fun isStroke :: "canvas_op \<Rightarrow> bool" where
  "isStroke (Stroke _ _ _ _ _) = True"
| "isStroke _ = False"

text \<open>\<open>frame r r'\<close>: the renderer \<open>r'\<close> differs from \<open>r\<close> in the context and the record of
  method entries only.\<close>

definition frame :: "CanvasRenderer \<Rightarrow> CanvasRenderer \<Rightarrow> bool" where
  "frame r r' \<longleftrightarrow> (\<exists>c k. r' = r\<lparr>ctx := c, calls := k\<rparr>)"

text \<open>The entries of \<^verbatim>\<open>renderCursor\<close> among the recorded method entries.\<close>

fun isRenderCursorCall :: "method_call \<Rightarrow> bool" where
  "isRenderCursorCall (CallRenderCursor _ _) = True"
| "isRenderCursorCall _ = False"

definition cursorCalls :: "CanvasRenderer \<Rightarrow> method_call list" where
  "cursorCalls r = filter isRenderCursorCall (calls r)"

text \<open>A cell whose code point \<^verbatim>\<open>String.fromCodePoint\<close> accepts, and a line source that
  delivers such cells only.\<close>

definition valid_codepoint :: "GhosttyCell \<Rightarrow> bool" where
  "valid_codepoint cell \<longleftrightarrow> 0 \<le> codepoint cell \<and> codepoint cell \<le> 0x10FFFF"

definition valid_lines :: "(int \<Rightarrow> GhosttyCell list option) \<Rightarrow> bool" where
  "valid_lines get \<longleftrightarrow> (\<forall>y line. get y = Some line \<longrightarrow> list_all valid_codepoint line)"

text \<open>\<open>issued r r'\<close>: the drawing calls recorded in \<open>r'\<close> after those of \<open>r\<close>.\<close>

definition issued :: "CanvasRenderer \<Rightarrow> CanvasRenderer \<Rightarrow> canvas_op list" where
  "issued r r' = drop (length (ops (ctx r))) (ops (ctx r'))"

text \<open>\<open>keeps r r'\<close>: the renderer \<open>r'\<close> has the metrics, theme, cursor options and last cursor
  position of \<open>r\<close>, the same entries of \<^verbatim>\<open>renderCursor\<close>, and at least as many recorded
  drawing calls.\<close>

definition keeps :: "CanvasRenderer \<Rightarrow> CanvasRenderer \<Rightarrow> bool" where
  "keeps r r' \<longleftrightarrow>
     metrics r' = metrics r \<and> theme r' = theme r \<and> cursorStyle r' = cursorStyle r
     \<and> cursorBlink r' = cursorBlink r \<and> cursorVisible r' = cursorVisible r
     \<and> cursorSuppressed r' = cursorSuppressed r \<and> devicePixelRatio r' = devicePixelRatio r
     \<and> lastCursorPosition r' = lastCursorPosition r
     \<and> cursorCalls r' = cursorCalls r
     \<and> length (ops (ctx r)) \<le> length (ops (ctx r'))"

text \<open>
  The condition under which \<^verbatim>\<open>render\<close> calls \<^verbatim>\<open>renderLine\<close> before its row loop, given the
  value \<^verbatim>\<open>forceAll\<close> has there: the cursor moved or blinks, the frame is not forced, and
  the cursor's row, or the row the cursor left, is not dirty and has a line.
\<close>

definition cursorLinesRepainted :: "CanvasRenderer \<Rightarrow> IRenderable \<Rightarrow> bool \<Rightarrow> bool" where
  "cursorLinesRepainted r buffer forceAll \<longleftrightarrow>
     (let cur = getCursor buffer;
          cursorMoved = (cursor_x cur \<noteq> fst (lastCursorPosition r)
                         \<or> cursor_y cur \<noteq> snd (lastCursorPosition r))
      in (cursorMoved \<or> cursorBlink r) \<and> \<not> forceAll
         \<and> ((\<not> isRowDirty buffer (cursor_y cur) \<and> getLine buffer (cursor_y cur) \<noteq> None)
            \<or> (cursorMoved \<and> snd (lastCursorPosition r) \<noteq> cursor_y cur
               \<and> \<not> isRowDirty buffer (snd (lastCursorPosition r))
               \<and> getLine buffer (snd (lastCursorPosition r)) \<noteq> None)))"

section \<open>Example inputs\<close>

text \<open>
  Concrete inputs for the worked examples: a choice of flag masks (one bit per flag), a
  fresh context on an 800 x 480 canvas, a renderer with the default options and a cell
  of 10 x 20 pixels, and a white-on-black cell with a given code point and flag word.
\<close>

definition example_flags :: CellFlags where
  "example_flags = \<lparr>BOLD = 1, ITALIC = 2, UNDERLINE = 4, STRIKETHROUGH = 8, INVERSE = 16, INVISIBLE = 32, BLINK = 64, FAINT = 128\<rparr>"

definition example_ctx :: ctx2d where
  "example_ctx = \<lparr>fillStyle = Css ''#000000'', strokeStyle = Css ''#000000'', globalAlpha = 1,
     font = Font [] 10 ''sans-serif'', lineWidth = 1, lineCap = Butt, textBaseline = ''alphabetic'',
     textAlign = ''start'', path = [], canvas_width = 800, canvas_height = 480, ops = []\<rparr>"

definition example_renderer :: CanvasRenderer where
  "example_renderer = \<lparr>ctx = example_ctx, calls = [], fontSize = 15, fontFamily = ''monospace'', cursorStyle = Block, cursorBlink = False,
     theme = \<lparr>foreground = ''#d4d4d4'', background = ''#1e1e1e'', cursor = ''#ffffff'', cursorAccent = ''#1e1e1e'',
       selectionBackground = ''#d4d4d4'', selectionForeground = ''#1e1e1e''\<rparr>,
     devicePixelRatio = 1, metrics = \<lparr>mwidth = 10, mheight = 20, baseline = 15\<rparr>,
     cursorVisible = True, lastCursorPosition = (0, 0), lastViewportY = 0, currentBuffer = None,
     selectionManager = None, currentSelectionCoords = None, hoveredHyperlinkId = 0,
     previousHoveredHyperlinkId = 0, hoveredLinkRange = None, previousHoveredLinkRange = None,
     cursorSuppressed = False\<rparr>"

definition example_cell :: "int \<Rightarrow> int \<Rightarrow> GhosttyCell" where
  "example_cell cp fl = \<lparr>codepoint = cp, fg_r = 255, fg_g = 255, fg_b = 255, bg_r = 0, bg_g = 0, bg_b = 0,
     flags = fl, width = 1, hyperlink_id = 0, grapheme_len = 0\<rparr>"

text \<open>
  A buffer of 4 rows and 2 columns (row \<open>y\<close> holds the letter U+0041 + \<open>y\<close> and a U+2500)
  with the cursor at column 1 of row 3 and row 1 dirty; a scrollback of 10 lines; a
  buffer of 0 x 0 cells that has no line; a selection manager with one dirty selection
  row; and the example renderer on a canvas of 0 x 0 pixels with the cursor suppressed.
\<close>

definition example_buffer :: IRenderable where
  "example_buffer = \<lparr>
     getLine = (\<lambda>y. if 0 \<le> y \<and> y < 4 then Some [example_cell (0x41 + y) 0, example_cell 0x2500 0] else None),
     getCursor = \<lparr>cursor_x = 1, cursor_y = 3, cursor_visible = True\<rparr>,
     getDimensions = \<lparr>cols = 2, rows = 4\<rparr>,
     dirtyRows = {1},
     needsFullRedraw = None,
     getGraphemeString = None\<rparr>"

definition example_scrollback :: IScrollbackProvider where
  "example_scrollback = \<lparr>
     getScrollbackLine = (\<lambda>k. if 0 \<le> k \<and> k < 10 then Some [example_cell (0x61 + k) 0, example_cell 0x20 0] else None),
     getScrollbackLength = 10\<rparr>"

definition empty_buffer :: IRenderable where
  "empty_buffer = \<lparr>
     getLine = (\<lambda>y. None),
     getCursor = \<lparr>cursor_x = 0, cursor_y = 0, cursor_visible = True\<rparr>,
     getDimensions = \<lparr>cols = 0, rows = 0\<rparr>,
     dirtyRows = {},
     needsFullRedraw = None,
     getGraphemeString = None\<rparr>"

definition example_selection :: SelectionManager where
  "example_selection = \<lparr>hasSelection = False, getSelectionCoords = None, getDirtySelectionRows = {2}\<rparr>"

definition zero_renderer :: CanvasRenderer where
  "zero_renderer = example_renderer\<lparr>ctx := example_ctx\<lparr>canvas_width := 0, canvas_height := 0\<rparr>,
                                     cursorSuppressed := True\<rparr>"

text \<open>
  The example buffer with a number that is not a code point in the first cell of row 0;
  and a buffer of 0 x 0 cells that returns an empty line for row 0, with the cursor at
  column 1 of that row.
\<close>

definition invalid_buffer :: IRenderable where
  "invalid_buffer = example_buffer\<lparr>
     getLine := (\<lambda>y. if y = 0 then Some [example_cell 0x110000 0, example_cell 0x2500 0]
                     else getLine example_buffer y)\<rparr>"

definition empty_line_buffer :: IRenderable where
  "empty_line_buffer = empty_buffer\<lparr>
     getLine := (\<lambda>y. if y = 0 then Some [] else None),
     getCursor := \<lparr>cursor_x = 1, cursor_y = 0, cursor_visible = True\<rparr>\<rparr>"

section \<open>Properties of the cell painter\<close>

subsection \<open>Recorded calls and alpha of the drawing procedures\<close>

lemma adds_refl: "adds P c c"
  by (simp add: adds_def)

lemma adds_trans: "adds P a b \<Longrightarrow> adds P b c \<Longrightarrow> adds P a c"
  by (auto simp: adds_def)

lemma adds_mono: "adds P a b \<Longrightarrow> (\<And>op. P op \<Longrightarrow> Q op) \<Longrightarrow> adds Q a b"
  by (auto simp: adds_def list_all_iff)

lemma adds_same_ops: "ops c' = ops c \<Longrightarrow> adds P c c'"
  by (simp add: adds_def)

lemma adds_fillRect: "P (FillRect (fillStyle c) (globalAlpha c) x y w h) \<Longrightarrow> adds P c (fillRect x y w h c)"
  by (simp add: adds_def fillRect_def)

lemma adds_fill: "P (Fill (fillStyle c) (globalAlpha c) (path c)) \<Longrightarrow> adds P c (fill c)"
  by (simp add: adds_def fill_def)

lemma adds_foldl: "(\<And>c i. adds P c (f c i)) \<Longrightarrow> adds P c (foldl f c xs)"
proof (induction xs arbitrary: c)
  case Nil
  show ?case by (simp add: adds_refl)
next
  case (Cons i xs)
  have "adds P c (f c i)" by (rule Cons.prems)
  moreover have "adds P (f c i) (foldl f (f c i) xs)" by (rule Cons.IH) (rule Cons.prems)
  ultimately show ?case by (simp add: adds_trans)
qed

lemma fillRect_only_rects: "adds isFillRect c (fillRect x y w h c)"
  by (simp add: adds_fillRect)

lemma adds_boxHorizontal: "adds isFillRect c (boxHorizontal l cx w ccx ccy lt ht dg dt c)"
  by (simp add: adds_def boxHorizontal_def fillRect_def Let_def)

lemma adds_boxVertical: "adds isFillRect c (boxVertical l cy h ccx ccy lt ht dg dt c)"
  by (simp add: adds_def boxVertical_def fillRect_def Let_def)

lemma adds_drawBoxChar: "adds isFillRect c (drawBoxChar m cp x y col c)"
proof (cases "getBoxLines cp")
  case None
  then show ?thesis by (simp add: drawBoxChar_def adds_refl)
next
  case (Some l)
  have a: "adds isFillRect c (c\<lparr>fillStyle := col\<rparr>)" by (simp add: adds_same_ops)
  show ?thesis
    unfolding drawBoxChar_def Some option.case Let_def
    by (rule adds_trans[OF a adds_trans[OF adds_boxHorizontal adds_boxVertical]])
qed

lemma alpha_boxHorizontal: "globalAlpha (boxHorizontal l cx w ccx ccy lt ht dg dt c) = globalAlpha c"
  by (simp add: boxHorizontal_def fillRect_def Let_def)

lemma alpha_boxVertical: "globalAlpha (boxVertical l cy h ccx ccy lt ht dg dt c) = globalAlpha c"
  by (simp add: boxVertical_def fillRect_def Let_def)

lemma alpha_drawBoxChar: "globalAlpha (drawBoxChar m cp x y col c) = globalAlpha c"
  by (simp add: drawBoxChar_def alpha_boxHorizontal alpha_boxVertical Let_def split: option.split)

lemma alpha_drawBlockChar:
  "globalAlpha (drawBlockChar m cp x y col c) = globalAlpha c \<or> globalAlpha (drawBlockChar m cp x y col c) = 1"
  by (simp add: drawBlockChar_def fillRect_def Let_def split: option.split BlockType.split)

lemma alpha_foldl: "(\<And>c i. globalAlpha (f c i) = globalAlpha c) \<Longrightarrow> globalAlpha (foldl f c xs) = globalAlpha c"
  by (induction xs arbitrary: c) simp_all

lemma alpha_drawBrailleChar: "globalAlpha (drawBrailleChar m cp x y col c) = globalAlpha c"
  unfolding drawBrailleChar_def Let_def
  by (subst alpha_foldl) (simp_all add: beginPath_def arc_def fill_def split: prod.split)

lemma alpha_drawSextantChar: "globalAlpha (drawSextantChar m cp x y col c) = globalAlpha c"
  unfolding drawSextantChar_def Let_def
  by (subst alpha_foldl) (simp_all add: fillRect_def split: prod.split)

lemma alpha_drawOctant: "globalAlpha (drawOctant m cp x y col c) = globalAlpha c"
  unfolding drawOctant_def Let_def
  by (subst alpha_foldl) (simp_all add: fillRect_def split: prod.split)

lemma alpha_drawCornerTriangle: "globalAlpha (drawCornerTriangle m cp x y col c) = globalAlpha c"
  by (simp add: drawCornerTriangle_def beginPath_def moveTo_def lineTo_def closePath_def fill_def Let_def
      split: option.split TriangleCorner.split)

lemma alpha_drawPowerlineChar: "globalAlpha (drawPowerlineChar m cp x y col c) = globalAlpha c"
  by (simp add: drawPowerlineChar_def beginPath_def moveTo_def lineTo_def closePath_def fill_def Let_def
      split: option.split PowerlineType.split)

lemma alpha_drawLegacyWedge: "globalAlpha (drawLegacyWedge m cp x y col c) = globalAlpha c"
  by (simp add: drawLegacyWedge_def beginPath_def moveTo_def lineTo_def closePath_def fill_def fillRect_def Let_def
      split: option.split WedgeType.split WedgeCorner.split)

lemma alpha_drawSmoothMosaic: "globalAlpha (drawSmoothMosaic m cp x y col c) = globalAlpha c"
  by (simp add: drawSmoothMosaic_def beginPath_def moveTo_def lineTo_def closePath_def fill_def fillRect_def Let_def
      split: option.split WedgeCorner.split)

lemma alpha_drawRoundedCorner: "globalAlpha (drawRoundedCorner m cp x y col c) = globalAlpha c"
  by (simp add: drawRoundedCorner_def beginPath_def moveTo_def lineTo_def arc_def stroke_def Let_def
      split: option.split RoundedCornerType.split)

lemma alpha_drawDashedLine: "globalAlpha (drawDashedLine m cp x y col c) = globalAlpha c"
  by (simp add: drawDashedLine_def alpha_foldl fillRect_def Let_def split: option.split)

lemma alpha_strokeLine: "globalAlpha (strokeLine s x w y c) = globalAlpha c"
  by (simp add: strokeLine_def beginPath_def moveTo_def lineTo_def stroke_def Let_def)

lemma alpha_cellDecorations: "globalAlpha (cellDecorations F r cell x y c) = globalAlpha c"
  by (simp add: cellDecorations_def alpha_strokeLine Let_def split: option.split)

lemma alpha_setTextStyle:
  "globalAlpha (setTextStyle F r cell x y) = (if has_flag cell (FAINT F) then 1 / 2 else globalAlpha (ctx r))"
  by (simp add: setTextStyle_def Let_def split: prod.split)

lemma ops_setTextStyle: "ops (setTextStyle F r cell x y) = ops (ctx r)"
  by (simp add: setTextStyle_def Let_def split: prod.split)

lemma alpha_resetFaint:
  "has_flag cell (FAINT F) \<or> globalAlpha c = 1 \<Longrightarrow> globalAlpha (resetFaint F cell c) = 1"
  by (auto simp: resetFaint_def)

lemma alpha_fillText: "globalAlpha (fillText s x y c) = globalAlpha c"
  by (simp add: fillText_def)

lemma ops_resetFaint: "ops (resetFaint F cell c) = ops c"
  by (simp add: resetFaint_def)

lemma box_char_nonzero: "isBoxDrawingChar cp \<Longrightarrow> (if cp = 0 then 32 else cp) = cp"
  by (simp add: isBoxDrawingChar_def)

lemma unmapped_box_chars_aux:
  "list_all (\<lambda>cp. (getBoxLines cp = None) = (cp = 0x2571 \<or> cp = 0x2572 \<or> cp = 0x2573)) [0x2500..0x257f]"
  by code_simp

lemma unmapped_box_chars:
  "isBoxDrawingChar cp \<and> getBoxLines cp = None \<longleftrightarrow> cp = 0x2571 \<or> cp = 0x2572 \<or> cp = 0x2573"
proof (cases "isBoxDrawingChar cp")
  case True
  then have "cp \<in> {0x2500..0x257f}" by (simp add: isBoxDrawingChar_def)
  then have mem: "cp \<in> set [0x2500..0x257f]" by (simp only: set_upto)
  have "(getBoxLines cp = None) = (cp = 0x2571 \<or> cp = 0x2572 \<or> cp = 0x2573)"
    by (rule bspec[OF unmapped_box_chars_aux[unfolded list_all_iff] mem])
  with True show ?thesis by simp
next
  case False
  then show ?thesis by (auto simp: isBoxDrawingChar_def)
qed

lemma rounded_is_box: "isRoundedCorner cp \<Longrightarrow> isBoxDrawingChar cp"
  by (simp add: isRoundedCorner_def isBoxDrawingChar_def)

lemma dashed_is_box: "isDashedLine cp \<Longrightarrow> isBoxDrawingChar cp"
  by (auto simp: isDashedLine_def isBoxDrawingChar_def)

lemma ops_drawRoundedCorner:
  "\<exists>p. ops (drawRoundedCorner m cp x y col c) =
         ops c @ [Stroke col (globalAlpha c) (max 1 (Math_round (mheight m / 12))) Square p]"
  by (simp add: drawRoundedCorner_def beginPath_def moveTo_def lineTo_def arc_def stroke_def Let_def
      split: option.split RoundedCornerType.split)

lemma box_ne_rounded:
  "ops (drawBoxChar m cp x y col c) \<noteq> ops (drawRoundedCorner m' cp' x' y' col' c)"
proof
  assume eq: "ops (drawBoxChar m cp x y col c) = ops (drawRoundedCorner m' cp' x' y' col' c)"
  obtain new where n: "ops (drawBoxChar m cp x y col c) = ops c @ new" "list_all isFillRect new"
    using adds_drawBoxChar[of c m cp x y col] by (auto simp: adds_def)
  obtain p where p: "ops (drawRoundedCorner m' cp' x' y' col' c) =
      ops c @ [Stroke col' (globalAlpha c) (max 1 (Math_round (mheight m' / 12))) Square p]"
    using ops_drawRoundedCorner by blast
  from eq n(1) p have "new = [Stroke col' (globalAlpha c) (max 1 (Math_round (mheight m' / 12))) Square p]"
    by simp
  with n(2) show False by simp
qed

lemma dashed_box_lines_aux:
  "list_all (\<lambda>(cp, config).
      getBoxLines cp =
        Some (if direction config = Horizontal
              then (if weight config = WHeavy then BoxLines LNone Heavy LNone Heavy
                    else BoxLines LNone Light LNone Light)
              else (if weight config = WHeavy then BoxLines Heavy LNone Heavy LNone
                    else BoxLines Light LNone Light LNone))
      \<and> isDashedLine cp \<and> dashes config \<in> {2, 3, 4}) DASHED_CONFIGS"
  by code_simp

lemma dashed_box_lines:
  assumes "getDashedLineConfig cp = Some config"
  shows "getBoxLines cp =
        Some (if direction config = Horizontal
              then (if weight config = WHeavy then BoxLines LNone Heavy LNone Heavy
                    else BoxLines LNone Light LNone Light)
              else (if weight config = WHeavy then BoxLines Heavy LNone Heavy LNone
                    else BoxLines Light LNone Light LNone))"
    and "isDashedLine cp"
proof -
  from assms have mem: "(cp, config) \<in> set DASHED_CONFIGS"
    by (simp add: getDashedLineConfig_def map_of_SomeD)
  from bspec[OF dashed_box_lines_aux[unfolded list_all_iff] mem]
  show "getBoxLines cp =
        Some (if direction config = Horizontal
              then (if weight config = WHeavy then BoxLines LNone Heavy LNone Heavy
                    else BoxLines LNone Light LNone Light)
              else (if weight config = WHeavy then BoxLines Heavy LNone Heavy LNone
                    else BoxLines Light LNone Light LNone))"
    and "isDashedLine cp" by simp_all
qed

lemma drawBoxChar_horizontal_line:
  assumes "getBoxLines cp = Some (BoxLines LNone s LNone s)" "s = Light \<or> s = Heavy"
  shows "\<exists>py ph. ops (drawBoxChar m cp cx cy col c) =
           ops c @ [FillRect col (globalAlpha c) cx py (mwidth m) ph]"
  using assms
  by (auto simp: drawBoxChar_def boxHorizontal_def boxVertical_def fillRect_def Let_def)

lemma drawBoxChar_vertical_line:
  assumes "getBoxLines cp = Some (BoxLines s LNone s LNone)" "s = Light \<or> s = Heavy"
  shows "\<exists>px pw. ops (drawBoxChar m cp cx cy col c) =
           ops c @ [FillRect col (globalAlpha c) px cy pw (mheight m)]"
  using assms
  by (auto simp: drawBoxChar_def boxHorizontal_def boxVertical_def fillRect_def Let_def)



lemma noStroke_box: "adds (\<lambda>op. \<not> isStroke op) c (drawBoxChar m cp x y col c)"
  by (rule adds_mono[OF adds_drawBoxChar]) (case_tac op; simp)

lemma noStroke_block: "adds (\<lambda>op. \<not> isStroke op) c (drawBlockChar m cp x y col c)"
  by (simp add: adds_def drawBlockChar_def fillRect_def Let_def split: option.split BlockType.split)

lemma noStroke_braille: "adds (\<lambda>op. \<not> isStroke op) c (drawBrailleChar m cp x y col c)"
  unfolding drawBrailleChar_def Let_def
  by (rule adds_trans[OF _ adds_foldl])
     (simp_all add: adds_def beginPath_def arc_def fill_def split: prod.split)

lemma noStroke_sextant: "adds (\<lambda>op. \<not> isStroke op) c (drawSextantChar m cp x y col c)"
  unfolding drawSextantChar_def Let_def
  by (rule adds_trans[OF _ adds_foldl])
     (simp_all add: adds_def fillRect_def split: prod.split)

lemma noStroke_octant: "adds (\<lambda>op. \<not> isStroke op) c (drawOctant m cp x y col c)"
  unfolding drawOctant_def Let_def
  by (rule adds_trans[OF _ adds_foldl])
     (simp_all add: adds_def fillRect_def split: prod.split)

lemma noStroke_triangle: "adds (\<lambda>op. \<not> isStroke op) c (drawCornerTriangle m cp x y col c)"
  by (simp add: adds_def drawCornerTriangle_def beginPath_def moveTo_def lineTo_def closePath_def fill_def Let_def
      split: option.split TriangleCorner.split)

lemma noStroke_powerline: "adds (\<lambda>op. \<not> isStroke op) c (drawPowerlineChar m cp x y col c)"
  by (simp add: adds_def drawPowerlineChar_def beginPath_def moveTo_def lineTo_def closePath_def fill_def Let_def
      split: option.split PowerlineType.split)

lemma noStroke_wedge: "adds (\<lambda>op. \<not> isStroke op) c (drawLegacyWedge m cp x y col c)"
  by (simp add: adds_def drawLegacyWedge_def beginPath_def moveTo_def lineTo_def closePath_def fill_def fillRect_def Let_def
      split: option.split WedgeType.split WedgeCorner.split)

lemma noStroke_mosaic: "adds (\<lambda>op. \<not> isStroke op) c (drawSmoothMosaic m cp x y col c)"
  by (simp add: adds_def drawSmoothMosaic_def beginPath_def moveTo_def lineTo_def closePath_def fill_def fillRect_def Let_def
      split: option.split WedgeCorner.split)

lemma noStroke_result:
  "adds P c d \<Longrightarrow> ops c = ops (ctx r) \<Longrightarrow>
   \<exists>new. ops (ctx (r\<lparr>ctx := resetFaint F cell d\<rparr>)) = ops (ctx r) @ new \<and> list_all P new"
  by (auto simp: adds_def ops_resetFaint)

lemma procedural_nonzero:
  "isBoxDrawingChar cp \<or> isBlockElement cp \<or> isBraillePattern cp \<or> isSextant cp
   \<or> isCornerTriangle cp \<or> isPowerlineChar cp \<or> isLegacyWedge cp \<or> isOctant cp
   \<or> isSmoothMosaic cp \<or> isRoundedCorner cp \<or> isDashedLine cp \<Longrightarrow> cp \<noteq> 0"
  by (auto simp: isBoxDrawingChar_def isBlockElement_def isBraillePattern_def isSextant_def
      isCornerTriangle_def isPowerlineChar_def isLegacyWedge_def isOctant_def isSmoothMosaic_def
      isRoundedCorner_def isDashedLine_def)

subsection \<open>Alpha is restored (C10)\<close>

text \<open>
  Claim C10. \<^verbatim>\<open>renderCellText\<close> restores the context's \<^verbatim>\<open>globalAlpha\<close> on every return
  path: if it is 1 on entry and the call returns, it is 1 afterwards, for every cell,
  FAINT cells, every procedurally drawn family and the shade blocks included.
\<close>

theorem renderCellText_restores_globalAlpha:
  assumes a1: "globalAlpha (ctx r) = 1"
    and ret: "renderCellText F r cell x y = Inr r'"
  shows "globalAlpha (ctx r') = 1"
proof (cases "has_flag cell (INVISIBLE F)")
  case True
  with ret have "r' = r" by (simp add: renderCellText_def Let_def)
  with a1 show ?thesis by simp
next
  case False
  define c where "c = setTextStyle F r cell x y"
  have c1: "has_flag cell (FAINT F) \<or> globalAlpha c = 1"
    using a1 by (simp add: c_def alpha_setTextStyle)
  have blk: "\<And>m cp px py col. has_flag cell (FAINT F) \<or> globalAlpha (drawBlockChar m cp px py col c) = 1"
    using c1 alpha_drawBlockChar by metis
  note pres = alpha_drawBoxChar alpha_drawBrailleChar alpha_drawSextantChar alpha_drawCornerTriangle
    alpha_drawPowerlineChar alpha_drawLegacyWedge alpha_drawOctant alpha_drawSmoothMosaic
    alpha_drawRoundedCorner alpha_drawDashedLine alpha_fillText alpha_cellDecorations
  from ret False show ?thesis
    unfolding renderCellText_def Let_def c_def[symmetric]
    by (auto simp: pres alpha_resetFaint c1 blk split: if_splits option.splits sum.splits)
qed

text \<open>A FAINT medium shade (U+2592): the fill is recorded with alpha 1/2 (the shade
  density) and alpha is 1 after the call.\<close>

theorem renderCellText_restores_globalAlpha_witness:
  "globalAlpha (ctx example_renderer) = 1
   \<and> \<not> isl (renderCellText example_flags example_renderer (example_cell 0x2592 128) 0 0)
   \<and> globalAlpha (ctx (projr (renderCellText example_flags example_renderer (example_cell 0x2592 128) 0 0))) = 1
   \<and> ops (ctx (projr (renderCellText example_flags example_renderer (example_cell 0x2592 128) 0 0)))
       = [FillRect (Rgb 255 255 255) (1 / 2) 0 0 10 20]"
proof -
  have a: "globalAlpha (ctx example_renderer) = 1"
    by (simp add: example_renderer_def example_ctx_def)
  have b: "\<not> isl (renderCellText example_flags example_renderer (example_cell 0x2592 128) 0 0)"
    by code_simp
  then have c: "renderCellText example_flags example_renderer (example_cell 0x2592 128) 0 0
      = Inr (projr (renderCellText example_flags example_renderer (example_cell 0x2592 128) 0 0))"
    by simp
  have d: "ops (ctx (projr (renderCellText example_flags example_renderer (example_cell 0x2592 128) 0 0)))
       = [FillRect (Rgb 255 255 255) (1 / 2) 0 0 10 20]"
    by code_simp
  from renderCellText_restores_globalAlpha[OF a c] a b d show ?thesis by simp
qed

subsection \<open>Box code points without a table entry (C9)\<close>

text \<open>
  Claim C9. For a code point in U+2500-257F that has no entry in \<^verbatim>\<open>BOX_DRAWING_MAP\<close>
  the text pass draws nothing: the call returns and records no drawing call (in
  particular no \<^verbatim>\<open>fillText\<close>).
\<close>

theorem unmapped_box_char_draws_nothing:
  assumes box: "isBoxDrawingChar (codepoint cell)"
    and unmapped: "getBoxLines (codepoint cell) = None"
  shows "\<exists>r'. renderCellText F r cell x y = Inr r' \<and> ops (ctx r') = ops (ctx r)"
  using box unmapped
  by (simp add: renderCellText_def box_char_nonzero drawBoxChar_def ops_resetFaint ops_setTextStyle Let_def)

theorem unmapped_box_char_draws_nothing_witness:
  "isBoxDrawingChar (codepoint (example_cell 0x2571 0))
   \<and> getBoxLines (codepoint (example_cell 0x2571 0)) = None
   \<and> (\<exists>r'. renderCellText example_flags example_renderer (example_cell 0x2571 0) 3 2 = Inr r'
             \<and> ops (ctx r') = ops (ctx example_renderer))"
proof -
  have a: "isBoxDrawingChar (codepoint (example_cell 0x2571 0))" by code_simp
  have b: "getBoxLines (codepoint (example_cell 0x2571 0)) = None" by code_simp
  from unmapped_box_char_draws_nothing[OF a b] a b show ?thesis by blast
qed

subsection \<open>Rounded corners (C1)\<close>

text \<open>
  Claim C1 says that a cell with a code point in U+256D-2570 is drawn by the
  rounded-corner procedure. In the code the test for the box range comes first, so the
  cell is drawn by \<^verbatim>\<open>drawBoxChar\<close> and \<^verbatim>\<open>drawRoundedCorner\<close> is never reached: the result is
  that of the box procedure and differs from that of the rounded-corner procedure.
\<close>

theorem rounded_corner_drawn_by_box_procedure:
  assumes rounded: "isRoundedCorner (codepoint cell)"
    and visible: "\<not> has_flag cell (INVISIBLE F)"
  shows "renderCellText F r cell x y =
           Inr (r\<lparr>ctx := resetFaint F cell
                  (drawBoxChar (metrics r) (codepoint cell)
                     (of_int x * mwidth (metrics r)) (of_int y * mheight (metrics r))
                     (fillStyle (setTextStyle F r cell x y)) (setTextStyle F r cell x y))\<rparr>)
         \<and> renderCellText F r cell x y \<noteq>
           Inr (r\<lparr>ctx := resetFaint F cell
                  (drawRoundedCorner (metrics r) (codepoint cell)
                     (of_int x * mwidth (metrics r)) (of_int y * mheight (metrics r))
                     (fillStyle (setTextStyle F r cell x y)) (setTextStyle F r cell x y))\<rparr>)"
proof -
  have box: "isBoxDrawingChar (codepoint cell)" by (rule rounded_is_box[OF rounded])
  have 1: "renderCellText F r cell x y =
           Inr (r\<lparr>ctx := resetFaint F cell
                  (drawBoxChar (metrics r) (codepoint cell)
                     (of_int x * mwidth (metrics r)) (of_int y * mheight (metrics r))
                     (fillStyle (setTextStyle F r cell x y)) (setTextStyle F r cell x y))\<rparr>)"
    using box visible by (simp add: renderCellText_def box_char_nonzero Let_def)
  have 2: "ops (resetFaint F cell
                  (drawBoxChar (metrics r) (codepoint cell)
                     (of_int x * mwidth (metrics r)) (of_int y * mheight (metrics r))
                     (fillStyle (setTextStyle F r cell x y)) (setTextStyle F r cell x y)))
        \<noteq> ops (resetFaint F cell
                  (drawRoundedCorner (metrics r) (codepoint cell)
                     (of_int x * mwidth (metrics r)) (of_int y * mheight (metrics r))
                     (fillStyle (setTextStyle F r cell x y)) (setTextStyle F r cell x y)))"
    by (simp add: ops_resetFaint box_ne_rounded)
  have 3: "\<And>a b. ops a \<noteq> ops b \<Longrightarrow> Inr (r\<lparr>ctx := a\<rparr>) \<noteq> (Inr (r\<lparr>ctx := b\<rparr>) :: (error \<times> CanvasRenderer) + CanvasRenderer)"
  proof
    fix a b assume ne: "ops a \<noteq> ops b" and eq: "Inr (r\<lparr>ctx := a\<rparr>) = (Inr (r\<lparr>ctx := b\<rparr>) :: (error \<times> CanvasRenderer) + CanvasRenderer)"
    then have "ctx (r\<lparr>ctx := a\<rparr>) = ctx (r\<lparr>ctx := b\<rparr>)" by simp
    then have "a = b" by simp
    with ne show False by simp
  qed
  show ?thesis using 1 3[OF 2] by simp
qed

text \<open>U+256D at cell (0, 0): two filled rectangles, no stroke and no arc.\<close>

theorem rounded_corner_drawn_by_box_procedure_witness:
  "isRoundedCorner (codepoint (example_cell 0x256d 0))
   \<and> \<not> has_flag (example_cell 0x256d 0) (INVISIBLE example_flags)
   \<and> ops (ctx (projr (renderCellText example_flags example_renderer (example_cell 0x256d 0) 0 0)))
       = [FillRect (Rgb 255 255 255) 1 5 9 5 2, FillRect (Rgb 255 255 255) 1 4 10 2 10]
   \<and> ops (drawRoundedCorner (metrics example_renderer) 0x256d 0 0 (Rgb 255 255 255) example_ctx)
       = [Stroke (Rgb 255 255 255) 1 2 Square
            [Arc 9 14 4 1 (3 / 2), MoveTo 5 6, LineTo 5 0, MoveTo 9 10, LineTo 10 10]]"
proof -
  have a: "isRoundedCorner (codepoint (example_cell 0x256d 0))" by code_simp
  have b: "\<not> has_flag (example_cell 0x256d 0) (INVISIBLE example_flags)" by code_simp
  have c: "ops (resetFaint example_flags (example_cell 0x256d 0)
             (drawBoxChar (metrics example_renderer) (codepoint (example_cell 0x256d 0))
                (of_int 0 * mwidth (metrics example_renderer))
                (of_int 0 * mheight (metrics example_renderer))
                (fillStyle (setTextStyle example_flags example_renderer (example_cell 0x256d 0) 0 0))
                (setTextStyle example_flags example_renderer (example_cell 0x256d 0) 0 0)))
       = [FillRect (Rgb 255 255 255) 1 5 9 5 2, FillRect (Rgb 255 255 255) 1 4 10 2 10]"
    by code_simp
  have d: "ops (drawRoundedCorner (metrics example_renderer) 0x256d 0 0 (Rgb 255 255 255) example_ctx)
       = [Stroke (Rgb 255 255 255) 1 2 Square
            [Arc 9 14 4 1 (3 / 2), MoveTo 5 6, LineTo 5 0, MoveTo 9 10, LineTo 10 10]]"
    by code_simp
  from rounded_corner_drawn_by_box_procedure[OF a b, of example_renderer 0 0] a b c d
  show ?thesis by simp
qed

subsection \<open>Dashed lines (C4)\<close>

text \<open>
  Claim C4 says that a dashed box-line code point is drawn as N separate dashes. In the
  code the test for the box range comes first and \<^verbatim>\<open>BOX_DRAWING_MAP\<close> treats the dashed
  code points as plain light or heavy lines, so the text pass records exactly one filled
  rectangle, which spans the whole cell along the line axis; \<^verbatim>\<open>drawDashedLine\<close> is
  never reached.
\<close>

theorem dashed_line_drawn_as_one_full_length_rectangle:
  assumes cfg: "getDashedLineConfig (codepoint cell) = Some config"
    and visible: "\<not> has_flag cell (INVISIBLE F)"
  shows "\<exists>r' col a px py pw ph.
           renderCellText F r cell x y = Inr r'
           \<and> ops (ctx r') = ops (ctx r) @ [FillRect col a px py pw ph]
           \<and> (if direction config = Horizontal
               then px = of_int x * mwidth (metrics r) \<and> pw = mwidth (metrics r)
               else py = of_int y * mheight (metrics r) \<and> ph = mheight (metrics r))"
proof -
  have box: "isBoxDrawingChar (codepoint cell)"
    by (rule dashed_is_box[OF dashed_box_lines(2)[OF cfg]])
  define c where "c = setTextStyle F r cell x y"
  define d where "d = drawBoxChar (metrics r) (codepoint cell)
                     (of_int x * mwidth (metrics r)) (of_int y * mheight (metrics r)) (fillStyle c) c"
  have res: "renderCellText F r cell x y = Inr (r\<lparr>ctx := resetFaint F cell d\<rparr>)"
    using box visible by (simp add: renderCellText_def box_char_nonzero Let_def c_def d_def)
  have opsc: "ops c = ops (ctx r)" by (simp add: c_def ops_setTextStyle)
  show ?thesis
  proof (cases "direction config = Horizontal")
    case True
    then obtain s where s: "getBoxLines (codepoint cell) = Some (BoxLines LNone s LNone s)" "s = Light \<or> s = Heavy"
      using dashed_box_lines(1)[OF cfg] by (cases "weight config = WHeavy") auto
    from drawBoxChar_horizontal_line[OF s] obtain py ph where
      "ops d = ops c @ [FillRect (fillStyle c) (globalAlpha c) (of_int x * mwidth (metrics r)) py (mwidth (metrics r)) ph]"
      unfolding d_def by blast
    with res opsc True show ?thesis by (simp add: ops_resetFaint)
  next
    case False
    then obtain s where s: "getBoxLines (codepoint cell) = Some (BoxLines s LNone s LNone)" "s = Light \<or> s = Heavy"
      using dashed_box_lines(1)[OF cfg] by (cases "weight config = WHeavy") auto
    from drawBoxChar_vertical_line[OF s] obtain px pw where
      "ops d = ops c @ [FillRect (fillStyle c) (globalAlpha c) px (of_int y * mheight (metrics r)) pw (mheight (metrics r))]"
      unfolding d_def by blast
    with res opsc False show ?thesis by (simp add: ops_resetFaint)
  qed
qed

text \<open>U+2504 (three dashes, light, horizontal) at cell (0, 0): one rectangle of the
  full cell width 10, where \<^verbatim>\<open>drawDashedLine\<close> would have drawn three of width 2.\<close>

theorem dashed_line_drawn_as_one_full_length_rectangle_witness:
  "getDashedLineConfig (codepoint (example_cell 0x2504 0)) = Some (DashedLineConfig Horizontal WLight 3)
   \<and> \<not> has_flag (example_cell 0x2504 0) (INVISIBLE example_flags)
   \<and> (\<exists>r' col a px py pw ph.
         renderCellText example_flags example_renderer (example_cell 0x2504 0) 0 0 = Inr r'
         \<and> ops (ctx r') = ops (ctx example_renderer) @ [FillRect col a px py pw ph]
         \<and> px = 0 \<and> pw = 10)
   \<and> ops (ctx (projr (renderCellText example_flags example_renderer (example_cell 0x2504 0) 0 0)))
       = [FillRect (Rgb 255 255 255) 1 0 9 10 2]
   \<and> ops (drawDashedLine (metrics example_renderer) 0x2504 0 0 (Rgb 255 255 255) example_ctx)
       = [FillRect (Rgb 255 255 255) 1 0 9 2 2, FillRect (Rgb 255 255 255) 1 4 9 2 2,
          FillRect (Rgb 255 255 255) 1 8 9 2 2]"
proof -
  have a: "getDashedLineConfig (codepoint (example_cell 0x2504 0)) = Some (DashedLineConfig Horizontal WLight 3)"
    by code_simp
  have b: "\<not> has_flag (example_cell 0x2504 0) (INVISIBLE example_flags)" by code_simp
  have m: "mwidth (metrics example_renderer) = 10" by (simp add: example_renderer_def)
  have c: "ops (ctx (projr (renderCellText example_flags example_renderer (example_cell 0x2504 0) 0 0)))
       = [FillRect (Rgb 255 255 255) 1 0 9 10 2]"
    by code_simp
  have d: "ops (drawDashedLine (metrics example_renderer) 0x2504 0 0 (Rgb 255 255 255) example_ctx)
       = [FillRect (Rgb 255 255 255) 1 0 9 2 2, FillRect (Rgb 255 255 255) 1 4 9 2 2,
          FillRect (Rgb 255 255 255) 1 8 9 2 2]"
    by code_simp
  from dashed_line_drawn_as_one_full_length_rectangle[OF a b, of example_renderer 0 0] a b c d
  show ?thesis by (simp add: m)
qed

subsection \<open>Underline (C5)\<close>

text \<open>
  Claim C5 says that every visible underlined cell gets its underline stroke, the
  procedurally drawn code points included. In the code every procedural branch of
  \<^verbatim>\<open>renderCellText\<close> returns before the decoration code: for a code point of any
  procedural family the call records no stroke at all.
\<close>

theorem procedural_glyph_gets_no_underline:
  assumes ul: "has_flag cell (UNDERLINE F)"
    and visible: "\<not> has_flag cell (INVISIBLE F)"
    and proc: "isBoxDrawingChar (codepoint cell) \<or> isBlockElement (codepoint cell)
      \<or> isBraillePattern (codepoint cell) \<or> isSextant (codepoint cell)
      \<or> isCornerTriangle (codepoint cell) \<or> isPowerlineChar (codepoint cell)
      \<or> isLegacyWedge (codepoint cell) \<or> isOctant (codepoint cell)
      \<or> isSmoothMosaic (codepoint cell) \<or> isRoundedCorner (codepoint cell)
      \<or> isDashedLine (codepoint cell)"
  shows "\<exists>r' new. renderCellText F r cell x y = Inr r'
           \<and> ops (ctx r') = ops (ctx r) @ new \<and> list_all (\<lambda>op. \<not> isStroke op) new"
proof -
  have nz: "codepoint cell \<noteq> 0" by (rule procedural_nonzero[OF proc])
  define c where "c = setTextStyle F r cell x y"
  have opsc: "ops c = ops (ctx r)" by (simp add: c_def ops_setTextStyle)
  note ns = noStroke_box noStroke_block noStroke_braille noStroke_sextant noStroke_triangle
    noStroke_powerline noStroke_wedge noStroke_octant noStroke_mosaic
  have chain: "isBoxDrawingChar (codepoint cell) \<or> isBlockElement (codepoint cell)
      \<or> isBraillePattern (codepoint cell) \<or> isSextant (codepoint cell)
      \<or> isCornerTriangle (codepoint cell) \<or> isPowerlineChar (codepoint cell)
      \<or> isLegacyWedge (codepoint cell) \<or> isOctant (codepoint cell)
      \<or> isSmoothMosaic (codepoint cell)"
    using proc rounded_is_box dashed_is_box by blast
  have fin: "\<And>d. renderCellText F r cell x y = Inr (r\<lparr>ctx := resetFaint F cell d\<rparr>) \<Longrightarrow>
      adds (\<lambda>op. \<not> isStroke op) c d \<Longrightarrow> ?thesis"
    by (auto simp: adds_def ops_resetFaint opsc)
  consider (k1) "isBoxDrawingChar (codepoint cell)" | (k2) "\<not> isBoxDrawingChar (codepoint cell) \<and> isBlockElement (codepoint cell)" | (k3) "\<not> isBoxDrawingChar (codepoint cell) \<and> \<not> isBlockElement (codepoint cell) \<and> isBraillePattern (codepoint cell)" | (k4) "\<not> isBoxDrawingChar (codepoint cell) \<and> \<not> isBlockElement (codepoint cell) \<and> \<not> isBraillePattern (codepoint cell) \<and> isSextant (codepoint cell)" | (k5) "\<not> isBoxDrawingChar (codepoint cell) \<and> \<not> isBlockElement (codepoint cell) \<and> \<not> isBraillePattern (codepoint cell) \<and> \<not> isSextant (codepoint cell) \<and> isCornerTriangle (codepoint cell)" | (k6) "\<not> isBoxDrawingChar (codepoint cell) \<and> \<not> isBlockElement (codepoint cell) \<and> \<not> isBraillePattern (codepoint cell) \<and> \<not> isSextant (codepoint cell) \<and> \<not> isCornerTriangle (codepoint cell) \<and> isPowerlineChar (codepoint cell)" | (k7) "\<not> isBoxDrawingChar (codepoint cell) \<and> \<not> isBlockElement (codepoint cell) \<and> \<not> isBraillePattern (codepoint cell) \<and> \<not> isSextant (codepoint cell) \<and> \<not> isCornerTriangle (codepoint cell) \<and> \<not> isPowerlineChar (codepoint cell) \<and> isLegacyWedge (codepoint cell)" | (k8) "\<not> isBoxDrawingChar (codepoint cell) \<and> \<not> isBlockElement (codepoint cell) \<and> \<not> isBraillePattern (codepoint cell) \<and> \<not> isSextant (codepoint cell) \<and> \<not> isCornerTriangle (codepoint cell) \<and> \<not> isPowerlineChar (codepoint cell) \<and> \<not> isLegacyWedge (codepoint cell) \<and> isOctant (codepoint cell)" | (k9) "\<not> isBoxDrawingChar (codepoint cell) \<and> \<not> isBlockElement (codepoint cell) \<and> \<not> isBraillePattern (codepoint cell) \<and> \<not> isSextant (codepoint cell) \<and> \<not> isCornerTriangle (codepoint cell) \<and> \<not> isPowerlineChar (codepoint cell) \<and> \<not> isLegacyWedge (codepoint cell) \<and> \<not> isOctant (codepoint cell) \<and> isSmoothMosaic (codepoint cell)"
    using chain by blast
  then show ?thesis
  proof cases
    case k1
    then have "renderCellText F r cell x y =
        Inr (r\<lparr>ctx := resetFaint F cell
               (drawBoxChar (metrics r) (codepoint cell) (of_int x * mwidth (metrics r))
                  (of_int y * mheight (metrics r)) (fillStyle c) c)\<rparr>)"
      using visible nz unfolding renderCellText_def Let_def c_def[symmetric] by simp
    then show ?thesis by (rule fin) (rule noStroke_box)
  next
    case k2
    then have "renderCellText F r cell x y =
        Inr (r\<lparr>ctx := resetFaint F cell
               (drawBlockChar (metrics r) (codepoint cell) (of_int x * mwidth (metrics r))
                  (of_int y * mheight (metrics r)) (fillStyle c) c)\<rparr>)"
      using visible nz unfolding renderCellText_def Let_def c_def[symmetric] by simp
    then show ?thesis by (rule fin) (rule noStroke_block)
  next
    case k3
    then have "renderCellText F r cell x y =
        Inr (r\<lparr>ctx := resetFaint F cell
               (drawBrailleChar (metrics r) (codepoint cell) (of_int x * mwidth (metrics r))
                  (of_int y * mheight (metrics r)) (fillStyle c) c)\<rparr>)"
      using visible nz unfolding renderCellText_def Let_def c_def[symmetric] by simp
    then show ?thesis by (rule fin) (rule noStroke_braille)
  next
    case k4
    then have "renderCellText F r cell x y =
        Inr (r\<lparr>ctx := resetFaint F cell
               (drawSextantChar (metrics r) (codepoint cell) (of_int x * mwidth (metrics r))
                  (of_int y * mheight (metrics r)) (fillStyle c) c)\<rparr>)"
      using visible nz unfolding renderCellText_def Let_def c_def[symmetric] by simp
    then show ?thesis by (rule fin) (rule noStroke_sextant)
  next
    case k5
    then have "renderCellText F r cell x y =
        Inr (r\<lparr>ctx := resetFaint F cell
               (drawCornerTriangle (metrics r) (codepoint cell) (of_int x * mwidth (metrics r))
                  (of_int y * mheight (metrics r)) (fillStyle c) c)\<rparr>)"
      using visible nz unfolding renderCellText_def Let_def c_def[symmetric] by simp
    then show ?thesis by (rule fin) (rule noStroke_triangle)
  next
    case k6
    then have "renderCellText F r cell x y =
        Inr (r\<lparr>ctx := resetFaint F cell
               (drawPowerlineChar (metrics r) (codepoint cell) (of_int x * mwidth (metrics r))
                  (of_int y * mheight (metrics r)) (fillStyle c) c)\<rparr>)"
      using visible nz unfolding renderCellText_def Let_def c_def[symmetric] by simp
    then show ?thesis by (rule fin) (rule noStroke_powerline)
  next
    case k7
    then have "renderCellText F r cell x y =
        Inr (r\<lparr>ctx := resetFaint F cell
               (drawLegacyWedge (metrics r) (codepoint cell) (of_int x * mwidth (metrics r))
                  (of_int y * mheight (metrics r)) (fillStyle c) c)\<rparr>)"
      using visible nz unfolding renderCellText_def Let_def c_def[symmetric] by simp
    then show ?thesis by (rule fin) (rule noStroke_wedge)
  next
    case k8
    then have "renderCellText F r cell x y =
        Inr (r\<lparr>ctx := resetFaint F cell
               (drawOctant (metrics r) (codepoint cell) (of_int x * mwidth (metrics r))
                  (of_int y * mheight (metrics r)) (fillStyle c) c)\<rparr>)"
      using visible nz unfolding renderCellText_def Let_def c_def[symmetric] by simp
    then show ?thesis by (rule fin) (rule noStroke_octant)
  next
    case k9
    then have "renderCellText F r cell x y =
        Inr (r\<lparr>ctx := resetFaint F cell
               (drawSmoothMosaic (metrics r) (codepoint cell) (of_int x * mwidth (metrics r))
                  (of_int y * mheight (metrics r)) (fillStyle c) c)\<rparr>)"
      using visible nz unfolding renderCellText_def Let_def c_def[symmetric] by simp
    then show ?thesis by (rule fin) (rule noStroke_mosaic)
  qed
qed

text \<open>An underlined U+2500 at cell (0, 0): only the rectangle of the line itself is
  recorded.\<close>

theorem procedural_glyph_gets_no_underline_witness:
  "has_flag (example_cell 0x2500 4) (UNDERLINE example_flags)
   \<and> \<not> has_flag (example_cell 0x2500 4) (INVISIBLE example_flags)
   \<and> isBoxDrawingChar (codepoint (example_cell 0x2500 4))
   \<and> (\<exists>r' new. renderCellText example_flags example_renderer (example_cell 0x2500 4) 0 0 = Inr r'
         \<and> ops (ctx r') = ops (ctx example_renderer) @ new \<and> list_all (\<lambda>op. \<not> isStroke op) new)
   \<and> ops (ctx (projr (renderCellText example_flags example_renderer (example_cell 0x2500 4) 0 0)))
       = [FillRect (Rgb 255 255 255) 1 0 9 10 2]"
proof -
  have a: "has_flag (example_cell 0x2500 4) (UNDERLINE example_flags)" by code_simp
  have b: "\<not> has_flag (example_cell 0x2500 4) (INVISIBLE example_flags)" by code_simp
  have c: "isBoxDrawingChar (codepoint (example_cell 0x2500 4))" by code_simp
  have d: "ops (ctx (projr (renderCellText example_flags example_renderer (example_cell 0x2500 4) 0 0)))
       = [FillRect (Rgb 255 255 255) 1 0 9 10 2]"
    by code_simp
  from procedural_glyph_gets_no_underline[OF a b, of example_renderer 0 0] a b c d
  show ?thesis by blast
qed

text \<open>The sibling path: a cell that no procedural family claims does get the stroke,
  right after its \<^verbatim>\<open>fillText\<close>.\<close>

lemma text_glyph_gets_underline:
  assumes ul: "has_flag cell (UNDERLINE F)"
    and visible: "\<not> has_flag cell (INVISIBLE F)"
    and plain: "\<not> (isBoxDrawingChar cp \<or> isBlockElement cp
      \<or> isBraillePattern cp \<or> isSextant cp
      \<or> isCornerTriangle cp \<or> isPowerlineChar cp
      \<or> isLegacyWedge cp \<or> isOctant cp
      \<or> isSmoothMosaic cp \<or> isRoundedCorner cp
      \<or> isDashedLine cp)"
    and cp: "cp = (if codepoint cell = 0 then 32 else codepoint cell)"
    and ret: "renderCellText F r cell x y = Inr r'"
  shows "\<exists>col a a' fnt s tx ty cap rest.
           ops (ctx r') = ops (ctx r) @
             [FillText col a fnt s tx ty,
              Stroke col a' 1 cap
                [MoveTo (of_int x * mwidth (metrics r))
                        (of_int y * mheight (metrics r) + baseline (metrics r) + 2),
                 LineTo (of_int x * mwidth (metrics r) + mwidth (metrics r) * of_int (width cell))
                        (of_int y * mheight (metrics r) + baseline (metrics r) + 2)]] @ rest"
proof -
  define c where "c = setTextStyle F r cell x y"
  have opsc: "ops c = ops (ctx r)" by (simp add: c_def ops_setTextStyle)
  have dec: "\<And>d. \<exists>rest. ops (cellDecorations F r cell x y d) = ops d @
      [Stroke (fillStyle d) (globalAlpha d) 1 (lineCap d)
        [MoveTo (of_int x * mwidth (metrics r))
                (of_int y * mheight (metrics r) + baseline (metrics r) + 2),
         LineTo (of_int x * mwidth (metrics r) + mwidth (metrics r) * of_int (width cell))
                (of_int y * mheight (metrics r) + baseline (metrics r) + 2)]] @ rest"
    using ul
    by (simp add: cellDecorations_def strokeLine_def beginPath_def moveTo_def lineTo_def stroke_def Let_def
        split: option.split)
  have ft: "\<And>s tx ty. ops (resetFaint F cell (fillText s tx ty c)) =
        ops (ctx r) @ [FillText (fillStyle c) (globalAlpha c) (font c) s tx ty]"
    "\<And>s tx ty. fillStyle (resetFaint F cell (fillText s tx ty c)) = fillStyle c"
    by (simp_all add: resetFaint_def fillText_def opsc)
  have eq: "renderCellText F r cell x y =
      (case (case currentBuffer r of
               None \<Rightarrow> None
             | Some buffer \<Rightarrow> if grapheme_len cell > 0 then getGraphemeString buffer else None) of
         Some grapheme \<Rightarrow>
           Inr (r\<lparr>ctx := cellDecorations F r cell x y
                  (resetFaint F cell (fillText (grapheme y x) (of_int x * mwidth (metrics r))
                     (of_int y * mheight (metrics r) + baseline (metrics r)) c))\<rparr>)
       | None \<Rightarrow>
           (case String_fromCodePoint cp of
              Inl e \<Rightarrow> Inl (e, r\<lparr>ctx := c\<rparr>)
            | Inr char \<Rightarrow>
                Inr (r\<lparr>ctx := cellDecorations F r cell x y
                       (resetFaint F cell (fillText char (of_int x * mwidth (metrics r))
                          (of_int y * mheight (metrics r) + baseline (metrics r)) c))\<rparr>)))"
    using visible plain
    unfolding renderCellText_def Let_def c_def[symmetric] cp[symmetric]
    by simp
  from ret obtain s tx ty where
    r': "r' = r\<lparr>ctx := cellDecorations F r cell x y (resetFaint F cell (fillText s tx ty c))\<rparr>"
    unfolding eq by (auto split: option.splits sum.splits)
  from dec[of "resetFaint F cell (fillText s tx ty c)"] obtain rest where
    "ops (cellDecorations F r cell x y (resetFaint F cell (fillText s tx ty c))) =
      ops (resetFaint F cell (fillText s tx ty c)) @
      [Stroke (fillStyle (resetFaint F cell (fillText s tx ty c)))
         (globalAlpha (resetFaint F cell (fillText s tx ty c))) 1
         (lineCap (resetFaint F cell (fillText s tx ty c)))
        [MoveTo (of_int x * mwidth (metrics r))
                (of_int y * mheight (metrics r) + baseline (metrics r) + 2),
         LineTo (of_int x * mwidth (metrics r) + mwidth (metrics r) * of_int (width cell))
                (of_int y * mheight (metrics r) + baseline (metrics r) + 2)]] @ rest"
    by blast
  then show ?thesis unfolding r' by (simp add: ft)
qed

section \<open>Properties of the frame orchestrator\<close>

subsection \<open>What each part of render changes\<close>

lemma frame_refl: "frame r r"
  unfolding frame_def by (rule exI[of _ "ctx r"], rule exI[of _ "calls r"]) simp

lemma frame_trans: "frame a b \<Longrightarrow> frame b c \<Longrightarrow> frame a c"
  unfolding frame_def by (elim exE, simp, intro exI, rule refl)

lemma frame_ctx: "frame r (r\<lparr>ctx := c\<rparr>)"
  unfolding frame_def by (rule exI[of _ c], rule exI[of _ "calls r"]) simp

lemma frame_calls: "frame r (r\<lparr>calls := k\<rparr>)"
  unfolding frame_def by (rule exI[of _ "ctx r"], rule exI[of _ k]) simp

lemma frame_fields:
  assumes "frame r r'"
  shows "selectionManager r' = selectionManager r" "metrics r' = metrics r" "theme r' = theme r"
    "devicePixelRatio r' = devicePixelRatio r" "cursorStyle r' = cursorStyle r"
    "cursorVisible r' = cursorVisible r" "cursorSuppressed r' = cursorSuppressed r"
    "lastCursorPosition r' = lastCursorPosition r" "currentBuffer r' = currentBuffer r"
    "lastViewportY r' = lastViewportY r"
  using assms by (auto simp: frame_def)

lemma frame_renderCellBackground: "frame r (renderCellBackground F r cell x y)"
  by (simp add: renderCellBackground_def frame_ctx frame_refl Let_def split: prod.split)

lemma calls_renderCellBackground: "calls (renderCellBackground F r cell x y) = calls r"
  by (simp add: renderCellBackground_def Let_def split: prod.split)

lemma frame_renderCellText: "renderCellText F r cell x y = Inr r' \<Longrightarrow> frame r r' \<and> calls r' = calls r"
  unfolding renderCellText_def Let_def
  by (auto simp: frame_ctx frame_refl split: if_splits option.splits sum.splits)

lemma frame_renderLine_backgrounds:
  "frame r (renderLine_backgrounds F r line x y) \<and> calls (renderLine_backgrounds F r line x y) = calls r"
proof (induction line arbitrary: r x)
  case Nil
  show ?case by (simp add: frame_refl)
next
  case (Cons cell rest)
  show ?case
  proof (cases "width cell = 0")
    case True
    then show ?thesis using Cons.IH[of r "x + 1"] by simp
  next
    case False
    have a: "frame r (renderCellBackground F r cell x y)" by (rule frame_renderCellBackground)
    have b: "calls (renderCellBackground F r cell x y) = calls r" by (rule calls_renderCellBackground)
    from Cons.IH[of "renderCellBackground F r cell x y" "x + 1"] a b False
    show ?thesis by (auto intro: frame_trans)
  qed
qed

lemma frame_renderLine_texts:
  "renderLine_texts F r line x y = Inr r' \<Longrightarrow> frame r r' \<and> calls r' = calls r"
proof (induction line arbitrary: r x)
  case Nil
  then show ?case by (simp add: frame_refl)
next
  case (Cons cell rest)
  show ?case
  proof (cases "width cell = 0")
    case True
    then show ?thesis using Cons.IH[of r "x + 1"] Cons.prems by simp
  next
    case False
    with Cons.prems obtain r1 where r1: "renderCellText F r cell x y = Inr r1"
      and rest: "renderLine_texts F r1 rest (x + 1) y = Inr r'"
      by (auto split: sum.splits)
    from frame_renderCellText[OF r1] Cons.IH[OF rest]
    show ?thesis by (auto intro: frame_trans)
  qed
qed

lemma frame_renderLine:
  assumes "renderLine F r line y n = Inr r'"
  shows "frame r r'" and "calls r' = calls r @ [CallRenderLine y]"
proof -
  define r0 where "r0 = r\<lparr>calls := calls r @ [CallRenderLine y]\<rparr>"
  define c where "c = fillRect 0 (of_int y * mheight (metrics r0)) (of_int n * mwidth (metrics r0))
      (mheight (metrics r0)) ((ctx r0)\<lparr>fillStyle := Css (background (theme r0))\<rparr>)"
  define r1 where "r1 = renderLine_backgrounds F (r0\<lparr>ctx := c\<rparr>) line 0 y"
  from assms have t: "renderLine_texts F r1 line 0 y = Inr r'"
    by (simp add: renderLine_def Let_def r0_def c_def r1_def)
  have f0: "frame r r0" "calls r0 = calls r @ [CallRenderLine y]"
    by (simp_all add: r0_def frame_calls)
  have f1: "frame r0 r1" "calls r1 = calls r0"
    using frame_renderLine_backgrounds[of "r0\<lparr>ctx := c\<rparr>" F line 0 y]
    by (auto simp: r1_def intro: frame_trans[OF frame_ctx])
  from frame_renderLine_texts[OF t] f0 f1
  show "frame r r'" and "calls r' = calls r @ [CallRenderLine y]"
    by (auto intro: frame_trans)
qed

lemma cursorCalls_renderLine:
  "renderLine F r line y n = Inr r' \<Longrightarrow> cursorCalls r' = cursorCalls r"
  by (simp add: cursorCalls_def frame_renderLine(2))

lemma frame_render_cursorLines:
  assumes "render_cursorLines F r buffer forceAll = Inr r'"
  shows "frame r r'" and "cursorCalls r' = cursorCalls r"
proof -
  have step: "\<And>a b y. (case getLine buffer y of
                       Some line \<Rightarrow> renderLine F a line y (cols (getDimensions buffer))
                     | None \<Rightarrow> Inr a) = Inr b \<Longrightarrow> frame a b \<and> cursorCalls b = cursorCalls a"
    by (auto split: option.splits simp: frame_refl frame_renderLine(1) cursorCalls_renderLine)
  from assms show "frame r r'" and "cursorCalls r' = cursorCalls r"
    unfolding render_cursorLines_def Let_def
    by (auto split: if_splits sum.splits dest!: step intro: frame_refl frame_trans)
qed

lemma cursorCalls_frame_calls: "calls r' = calls r \<Longrightarrow> cursorCalls r' = cursorCalls r"
  by (simp add: cursorCalls_def)

lemma render_prepare_facts:
  assumes "render_prepare r buffer forceAll viewportY = (r0, fa)"
  shows "cursorCalls r0 = cursorCalls r" "selectionManager r0 = selectionManager r"
    "cursorVisible r0 = cursorVisible r" "cursorSuppressed r0 = cursorSuppressed r"
    "lastCursorPosition r0 = lastCursorPosition r" "devicePixelRatio r0 = devicePixelRatio r"
  using assms
  by (auto simp: render_prepare_def resize_def cursorCalls_def Let_def split: if_splits)

lemma render_selectionRows_facts:
  assumes "render_selectionRows r = (r', sel)"
  shows "ctx r' = ctx r" "calls r' = calls r"
    "cursorVisible r' = cursorVisible r" "cursorSuppressed r' = cursorSuppressed r"
    "lastCursorPosition r' = lastCursorPosition r"
    "case selectionManager r' of Some sm \<Rightarrow> getDirtySelectionRows sm = {} | None \<Rightarrow> True"
    "selectionManager r = None \<longleftrightarrow> selectionManager r' = None"
    "devicePixelRatio r' = devicePixelRatio r"
  using assms
  by (auto simp: render_selectionRows_def clearDirtySelectionRows_def Let_def
      split: option.splits if_splits)

lemma render_hyperlinkRows_facts:
  assumes "render_hyperlinkRows r buffer viewportY sp n = (r', hyp)"
  shows "ctx r' = ctx r" "calls r' = calls r"
    "cursorVisible r' = cursorVisible r" "cursorSuppressed r' = cursorSuppressed r"
    "lastCursorPosition r' = lastCursorPosition r"
    "selectionManager r' = selectionManager r" "devicePixelRatio r' = devicePixelRatio r"
  using assms
  by (auto simp: render_hyperlinkRows_def Let_def split: if_splits)

lemma frame_render_rows:
  "render_rows F r buffer vy sp n todo ys = Inr r' \<Longrightarrow> frame r r' \<and> cursorCalls r' = cursorCalls r"
proof (induction ys arbitrary: r)
  case Nil
  then show ?case by (simp add: frame_refl)
next
  case (Cons y ys)
  show ?case
  proof (cases "y \<notin> todo \<or> fetchLine buffer vy sp n y = None")
    case True
    with Cons.prems have "render_rows F r buffer vy sp n todo ys = Inr r'"
      by (auto split: if_splits)
    then show ?thesis by (rule Cons.IH)
  next
    case False
    then obtain line where line: "fetchLine buffer vy sp n y = Some line" and y: "y \<in> todo" by auto
    with Cons.prems obtain r1 where r1: "renderLine F r line y (cols (getDimensions buffer)) = Inr r1"
      and rest: "render_rows F r1 buffer vy sp n todo ys = Inr r'"
      by (auto split: sum.splits)
    from frame_renderLine(1)[OF r1] cursorCalls_renderLine[OF r1] Cons.IH[OF rest]
    show ?thesis by (auto intro: frame_trans)
  qed
qed

lemma render_decompose:
  assumes "render F r buffer forceAll viewportY sp so = Inr (r', b')"
  obtains r0 fa r1 r2 sel r3 hyp r4 where
    "render_prepare r buffer forceAll viewportY = (r0, fa)"
    "render_cursorLines F r0 buffer fa = Inr r1"
    "render_selectionRows r1 = (r2, sel)"
    "render_hyperlinkRows r2 buffer viewportY sp
        (case sp of Some provider \<Rightarrow> getScrollbackLength provider | None \<Rightarrow> 0) = (r3, hyp)"
    "render_rows F r3 buffer viewportY sp
        (case sp of Some provider \<Rightarrow> getScrollbackLength provider | None \<Rightarrow> 0)
        (render_rowsToRender buffer fa viewportY sel hyp)
        [0..rows (getDimensions buffer) - 1] = Inr r4"
    "render_finish r4 buffer viewportY sp
        (case sp of Some provider \<Rightarrow> getScrollbackLength provider | None \<Rightarrow> 0) so = (r', b')"
  using assms
  unfolding render_def render_paint_def Let_def
  by (auto split: prod.splits sum.splits)

lemma frame_renderCursor: "frame r (renderCursor r x y)"
  unfolding renderCursor_def Let_def by (rule frame_trans[OF frame_calls frame_ctx])

lemma calls_renderCursor: "calls (renderCursor r x y) = calls r @ [CallRenderCursor x y]"
  by (simp add: renderCursor_def Let_def)

lemma frame_renderScrollbar: "frame r (renderScrollbar r vy n k so)"
  unfolding renderScrollbar_def Let_def
  by (simp add: frame_trans[OF frame_calls frame_ctx])

lemma calls_renderScrollbar: "calls (renderScrollbar r vy n k so) = calls r @ [CallRenderScrollbar]"
  by (simp add: renderScrollbar_def Let_def)

lemma render_finish_facts:
  assumes "render_finish r4 buffer viewportY sp n so = (r', b')"
  shows "b' = clearDirty buffer"
    "selectionManager r' = selectionManager r4"
    "devicePixelRatio r' = devicePixelRatio r4"
    "cursorCalls r' = cursorCalls r4 @
       (if shouldDrawCursor r4 buffer viewportY
        then [CallRenderCursor (cursor_x (getCursor buffer)) (cursor_y (getCursor buffer))] else [])"
proof -
  define ra where "ra = (if shouldDrawCursor r4 buffer viewportY
     then renderCursor r4 (cursor_x (getCursor buffer)) (cursor_y (getCursor buffer)) else r4)"
  define rb where "rb = (if sp \<noteq> None \<and> so > 0
     then renderScrollbar ra viewportY n (rows (getDimensions buffer)) so else ra)"
  have fa: "frame r4 ra" by (simp add: ra_def frame_renderCursor frame_refl)
  have fb: "frame ra rb" by (simp add: rb_def frame_renderScrollbar frame_refl)
  have ca: "cursorCalls ra = cursorCalls r4 @
       (if shouldDrawCursor r4 buffer viewportY
        then [CallRenderCursor (cursor_x (getCursor buffer)) (cursor_y (getCursor buffer))] else [])"
    by (simp add: ra_def cursorCalls_def calls_renderCursor)
  have cb: "cursorCalls rb = cursorCalls ra"
    by (simp add: rb_def cursorCalls_def calls_renderScrollbar)
  have "render_finish r4 buffer viewportY sp n so =
      (rb\<lparr>lastCursorPosition := (cursor_x (getCursor buffer), cursor_y (getCursor buffer)),
        currentBuffer := Some (clearDirty buffer)\<rparr>, clearDirty buffer)"
    unfolding render_finish_def Let_def ra_def rb_def by simp
  with assms have res: "r' = rb\<lparr>lastCursorPosition := (cursor_x (getCursor buffer), cursor_y (getCursor buffer)),
        currentBuffer := Some (clearDirty buffer)\<rparr>" "b' = clearDirty buffer"
    by auto
  show "b' = clearDirty buffer" by (rule res(2))
  show "selectionManager r' = selectionManager r4"
    using frame_fields(1)[OF fa] frame_fields(1)[OF fb] by (simp add: res(1))
  show "devicePixelRatio r' = devicePixelRatio r4"
    using frame_fields(4)[OF fa] frame_fields(4)[OF fb] by (simp add: res(1))
  show "cursorCalls r' = cursorCalls r4 @
       (if shouldDrawCursor r4 buffer viewportY
        then [CallRenderCursor (cursor_x (getCursor buffer)) (cursor_y (getCursor buffer))] else [])"
    using ca cb by (simp add: res(1) cursorCalls_def)
qed

subsection \<open>render returns on well-formed cells\<close>

text \<open>\<^verbatim>\<open>render\<close> has no \<^verbatim>\<open>try\<close>: it returns unless a cell on the host-text path carries a
  number that is not a code point.\<close>

lemma renderCellText_returns:
  assumes "valid_codepoint cell"
  shows "\<exists>r'. renderCellText F r cell x y = Inr r'"
proof -
  define cp where "cp = (if codepoint cell = 0 then 32 else codepoint cell)"
  have "\<exists>s. String_fromCodePoint cp = Inr s"
    using assms by (simp add: String_fromCodePoint_def valid_codepoint_def cp_def)
  then obtain s where s: "String_fromCodePoint cp = Inr s"
    by blast
  show ?thesis
    unfolding renderCellText_def Let_def cp_def[symmetric]
    by (simp add: s split: option.split)
qed

lemma renderLine_texts_returns:
  "list_all valid_codepoint line \<Longrightarrow> \<exists>r'. renderLine_texts F r line x y = Inr r'"
proof (induction line arbitrary: r x)
  case Nil
  show ?case by simp
next
  case (Cons cell rest)
  then have v: "valid_codepoint cell" and vr: "list_all valid_codepoint rest" by simp_all
  from renderCellText_returns[OF v] obtain r1 where r1: "renderCellText F r cell x y = Inr r1"
    by blast
  from Cons.IH[OF vr] show ?case by (simp add: r1)
qed

lemma renderLine_returns:
  "list_all valid_codepoint line \<Longrightarrow> \<exists>r'. renderLine F r line y n = Inr r'"
  unfolding renderLine_def Let_def by (rule renderLine_texts_returns)

lemma render_cursorLines_returns:
  assumes "valid_lines (getLine buffer)"
  shows "\<exists>r'. render_cursorLines F r buffer fa = Inr r'"
proof -
  have step: "\<And>a y. \<exists>b. (case getLine buffer y of
                       Some line \<Rightarrow> renderLine F a line y (cols (getDimensions buffer))
                     | None \<Rightarrow> Inr a) = Inr b"
    using assms renderLine_returns by (auto simp: valid_lines_def split: option.split)
  obtain b where b: "(case getLine buffer (cursor_y (getCursor buffer)) of
                       Some line \<Rightarrow> renderLine F r line (cursor_y (getCursor buffer)) (cols (getDimensions buffer))
                     | None \<Rightarrow> Inr r) = Inr b"
    using step by blast
  show ?thesis
    unfolding render_cursorLines_def Let_def
    using step b by (auto split: sum.split)
qed

lemma fetchLine_valid:
  assumes "valid_lines (getLine buffer)"
    and "case sp of Some provider \<Rightarrow> valid_lines (getScrollbackLine provider) | None \<Rightarrow> True"
    and "fetchLine buffer vy sp n y = Some line"
  shows "list_all valid_codepoint line"
  using assms
  by (auto simp: fetchLine_def valid_lines_def Let_def split: if_splits option.splits bool.splits)

lemma render_rows_returns:
  assumes "valid_lines (getLine buffer)"
    and "case sp of Some provider \<Rightarrow> valid_lines (getScrollbackLine provider) | None \<Rightarrow> True"
  shows "\<exists>r'. render_rows F r buffer vy sp n todo ys = Inr r'"
proof (induction ys arbitrary: r)
  case Nil
  show ?case by simp
next
  case (Cons y ys)
  show ?case
  proof (cases "fetchLine buffer vy sp n y")
    case None
    then show ?thesis using Cons.IH by simp
  next
    case (Some line)
    from fetchLine_valid[OF assms Some] renderLine_returns
    obtain r1 where "renderLine F r line y (cols (getDimensions buffer)) = Inr r1" by blast
    then show ?thesis using Cons.IH Some by simp
  qed
qed

lemma render_returns:
  assumes "valid_lines (getLine buffer)"
    and "case sp of Some provider \<Rightarrow> valid_lines (getScrollbackLine provider) | None \<Rightarrow> True"
  shows "\<exists>r' b'. render F r buffer forceAll viewportY sp so = Inr (r', b')"
proof -
  obtain r0 fa where p0: "render_prepare r buffer forceAll viewportY = (r0, fa)"
    by (cases "render_prepare r buffer forceAll viewportY")
  obtain r1 where p1: "render_cursorLines F r0 buffer fa = Inr r1"
    using render_cursorLines_returns[OF assms(1)] by blast
  obtain r2 sel where p2: "render_selectionRows r1 = (r2, sel)"
    by (cases "render_selectionRows r1")
  obtain r3 hyp where p3: "render_hyperlinkRows r2 buffer viewportY sp
        (case sp of Some provider \<Rightarrow> getScrollbackLength provider | None \<Rightarrow> 0) = (r3, hyp)"
    by (cases "render_hyperlinkRows r2 buffer viewportY sp
        (case sp of Some provider \<Rightarrow> getScrollbackLength provider | None \<Rightarrow> 0)")
  obtain r4 where p4: "render_rows F r3 buffer viewportY sp
        (case sp of Some provider \<Rightarrow> getScrollbackLength provider | None \<Rightarrow> 0)
        (render_rowsToRender buffer fa viewportY sel hyp)
        [0..rows (getDimensions buffer) - 1] = Inr r4"
    using render_rows_returns[OF assms] by blast
  show ?thesis
    unfolding render_def render_paint_def Let_def
    by (simp add: p0 p1 p2 p3 p4 prod_eq_iff)
qed

subsection \<open>Line fetch under a scrolled viewport (C2)\<close>

text \<open>For an integral \<^verbatim>\<open>viewportY\<close> the fetch is the one the specification describes.\<close>

lemma fetchLine_integral:
  "fetchLine buffer (of_int k) sp n y =
     (if k > 0 then
        (case sp of
           Some provider \<Rightarrow>
             if y < k then getScrollbackLine provider (n - k + y) else getLine buffer (y - k)
         | None \<Rightarrow> getLine buffer (y - k))
      else getLine buffer y)"
  by (simp add: fetchLine_def Let_def split: option.split bool.split)

text \<open>
  Claim C2 says that with \<^verbatim>\<open>viewportY > 0\<close> and a scrollback provider a row comes from
  the scrollback exactly when \<open>y < \<lfloor>viewportY\<rfloor>\<close>, fractional positions included.
  The code compares \<open>y\<close> with \<^verbatim>\<open>viewportY\<close> itself and floors only the offsets: for a
  fractional \<^verbatim>\<open>viewportY\<close> the row \<open>y = \<lfloor>viewportY\<rfloor>\<close> is fetched from the scrollback
  at offset \<^verbatim>\<open>scrollbackLength\<close>, one past its last line, and not from
  \<^verbatim>\<open>buffer.getLine(0)\<close>.
\<close>

theorem fetchLine_fractional_boundary_row:
  assumes pos: "0 < viewportY"
    and frac: "of_int \<lfloor>viewportY\<rfloor> < viewportY"
  shows "fetchLine buffer viewportY (Some provider) n \<lfloor>viewportY\<rfloor> = getScrollbackLine provider n"
  using pos frac by (simp add: fetchLine_def Let_def)

text \<open>\<^verbatim>\<open>viewportY = 2.5\<close>, four rows, ten scrollback lines: row 2 asks the scrollback for
  line 10, which does not exist, so \<^verbatim>\<open>render\<close> paints rows 0, 1 and 3 only, and line 0
  of the buffer is not shown.\<close>

theorem fetchLine_fractional_boundary_row_witness:
  "(0::rat) < 5 / 2 \<and> of_int \<lfloor>5 / 2 :: rat\<rfloor> < (5 / 2 :: rat)
   \<and> fetchLine example_buffer (5 / 2) (Some example_scrollback) 10 2
       = getScrollbackLine example_scrollback 10
   \<and> getScrollbackLine example_scrollback 10 = None
   \<and> getLine example_buffer (2 - \<lfloor>5 / 2 :: rat\<rfloor>) = Some [example_cell 0x41 0, example_cell 0x2500 0]
   \<and> calls (fst (projr (render example_flags example_renderer example_buffer False (5 / 2)
               (Some example_scrollback) 1)))
       = [CallResize 2 4, CallRenderLine 0, CallRenderLine 1, CallRenderLine 3, CallRenderScrollbar]"
proof -
  have a: "(0::rat) < 5 / 2" by simp
  have fl: "\<lfloor>5 / 2 :: rat\<rfloor> = 2" by code_simp
  have b: "of_int \<lfloor>5 / 2 :: rat\<rfloor> < (5 / 2 :: rat)" by (simp add: fl)
  have c: "getScrollbackLine example_scrollback 10 = None" by (simp add: example_scrollback_def)
  have d: "getLine example_buffer (2 - \<lfloor>5 / 2 :: rat\<rfloor>) = Some [example_cell 0x41 0, example_cell 0x2500 0]"
    by (simp add: fl example_buffer_def)
  have e: "calls (fst (projr (render example_flags example_renderer example_buffer False (5 / 2)
               (Some example_scrollback) 1)))
       = [CallResize 2 4, CallRenderLine 0, CallRenderLine 1, CallRenderLine 3, CallRenderScrollbar]"
    by code_simp
  from fetchLine_fractional_boundary_row[OF a b, of example_buffer example_scrollback 10] a b c d e
  show ?thesis by (simp add: fl)
qed

subsection \<open>Dirty state is cleared (C3)\<close>

text \<open>
  Claim C3. Whenever \<^verbatim>\<open>render\<close> returns, whatever \<^verbatim>\<open>forceAll\<close> was and whichever rows
  were painted or skipped, it has called \<^verbatim>\<open>buffer.clearDirty()\<close>: the buffer it leaves is
  the given one with \<^verbatim>\<open>clearDirty\<close> applied, no row of it is dirty, and the selection
  manager (if there is one) has no dirty selection row.
\<close>

theorem render_clears_dirty_state:
  assumes ret: "render F r buffer forceAll viewportY sp so = Inr (r', b')"
  shows "b' = clearDirty buffer
         \<and> (\<forall>y. \<not> isRowDirty b' y)
         \<and> (case selectionManager r' of
               Some sm \<Rightarrow> getDirtySelectionRows sm = {}
             | None \<Rightarrow> True)"
proof -
  from ret obtain r0 fa r1 r2 sel r3 hyp r4 where
    p1: "render_cursorLines F r0 buffer fa = Inr r1"
    and p2: "render_selectionRows r1 = (r2, sel)"
    and p3: "render_hyperlinkRows r2 buffer viewportY sp
        (case sp of Some provider \<Rightarrow> getScrollbackLength provider | None \<Rightarrow> 0) = (r3, hyp)"
    and p4: "render_rows F r3 buffer viewportY sp
        (case sp of Some provider \<Rightarrow> getScrollbackLength provider | None \<Rightarrow> 0)
        (render_rowsToRender buffer fa viewportY sel hyp)
        [0..rows (getDimensions buffer) - 1] = Inr r4"
    and p5: "render_finish r4 buffer viewportY sp
        (case sp of Some provider \<Rightarrow> getScrollbackLength provider | None \<Rightarrow> 0) so = (r', b')"
    by (rule render_decompose)
  have b: "b' = clearDirty buffer" by (rule render_finish_facts(1)[OF p5])
  then have d: "\<forall>y. \<not> isRowDirty b' y" by (simp add: clearDirty_def isRowDirty_def)
  have "selectionManager r' = selectionManager r4" by (rule render_finish_facts(2)[OF p5])
  also have "\<dots> = selectionManager r3"
    using frame_render_rows[OF p4] frame_fields(1) by blast
  also have "\<dots> = selectionManager r2" by (rule render_hyperlinkRows_facts(6)[OF p3])
  finally have "selectionManager r' = selectionManager r2" .
  with render_selectionRows_facts(6)[OF p2] b d show ?thesis by simp
qed

theorem render_clears_dirty_state_witness:
  "isRowDirty example_buffer 1
   \<and> \<not> isl (render example_flags (example_renderer\<lparr>selectionManager := Some example_selection\<rparr>)
               example_buffer False 0 None 1)
   \<and> (\<forall>y. \<not> isRowDirty (snd (projr (render example_flags
               (example_renderer\<lparr>selectionManager := Some example_selection\<rparr>)
               example_buffer False 0 None 1))) y)
   \<and> (case selectionManager (fst (projr (render example_flags
               (example_renderer\<lparr>selectionManager := Some example_selection\<rparr>)
               example_buffer False 0 None 1))) of
         Some sm \<Rightarrow> getDirtySelectionRows sm = {}
       | None \<Rightarrow> False)"
proof -
  let ?res = "render example_flags (example_renderer\<lparr>selectionManager := Some example_selection\<rparr>)
               example_buffer False 0 None 1"
  have a: "isRowDirty example_buffer 1" by code_simp
  have b: "\<not> isl ?res" by code_simp
  then have c: "?res = Inr (fst (projr ?res), snd (projr ?res))" by simp
  have d: "selectionManager (fst (projr ?res)) \<noteq> None" by code_simp
  from render_clears_dirty_state[OF c] a b d show ?thesis
    by (auto split: option.splits)
qed

subsection \<open>What a call leaves, returning or raising\<close>

text \<open>The renderer a method leaves behind, also when it raises: it has the fields of the
  given one, the same entries of \<^verbatim>\<open>renderCursor\<close>, and no recorded drawing call is taken
  back; \<^verbatim>\<open>resize\<close>, \<^verbatim>\<open>renderLine\<close>, \<^verbatim>\<open>renderCursor\<close> and \<^verbatim>\<open>renderScrollbar\<close> each record at
  least one.\<close>

lemma outcome_Inl: "outcome (Inl (e, s)) = s"
  by (simp add: outcome_def)

lemma outcome_Inr: "outcome (Inr s) = s"
  by (simp add: outcome_def)

lemma outcome_bind:
  "outcome (case x of Inl e \<Rightarrow> Inl e | Inr s \<Rightarrow> g s) = (case x of Inl e \<Rightarrow> snd e | Inr s \<Rightarrow> outcome (g s))"
  by (cases x) (auto simp: outcome_def)

lemma outcome_cases:
  obtains (raises) e where "x = Inl (e, outcome x)" | (returns) "x = Inr (outcome x)"
  by (cases x) (auto simp: outcome_def)

lemma len_adds: "adds P c d \<Longrightarrow> length (ops c) \<le> length (ops d)"
  by (auto simp: adds_def)

lemma len_drawRoundedCorner: "length (ops c) \<le> length (ops (drawRoundedCorner m cp x y col c))"
  using ops_drawRoundedCorner[of m cp x y col c] by auto

lemma adds_drawDashedLine: "adds (\<lambda>_. True) c (drawDashedLine m cp x y col c)"
proof (cases "getDashedLineConfig cp")
  case None
  then show ?thesis by (simp add: drawDashedLine_def adds_refl)
next
  case (Some config)
  have a: "adds (\<lambda>_. True) c (c\<lparr>fillStyle := col\<rparr>)" by (simp add: adds_same_ops)
  have f: "\<And>f xs d. (\<And>c i. adds (\<lambda>_. True) c (f c i)) \<Longrightarrow> adds (\<lambda>_. True) d (foldl f d xs)"
    by (rule adds_foldl)
  have r: "\<And>x y w h d. adds (\<lambda>_. True) d (fillRect x y w h d)" by (simp add: adds_fillRect)
  show ?thesis
    unfolding drawDashedLine_def Let_def Some option.case
    by (rule adds_trans[OF a]) (simp add: f r)
qed

lemma len_drawDashedLine: "length (ops c) \<le> length (ops (drawDashedLine m cp x y col c))"
  by (rule len_adds[OF adds_drawDashedLine])

lemma len_strokeLine: "length (ops (strokeLine s x w y c)) = Suc (length (ops c))"
  by (simp add: strokeLine_def beginPath_def moveTo_def lineTo_def stroke_def Let_def)

lemma len_cellDecorations: "length (ops c) \<le> length (ops (cellDecorations F r cell x y c))"
  by (simp add: cellDecorations_def len_strokeLine Let_def split: option.split)

lemma len_fillText: "length (ops (fillText s x y c)) = Suc (length (ops c))"
  by (simp add: fillText_def)

lemma len_fillRect: "length (ops (fillRect x y w h c)) = Suc (length (ops c))"
  by (simp add: fillRect_def)

lemma outcome_renderCellText:
  "frame r (outcome (renderCellText F r cell x y))"
  "calls (outcome (renderCellText F r cell x y)) = calls r"
  "length (ops (ctx r)) \<le> length (ops (ctx (outcome (renderCellText F r cell x y))))"
proof -
  define c where "c = setTextStyle F r cell x y"
  have c: "length (ops c) = length (ops (ctx r))" by (simp add: c_def ops_setTextStyle)
  note fam = len_adds[OF noStroke_box] len_adds[OF noStroke_block] len_adds[OF noStroke_braille]
    len_adds[OF noStroke_sextant] len_adds[OF noStroke_octant] len_adds[OF noStroke_triangle]
    len_adds[OF noStroke_powerline] len_adds[OF noStroke_wedge] len_adds[OF noStroke_mosaic]
    len_drawRoundedCorner len_drawDashedLine
  have t: "\<And>s tx ty. length (ops (ctx r))
      \<le> length (ops (cellDecorations F r cell x y (resetFaint F cell (fillText s tx ty c))))"
    using len_cellDecorations[of "resetFaint F cell (fillText _ _ _ c)" F r cell x y]
    by (simp add: ops_resetFaint len_fillText c le_Suc_eq[symmetric] Suc_leD)
  show "frame r (outcome (renderCellText F r cell x y))"
    unfolding renderCellText_def Let_def
    by (auto simp: frame_ctx frame_refl outcome_def split: option.splits sum.splits)
  show "calls (outcome (renderCellText F r cell x y)) = calls r"
    unfolding renderCellText_def Let_def
    by (auto simp: outcome_def split: option.splits sum.splits)
  show "length (ops (ctx r)) \<le> length (ops (ctx (outcome (renderCellText F r cell x y))))"
    unfolding renderCellText_def Let_def c_def[symmetric]
    using fam[where c = c, unfolded c]
    by (auto simp: outcome_def ops_resetFaint c t split: option.splits sum.splits)
qed

lemma outcome_renderLine_texts:
  "frame r (outcome (renderLine_texts F r line x y))
   \<and> calls (outcome (renderLine_texts F r line x y)) = calls r
   \<and> length (ops (ctx r)) \<le> length (ops (ctx (outcome (renderLine_texts F r line x y))))"
proof (induction line arbitrary: r x)
  case Nil
  show ?case by (simp add: frame_refl outcome_Inr)
next
  case (Cons cell rest)
  show ?case
  proof (cases "width cell = 0")
    case True
    then show ?thesis using Cons.IH[of r "x + 1"] by simp
  next
    case False
    note h = outcome_renderCellText[where r = r and F = F and cell = cell and x = x and y = y]
    show ?thesis
    proof (cases "renderCellText F r cell x y" rule: outcome_cases)
      case (raises e)
      have "renderLine_texts F r (cell # rest) x y = Inl (e, outcome (renderCellText F r cell x y))"
        using False by (simp, subst raises, simp)
      then show ?thesis using h by (simp add: outcome_Inl)
    next
      case returns
      have "renderLine_texts F r (cell # rest) x y =
              renderLine_texts F (outcome (renderCellText F r cell x y)) rest (x + 1) y"
        using False by (simp, subst returns, simp)
      then show ?thesis
        using h Cons.IH[of "outcome (renderCellText F r cell x y)" "x + 1"]
        by (auto intro: frame_trans)
    qed
  qed
qed

lemma len_renderCellBackground:
  "length (ops (ctx r)) \<le> length (ops (ctx (renderCellBackground F r cell x y)))"
  by (simp add: renderCellBackground_def len_fillRect Let_def split: prod.split)

lemma len_renderLine_backgrounds:
  "length (ops (ctx r)) \<le> length (ops (ctx (renderLine_backgrounds F r line x y)))"
proof (induction line arbitrary: r x)
  case Nil
  show ?case by simp
next
  case (Cons cell rest)
  show ?case
    using Cons.IH[of r "x + 1"] Cons.IH[of "renderCellBackground F r cell x y" "x + 1"]
      len_renderCellBackground[where r = r and F = F and cell = cell and x = x and y = y]
    by auto
qed

lemma outcome_renderLine:
  "frame r (outcome (renderLine F r line y n))"
  "calls (outcome (renderLine F r line y n)) = calls r @ [CallRenderLine y]"
  "length (ops (ctx r)) < length (ops (ctx (outcome (renderLine F r line y n))))"
proof -
  define r0 where "r0 = r\<lparr>calls := calls r @ [CallRenderLine y]\<rparr>"
  define c where "c = fillRect 0 (of_int y * mheight (metrics r0)) (of_int n * mwidth (metrics r0))
      (mheight (metrics r0)) ((ctx r0)\<lparr>fillStyle := Css (background (theme r0))\<rparr>)"
  define r1 where "r1 = renderLine_backgrounds F (r0\<lparr>ctx := c\<rparr>) line 0 y"
  have t: "renderLine F r line y n = renderLine_texts F r1 line 0 y"
    by (simp add: renderLine_def Let_def r0_def c_def r1_def)
  have f0: "frame r r0" "calls r0 = calls r @ [CallRenderLine y]"
    by (simp_all add: r0_def frame_calls)
  have l0: "length (ops c) = Suc (length (ops (ctx r)))"
    by (simp add: c_def len_fillRect r0_def)
  have f1: "frame r0 r1" "calls r1 = calls r0"
    using frame_renderLine_backgrounds[where r = "r0\<lparr>ctx := c\<rparr>" and F = F and line = line and x = 0 and y = y]
    by (auto simp: r1_def intro: frame_trans[OF frame_ctx])
  have l1: "length (ops c) \<le> length (ops (ctx r1))"
    using len_renderLine_backgrounds[where r = "r0\<lparr>ctx := c\<rparr>" and F = F and line = line and x = 0 and y = y] by (simp add: r1_def)
  note h = outcome_renderLine_texts[where r = r1 and F = F and line = line and x = 0 and y = y]
  show "frame r (outcome (renderLine F r line y n))"
    using h f0 f1 by (auto simp: t intro: frame_trans)
  show "calls (outcome (renderLine F r line y n)) = calls r @ [CallRenderLine y]"
    using h f0 f1 by (simp add: t)
  show "length (ops (ctx r)) < length (ops (ctx (outcome (renderLine F r line y n))))"
    using h l0 l1 by (simp add: t)
qed

lemma cursorCalls_outcome_renderLine:
  "cursorCalls (outcome (renderLine F r line y n)) = cursorCalls r"
  by (simp add: cursorCalls_def outcome_renderLine(2))

lemma outcome_render_rows:
  "frame r (outcome (render_rows F r buffer vy sp n todo ys))
   \<and> cursorCalls (outcome (render_rows F r buffer vy sp n todo ys)) = cursorCalls r
   \<and> length (ops (ctx r)) \<le> length (ops (ctx (outcome (render_rows F r buffer vy sp n todo ys))))"
proof (induction ys arbitrary: r)
  case Nil
  show ?case by (simp add: frame_refl outcome_Inr)
next
  case (Cons y ys)
  show ?case
  proof (cases "y \<notin> todo \<or> fetchLine buffer vy sp n y = None")
    case True
    then have "render_rows F r buffer vy sp n todo (y # ys) = render_rows F r buffer vy sp n todo ys"
      by auto
    then show ?thesis using Cons.IH[of r] by simp
  next
    case False
    then obtain line where line: "fetchLine buffer vy sp n y = Some line" and y: "y \<in> todo" by auto
    let ?o = "outcome (renderLine F r line y (cols (getDimensions buffer)))"
    note h = outcome_renderLine[where r = r and F = F and line = line and y = y and n = "cols (getDimensions buffer)"]
      cursorCalls_outcome_renderLine[where r = r and F = F and line = line and y = y and n = "cols (getDimensions buffer)"]
    show ?thesis
    proof (cases "renderLine F r line y (cols (getDimensions buffer))" rule: outcome_cases)
      case (raises e)
      have "render_rows F r buffer vy sp n todo (y # ys) = Inl (e, ?o)"
        using line y by (simp, subst raises, simp)
      then show ?thesis using h by (simp add: outcome_Inl)
    next
      case returns
      have "render_rows F r buffer vy sp n todo (y # ys) = render_rows F ?o buffer vy sp n todo ys"
        using line y by (simp, subst returns, simp)
      then show ?thesis
        using h Cons.IH[of ?o] by (auto intro: frame_trans)
    qed
  qed
qed

lemma keeps_refl: "keeps r r"
  by (simp add: keeps_def)

lemma keeps_trans: "keeps a b \<Longrightarrow> keeps b c \<Longrightarrow> keeps a c"
  by (simp add: keeps_def)

lemma keeps_frame:
  "frame r r' \<Longrightarrow> cursorCalls r' = cursorCalls r
   \<Longrightarrow> length (ops (ctx r)) \<le> length (ops (ctx r')) \<Longrightarrow> keeps r r'"
  by (auto simp: keeps_def frame_def)

lemma keeps_same:
  "metrics r' = metrics r \<Longrightarrow> theme r' = theme r \<Longrightarrow> cursorStyle r' = cursorStyle r
   \<Longrightarrow> cursorBlink r' = cursorBlink r \<Longrightarrow> cursorVisible r' = cursorVisible r
   \<Longrightarrow> cursorSuppressed r' = cursorSuppressed r \<Longrightarrow> devicePixelRatio r' = devicePixelRatio r
   \<Longrightarrow> lastCursorPosition r' = lastCursorPosition r \<Longrightarrow> calls r' = calls r \<Longrightarrow> ctx r' = ctx r
   \<Longrightarrow> keeps r r'"
  by (simp add: keeps_def cursorCalls_def)

text \<open>One repaint of a cursor line.\<close>

lemma outcome_cursorLine:
  assumes st_def: "st = (case getLine buffer y of
                    Some line \<Rightarrow> renderLine F a line y (cols (getDimensions buffer))
                  | None \<Rightarrow> Inr a)"
  shows "frame a (outcome st)" "keeps a (outcome st)"
    "getLine buffer y \<noteq> None \<Longrightarrow> length (ops (ctx a)) < length (ops (ctx (outcome st)))"
    "getLine buffer y = None \<Longrightarrow> st = Inr a"
proof -
  show f: "frame a (outcome st)"
    by (simp add: st_def outcome_renderLine(1) frame_refl outcome_Inr split: option.split)
  have c: "cursorCalls (outcome st) = cursorCalls a"
    by (simp add: st_def cursorCalls_outcome_renderLine outcome_Inr split: option.split)
  have l: "length (ops (ctx a)) \<le> length (ops (ctx (outcome st)))"
    by (simp add: st_def less_imp_le[OF outcome_renderLine(3)] outcome_Inr split: option.split)
  show "keeps a (outcome st)" by (rule keeps_frame[OF f c l])
  show "getLine buffer y \<noteq> None \<Longrightarrow> length (ops (ctx a)) < length (ops (ctx (outcome st)))"
    by (auto simp: st_def outcome_renderLine(3))
  show "getLine buffer y = None \<Longrightarrow> st = Inr a"
    by (simp add: st_def)
qed

lemma outcome_render_cursorLines:
  "keeps r (outcome (render_cursorLines F r buffer fa))"
  "cursorLinesRepainted r buffer fa
   \<Longrightarrow> length (ops (ctx r)) < length (ops (ctx (outcome (render_cursorLines F r buffer fa))))"
  "\<not> cursorLinesRepainted r buffer fa \<Longrightarrow> render_cursorLines F r buffer fa = Inr r"
proof -
  define cy where "cy = cursor_y (getCursor buffer)"
  define ly where "ly = snd (lastCursorPosition r)"
  define moved where "moved \<longleftrightarrow> cursor_x (getCursor buffer) \<noteq> fst (lastCursorPosition r)
                         \<or> cursor_y (getCursor buffer) \<noteq> snd (lastCursorPosition r)"
  define st where "st = (\<lambda>a y. case getLine buffer y of
                    Some line \<Rightarrow> renderLine F a line y (cols (getDimensions buffer))
                  | None \<Rightarrow> Inr a)"
  define first where "first = (if \<not> fa \<and> \<not> isRowDirty buffer cy then st r cy else Inr r)"
  define second where "second = (\<lambda>a. if moved \<and> ly \<noteq> cy then
                  (if \<not> fa \<and> \<not> isRowDirty buffer ly then st a ly else Inr a) else Inr a)"
  have s: "frame a (outcome (st a y))" "keeps a (outcome (st a y))"
    "getLine buffer y \<noteq> None \<Longrightarrow> length (ops (ctx a)) < length (ops (ctx (outcome (st a y))))"
    "getLine buffer y = None \<Longrightarrow> st a y = Inr a" for a y
    using outcome_cursorLine[where st = "st a y" and buffer = buffer and y = y and F = F and a = a] by (simp_all add: st_def)
  have k1: "keeps r (outcome first)"
    by (simp add: first_def s(2) keeps_refl outcome_Inr)
  have f1: "frame r (outcome first)"
    by (simp add: first_def s(1) frame_refl outcome_Inr)
  have k2: "\<And>a. keeps a (outcome (second a))"
    by (simp add: second_def s(2) keeps_refl outcome_Inr)
  have l1: "\<not> fa \<Longrightarrow> \<not> isRowDirty buffer cy \<Longrightarrow> getLine buffer cy \<noteq> None
            \<Longrightarrow> length (ops (ctx r)) < length (ops (ctx (outcome first)))"
    by (simp add: first_def s(3))
  have l2: "\<And>a. moved \<Longrightarrow> ly \<noteq> cy \<Longrightarrow> \<not> fa \<Longrightarrow> \<not> isRowDirty buffer ly \<Longrightarrow> getLine buffer ly \<noteq> None
            \<Longrightarrow> length (ops (ctx a)) < length (ops (ctx (outcome (second a))))"
    by (simp add: second_def s(3))
  have eq: "render_cursorLines F r buffer fa =
      (if moved \<or> cursorBlink r then
         (case first of Inl e \<Rightarrow> Inl e
          | Inr a \<Rightarrow> if moved \<and> snd (lastCursorPosition a) \<noteq> cy then
                  (if \<not> fa \<and> \<not> isRowDirty buffer (snd (lastCursorPosition a)) then st a (snd (lastCursorPosition a))
                   else Inr a) else Inr a)
       else Inr r)"
    unfolding render_cursorLines_def Let_def moved_def cy_def first_def st_def by (rule refl)
  have out: "outcome (render_cursorLines F r buffer fa) =
      (if moved \<or> cursorBlink r then
         (case first of Inl e \<Rightarrow> snd e | Inr a \<Rightarrow> outcome (second a))
       else r)"
  proof (cases first rule: outcome_cases)
    case (raises e)
    show ?thesis by (subst eq, subst (1 2) raises) (simp add: outcome_Inl outcome_Inr)
  next
    case returns
    have "lastCursorPosition (outcome first) = lastCursorPosition r"
      using frame_fields(8)[OF f1] .
    then show ?thesis
      by (subst eq, subst (1 2) returns) (simp add: outcome_Inr second_def ly_def)
  qed
  have le: "\<And>a b. keeps a b \<Longrightarrow> length (ops (ctx a)) \<le> length (ops (ctx b))"
    by (simp add: keeps_def)
  show "keeps r (outcome (render_cursorLines F r buffer fa))"
  proof (cases first rule: outcome_cases)
    case (raises e)
    show ?thesis using k1 by (subst out, subst raises) (simp add: keeps_refl)
  next
    case returns
    show ?thesis using keeps_trans[OF k1 k2[of "outcome first"]]
      by (subst out, subst returns) (simp add: keeps_refl)
  qed
  show "length (ops (ctx r)) < length (ops (ctx (outcome (render_cursorLines F r buffer fa))))"
    if rep: "cursorLinesRepainted r buffer fa"
  proof -
    from rep have mb: "moved \<or> cursorBlink r" and nfa: "\<not> fa"
      and alt: "(\<not> isRowDirty buffer cy \<and> getLine buffer cy \<noteq> None)
            \<or> (moved \<and> ly \<noteq> cy \<and> \<not> isRowDirty buffer ly \<and> getLine buffer ly \<noteq> None)"
      by (auto simp: cursorLinesRepainted_def Let_def moved_def cy_def ly_def)
    show ?thesis
    proof (cases first rule: outcome_cases)
      case (raises e)
      have "first \<noteq> Inr r" by (subst raises) simp
      then have "\<not> isRowDirty buffer cy" and "getLine buffer cy \<noteq> None"
        using s(4)[of cy r] by (auto simp: first_def split: if_splits)
      from l1[OF nfa this] show ?thesis using mb
        by (subst out, subst raises) simp
    next
      case returns
      have o: "outcome (render_cursorLines F r buffer fa) = outcome (second (outcome first))"
        using mb by (subst out, subst returns) simp
      from alt show ?thesis
      proof
        assume "\<not> isRowDirty buffer cy \<and> getLine buffer cy \<noteq> None"
        then have "length (ops (ctx r)) < length (ops (ctx (outcome first)))"
          using l1 nfa by simp
        with le[OF k2[of "outcome first"]] show ?thesis by (simp add: o)
      next
        assume "moved \<and> ly \<noteq> cy \<and> \<not> isRowDirty buffer ly \<and> getLine buffer ly \<noteq> None"
        then have "length (ops (ctx (outcome first))) < length (ops (ctx (outcome (second (outcome first)))))"
          using l2 nfa by simp
        with le[OF k1] show ?thesis by (simp add: o)
      qed
    qed
  qed
  show "render_cursorLines F r buffer fa = Inr r" if idle: "\<not> cursorLinesRepainted r buffer fa"
  proof (cases "moved \<or> cursorBlink r")
    case False
    then show ?thesis by (subst eq) simp
  next
    case True
    with idle have a: "fa \<or> isRowDirty buffer cy \<or> getLine buffer cy = None"
      and b: "\<not> moved \<or> ly = cy \<or> fa \<or> isRowDirty buffer ly \<or> getLine buffer ly = None"
      by (auto simp: cursorLinesRepainted_def Let_def moved_def cy_def ly_def)
    from a have 1: "first = Inr r" using s(4)[of cy r] by (auto simp: first_def)
    from b have 2: "(if moved \<and> ly \<noteq> cy then
                  (if \<not> fa \<and> \<not> isRowDirty buffer ly then st r ly else Inr r) else Inr r) = Inr r"
      using s(4)[of ly r] by auto
    show ?thesis using True 2 unfolding ly_def by (subst eq, subst 1) simp
  qed
qed

lemma render_selectionRows_keeps:
  "keeps r (fst (render_selectionRows r))"
  by (simp add: render_selectionRows_def keeps_def cursorCalls_def Let_def split: option.split)

lemma render_hyperlinkRows_keeps:
  "keeps r (fst (render_hyperlinkRows r buffer viewportY sp n))"
  by (simp add: render_hyperlinkRows_def keeps_def cursorCalls_def Let_def)

lemma keeps_resize:
  "keeps r (resize r n k)" "length (ops (ctx r)) < length (ops (ctx (resize r n k)))"
  by (simp_all add: resize_def keeps_def cursorCalls_def Let_def fillRect_def scale_def)

lemma render_prepare_keeps:
  "keeps r (fst (render_prepare r buffer forceAll vy))"
proof -
  have a: "keeps r (r\<lparr>currentBuffer := Some buffer\<rparr>)" by (simp add: keeps_def cursorCalls_def)
  have b: "\<And>a v. keeps a (a\<lparr>lastViewportY := v\<rparr>)" by (simp add: keeps_def cursorCalls_def)
  define r1 where "r1 = r\<lparr>currentBuffer := Some buffer\<rparr>"
  define r2 where "r2 = (if canvas_width (ctx r1) \<noteq> of_int (cols (getDimensions buffer)) * mwidth (metrics r1) * devicePixelRatio r1
             \<or> canvas_height (ctx r1) \<noteq> of_int (rows (getDimensions buffer)) * mheight (metrics r1) * devicePixelRatio r1
             then resize r1 (cols (getDimensions buffer)) (rows (getDimensions buffer)) else r1)"
  have k2: "keeps r1 r2" by (simp add: r2_def keeps_resize keeps_refl)
  have "fst (render_prepare r buffer forceAll vy) =
      (if vy \<noteq> lastViewportY r2 then r2\<lparr>lastViewportY := vy\<rparr> else r2)"
    unfolding render_prepare_def Let_def r2_def r1_def by simp
  then show ?thesis
    using keeps_trans[OF a[folded r1_def] k2] keeps_trans[OF keeps_trans[OF a[folded r1_def] k2] b]
    by simp
qed

lemma render_prepare_resizes:
  assumes "canvas_width (ctx r) \<noteq> of_int (cols (getDimensions buffer)) * mwidth (metrics r) * devicePixelRatio r
       \<or> canvas_height (ctx r) \<noteq> of_int (rows (getDimensions buffer)) * mheight (metrics r) * devicePixelRatio r"
  shows "length (ops (ctx r)) < length (ops (ctx (fst (render_prepare r buffer forceAll vy))))"
proof -
  have "ctx (fst (render_prepare r buffer forceAll vy)) =
      ctx (resize (r\<lparr>currentBuffer := Some buffer\<rparr>) (cols (getDimensions buffer)) (rows (getDimensions buffer)))"
    unfolding render_prepare_def Let_def using assms by auto
  then show ?thesis
    using keeps_resize(2)[of "r\<lparr>currentBuffer := Some buffer\<rparr>"] by simp
qed

lemma render_prepare_fits:
  assumes "canvas_width (ctx r) = of_int (cols (getDimensions buffer)) * mwidth (metrics r) * devicePixelRatio r"
    and "canvas_height (ctx r) = of_int (rows (getDimensions buffer)) * mheight (metrics r) * devicePixelRatio r"
  shows "ctx (fst (render_prepare r buffer forceAll vy)) = ctx r"
    "calls (fst (render_prepare r buffer forceAll vy)) = calls r"
    "snd (render_prepare r buffer forceAll vy)
       \<longleftrightarrow> forceAll \<or> needsFullRedraw buffer = Some True \<or> vy \<noteq> lastViewportY r"
  using assms by (simp_all add: render_prepare_def Let_def)

lemma keeps_le: "keeps a b \<Longrightarrow> length (ops (ctx a)) \<le> length (ops (ctx b))"
  by (simp add: keeps_def)

lemma outcome_render_paint:
  "keeps r (outcome (render_paint F r buffer fa vy sp))"
  "cursorLinesRepainted r buffer fa
   \<Longrightarrow> length (ops (ctx r)) < length (ops (ctx (outcome (render_paint F r buffer fa vy sp))))"
  "\<not> cursorLinesRepainted r buffer fa \<Longrightarrow> rows (getDimensions buffer) = 0
   \<Longrightarrow> \<exists>r4. render_paint F r buffer fa vy sp = Inr r4 \<and> ctx r4 = ctx r \<and> calls r4 = calls r"
proof -
  define n where "n = (case sp of Some provider \<Rightarrow> getScrollbackLength provider | None \<Rightarrow> 0)"
  define cl where "cl = render_cursorLines F r buffer fa"
  define r1 where "r1 = outcome cl"
  obtain r2 sel where p2: "render_selectionRows r1 = (r2, sel)"
    by (cases "render_selectionRows r1")
  obtain r3 hyp where p3: "render_hyperlinkRows r2 buffer vy sp n = (r3, hyp)"
    by (cases "render_hyperlinkRows r2 buffer vy sp n")
  define rw where "rw = render_rows F r3 buffer vy sp n
        (render_rowsToRender buffer fa vy sel hyp) [0..rows (getDimensions buffer) - 1]"
  have eq: "render_paint F r buffer fa vy sp =
      (case cl of Inl e \<Rightarrow> Inl e
       | Inr r \<Rightarrow>
           (let (r, selectionRows) = render_selectionRows r;
                (r, hyperlinkRows) = render_hyperlinkRows r buffer vy sp n;
                rowsToRender = render_rowsToRender buffer fa vy selectionRows hyperlinkRows
            in render_rows F r buffer vy sp n rowsToRender [0..rows (getDimensions buffer) - 1]))"
    unfolding render_paint_def Let_def n_def cl_def by (rule refl)
  have ret: "render_paint F r buffer fa vy sp = rw" if "cl = Inr r1"
    by (subst eq, subst that) (simp add: p2 p3 rw_def)
  have k1: "keeps r r1" unfolding r1_def cl_def by (rule outcome_render_cursorLines(1))
  have k3: "keeps r1 r3"
    using keeps_trans[OF render_selectionRows_keeps[of r1] render_hyperlinkRows_keeps[of "fst (render_selectionRows r1)" buffer vy sp n]]
    by (simp add: p2 p3)
  have k4: "keeps r3 (outcome rw)"
    unfolding rw_def using outcome_render_rows by (intro keeps_frame) blast+
  have out: "outcome (render_paint F r buffer fa vy sp) = r1 \<or> outcome (render_paint F r buffer fa vy sp) = outcome rw \<and> cl = Inr r1"
  proof (cases cl rule: outcome_cases)
    case (raises e)
    have "render_paint F r buffer fa vy sp = Inl (e, r1)"
      by (subst eq, subst raises) (simp add: r1_def)
    then show ?thesis by (simp add: outcome_Inl)
  next
    case returns
    then have "cl = Inr r1" by (simp add: r1_def)
    with ret show ?thesis by simp
  qed
  have k: "keeps r1 (outcome (render_paint F r buffer fa vy sp))"
    using out keeps_trans[OF k3 k4] by (auto simp: keeps_refl)
  show "keeps r (outcome (render_paint F r buffer fa vy sp))"
    by (rule keeps_trans[OF k1 k])
  show "length (ops (ctx r)) < length (ops (ctx (outcome (render_paint F r buffer fa vy sp))))"
    if "cursorLinesRepainted r buffer fa"
    using outcome_render_cursorLines(2)[OF that, of F] keeps_le[OF k]
    by (simp add: r1_def cl_def)
  show "\<exists>r4. render_paint F r buffer fa vy sp = Inr r4 \<and> ctx r4 = ctx r \<and> calls r4 = calls r"
    if idle: "\<not> cursorLinesRepainted r buffer fa" and z: "rows (getDimensions buffer) = 0"
  proof -
    have c: "cl = Inr r" unfolding cl_def by (rule outcome_render_cursorLines(3)[OF idle])
    then have r1: "r1 = r" by (simp add: r1_def outcome_Inr)
    have rw: "rw = Inr r3" by (simp add: rw_def z)
    have "ctx r3 = ctx r" "calls r3 = calls r"
      using render_selectionRows_facts(1,2)[OF p2] render_hyperlinkRows_facts(1,2)[OF p3]
      by (simp_all add: r1)
    then show ?thesis using ret c r1 rw by simp
  qed
qed

subsection \<open>What the end of render issues\<close>

lemma ops_renderCursor:
  "ops (ctx (renderCursor r x y)) = ops (ctx r) @
     [case cursorStyle r of
        Block \<Rightarrow>
          FillRect (Css (cursor (theme r))) (globalAlpha (ctx r))
            (of_int x * mwidth (metrics r)) (of_int y * mheight (metrics r))
            (mwidth (metrics r)) (mheight (metrics r))
      | Underline \<Rightarrow>
          FillRect (Css (cursor (theme r))) (globalAlpha (ctx r))
            (of_int x * mwidth (metrics r))
            (of_int y * mheight (metrics r) + mheight (metrics r)
               - max 2 (Math_floor (mheight (metrics r) * (15 / 100))))
            (mwidth (metrics r)) (max 2 (Math_floor (mheight (metrics r) * (15 / 100))))
      | Bar \<Rightarrow>
          FillRect (Css (cursor (theme r))) (globalAlpha (ctx r))
            (of_int x * mwidth (metrics r)) (of_int y * mheight (metrics r))
            (max 2 (Math_floor (mwidth (metrics r) * (15 / 100)))) (mheight (metrics r))]"
  by (simp add: renderCursor_def fillRect_def Let_def split: CursorStyle.split)

lemma issued_renderScrollbar:
  "ops (ctx (renderScrollbar r vy n k so)) = ops (ctx r) @ issued r (renderScrollbar r vy n k so)"
  "issued r (renderScrollbar r vy n k so) \<noteq> []"
  by (simp_all add: renderScrollbar_def issued_def fillRect_def Let_def)

lemma issued_renderScrollbar_cong:
  assumes "theme a = theme b" "devicePixelRatio a = devicePixelRatio b"
    "canvas_width (ctx a) = canvas_width (ctx b)" "canvas_height (ctx a) = canvas_height (ctx b)"
    "globalAlpha (ctx a) = globalAlpha (ctx b)"
  shows "issued a (renderScrollbar a vy n k so) = issued b (renderScrollbar b vy n k so)"
  using assms by (simp add: renderScrollbar_def issued_def fillRect_def Let_def)

lemma issued_self: "issued r r = []"
  by (simp add: issued_def)

lemma render_finish_ops:
  assumes "render_finish r4 buffer viewportY sp n so = (r', b')"
  shows "ops (ctx r') = ops (ctx r4) @
     (if shouldDrawCursor r4 buffer viewportY
      then [last (ops (ctx (renderCursor r4 (cursor_x (getCursor buffer)) (cursor_y (getCursor buffer)))))]
      else []) @
     issued r4 (if sp \<noteq> None \<and> so > 0
                then renderScrollbar r4 viewportY n (rows (getDimensions buffer)) so else r4)"
proof -
  define ra where "ra = (if shouldDrawCursor r4 buffer viewportY
     then renderCursor r4 (cursor_x (getCursor buffer)) (cursor_y (getCursor buffer)) else r4)"
  define rb where "rb = (if sp \<noteq> None \<and> so > 0
     then renderScrollbar ra viewportY n (rows (getDimensions buffer)) so else ra)"
  have "render_finish r4 buffer viewportY sp n so =
      (rb\<lparr>lastCursorPosition := (cursor_x (getCursor buffer), cursor_y (getCursor buffer)),
        currentBuffer := Some (clearDirty buffer)\<rparr>, clearDirty buffer)"
    unfolding render_finish_def Let_def ra_def rb_def by simp
  with assms have res: "ctx r' = ctx rb" by auto
  have a: "ops (ctx ra) = ops (ctx r4) @
     (if shouldDrawCursor r4 buffer viewportY
      then [last (ops (ctx (renderCursor r4 (cursor_x (getCursor buffer)) (cursor_y (getCursor buffer)))))]
      else [])"
    by (simp add: ra_def ops_renderCursor)
  have same: "theme ra = theme r4" "devicePixelRatio ra = devicePixelRatio r4"
    "canvas_width (ctx ra) = canvas_width (ctx r4)" "canvas_height (ctx ra) = canvas_height (ctx r4)"
    "globalAlpha (ctx ra) = globalAlpha (ctx r4)"
    by (simp_all add: ra_def renderCursor_def fillRect_def Let_def split: CursorStyle.split)
  have b: "ops (ctx rb) = ops (ctx ra) @
     issued r4 (if sp \<noteq> None \<and> so > 0
                then renderScrollbar r4 viewportY n (rows (getDimensions buffer)) so else r4)"
    using issued_renderScrollbar(1)[of ra viewportY n "rows (getDimensions buffer)" so]
      issued_renderScrollbar_cong[OF same, of viewportY n "rows (getDimensions buffer)" so]
    by (simp add: rb_def issued_self)
  show ?thesis by (simp add: res a b)
qed

lemma cursorLinesRepainted_keeps:
  "keeps a b \<Longrightarrow> cursorLinesRepainted b buffer f = cursorLinesRepainted a buffer f"
  by (simp add: cursorLinesRepainted_def keeps_def)

lemma render_finish_idle:
  assumes "\<not> shouldDrawCursor r4 buffer viewportY" and "sp = None \<or> so \<le> 0"
  shows "ctx (fst (render_finish r4 buffer viewportY sp n so)) = ctx r4"
  using assms by (auto simp: render_finish_def Let_def)

subsection \<open>Zero dimensions (C6)\<close>

text \<open>
  Claim C6 says that with \<open>cols = 0\<close> and \<open>rows = 0\<close> \<^verbatim>\<open>render\<close> performs no drawing
  operation and does not modify the canvas. The code has no test for zero dimensions.
  Four calls with a buffer of 0 x 0 cells, each on a context with no recorded call: on
  a canvas of 800 x 480 pixels \<^verbatim>\<open>render\<close> resizes the canvas to 0 x 0 and fills it; on a
  canvas of 0 x 0 pixels it repaints the cursor's line when the cursor has moved and
  the buffer returns a line for its row; it draws the cursor when the cursor is to be
  drawn; and it draws the scrollbar when there is a scrollback provider.
\<close>

theorem zero_dimensions_counterexample:
  "cols (getDimensions empty_buffer) = 0 \<and> rows (getDimensions empty_buffer) = 0
   \<and> cols (getDimensions empty_line_buffer) = 0 \<and> rows (getDimensions empty_line_buffer) = 0
   \<and> ops (ctx example_renderer) = [] \<and> ops (ctx zero_renderer) = []
   \<and> canvas_width (ctx example_renderer) = 800
   \<and> \<not> isl (render example_flags (example_renderer\<lparr>cursorSuppressed := True\<rparr>) empty_buffer False 0 None 1)
   \<and> ops (ctx (fst (projr (render example_flags (example_renderer\<lparr>cursorSuppressed := True\<rparr>)
                              empty_buffer False 0 None 1))))
       = [SetStyleWidth 0, SetStyleHeight 0, SetCanvasWidth 0, SetCanvasHeight 0, Scale 1 1,
          FillRect (Css ''#1e1e1e'') 1 0 0 0 0]
   \<and> canvas_width (ctx (fst (projr (render example_flags (example_renderer\<lparr>cursorSuppressed := True\<rparr>)
                              empty_buffer False 0 None 1)))) = 0
   \<and> \<not> isl (render example_flags zero_renderer empty_line_buffer False 0 None 1)
   \<and> ops (ctx (fst (projr (render example_flags zero_renderer empty_line_buffer False 0 None 1))))
       = [FillRect (Css ''#1e1e1e'') 1 0 0 0 20]
   \<and> \<not> isl (render example_flags (zero_renderer\<lparr>cursorSuppressed := False\<rparr>) empty_buffer False 0 None 1)
   \<and> ops (ctx (fst (projr (render example_flags (zero_renderer\<lparr>cursorSuppressed := False\<rparr>)
                              empty_buffer False 0 None 1))))
       = [FillRect (Css ''#ffffff'') 1 0 0 10 20]
   \<and> \<not> isl (render example_flags zero_renderer empty_buffer False 0 (Some example_scrollback) 1)
   \<and> ops (ctx (fst (projr (render example_flags zero_renderer empty_buffer False 0
                              (Some example_scrollback) 1))))
       = [FillRect (Css ''#1e1e1e'') 1 (- 14) 0 14 0,
          FillRect (Rgba 128 128 128 (1 / 10)) 1 (- 12) 4 8 (- 8),
          FillRect (Rgba 128 128 128 (3 / 10)) 1 (- 12) (- 24) 8 20]"
proof -
  have a: "cols (getDimensions empty_buffer) = 0" "rows (getDimensions empty_buffer) = 0"
    "cols (getDimensions empty_line_buffer) = 0" "rows (getDimensions empty_line_buffer) = 0"
    "ops (ctx example_renderer) = []" "ops (ctx zero_renderer) = []"
    "canvas_width (ctx example_renderer) = 800"
    by (simp_all add: empty_buffer_def empty_line_buffer_def example_renderer_def zero_renderer_def
        example_ctx_def)
  have b1: "\<not> isl (render example_flags (example_renderer\<lparr>cursorSuppressed := True\<rparr>) empty_buffer False 0 None 1)"
    by code_simp
  have b2: "ops (ctx (fst (projr (render example_flags (example_renderer\<lparr>cursorSuppressed := True\<rparr>)
                              empty_buffer False 0 None 1))))
       = [SetStyleWidth 0, SetStyleHeight 0, SetCanvasWidth 0, SetCanvasHeight 0, Scale 1 1,
          FillRect (Css ''#1e1e1e'') 1 0 0 0 0]"
    by code_simp
  have b3: "canvas_width (ctx (fst (projr (render example_flags (example_renderer\<lparr>cursorSuppressed := True\<rparr>)
                              empty_buffer False 0 None 1)))) = 0"
    by code_simp
  have c1: "\<not> isl (render example_flags zero_renderer empty_line_buffer False 0 None 1)"
    by code_simp
  have c2: "ops (ctx (fst (projr (render example_flags zero_renderer empty_line_buffer False 0 None 1))))
       = [FillRect (Css ''#1e1e1e'') 1 0 0 0 20]"
    by code_simp
  have d1: "\<not> isl (render example_flags (zero_renderer\<lparr>cursorSuppressed := False\<rparr>) empty_buffer False 0 None 1)"
    by code_simp
  have d2: "ops (ctx (fst (projr (render example_flags (zero_renderer\<lparr>cursorSuppressed := False\<rparr>)
                              empty_buffer False 0 None 1))))
       = [FillRect (Css ''#ffffff'') 1 0 0 10 20]"
    by code_simp
  have e1: "\<not> isl (render example_flags zero_renderer empty_buffer False 0 (Some example_scrollback) 1)"
    by code_simp
  have e2: "ops (ctx (fst (projr (render example_flags zero_renderer empty_buffer False 0
                              (Some example_scrollback) 1))))
       = [FillRect (Css ''#1e1e1e'') 1 (- 14) 0 14 0,
          FillRect (Rgba 128 128 128 (1 / 10)) 1 (- 12) 4 8 (- 8),
          FillRect (Rgba 128 128 128 (3 / 10)) 1 (- 12) (- 24) 8 20]"
    by code_simp
  show ?thesis by (intro conjI) (rule a b1 b2 b3 c1 c2 d1 d2 e1 e2)+
qed

text \<open>
  Claim C6 as amended. With \<open>cols = 0\<close> and \<open>rows = 0\<close>, \<^verbatim>\<open>render\<close> returns with canvas and
  context exactly as they were (no drawing call recorded, size and state unchanged) if
  and only if the canvas is already 0 x 0 pixels, no cursor line is repainted, the
  cursor is not to be drawn and no scrollbar is to be drawn. No cursor line is
  repainted unless the cursor moved or blinks, the frame is not forced (\<^verbatim>\<open>forceAll\<close>,
  \<^verbatim>\<open>needsFullRedraw()\<close> or a change of \<^verbatim>\<open>viewportY\<close>) and the cursor's row, or the row the
  cursor left, is not dirty and has a line. The cursor is to be drawn when \<^verbatim>\<open>viewportY\<close>
  is 0, the buffer's cursor is visible, \<^verbatim>\<open>cursorVisible\<close> is on and the cursor is not
  suppressed; the scrollbar when there is a scrollback provider and \<^verbatim>\<open>scrollbarOpacity\<close>
  is positive.
\<close>

theorem zero_dimensions_untouched_iff:
  assumes c0: "cols (getDimensions buffer) = 0" and z0: "rows (getDimensions buffer) = 0"
  shows "(\<exists>r' b'. render F r buffer forceAll viewportY sp so = Inr (r', b') \<and> ctx r' = ctx r)
     \<longleftrightarrow> canvas_width (ctx r) = 0 \<and> canvas_height (ctx r) = 0
         \<and> \<not> cursorLinesRepainted r buffer
               (forceAll \<or> needsFullRedraw buffer = Some True \<or> viewportY \<noteq> lastViewportY r)
         \<and> \<not> (viewportY = 0 \<and> cursor_visible (getCursor buffer) \<and> cursorVisible r
                \<and> \<not> cursorSuppressed r)
         \<and> (sp = None \<or> so \<le> 0)"
    (is "?L \<longleftrightarrow> ?R")
proof -
  define n where "n = (case sp of Some provider \<Rightarrow> getScrollbackLength provider | None \<Rightarrow> 0)"
  define r0 where "r0 = fst (render_prepare r buffer forceAll viewportY)"
  define fa where "fa = snd (render_prepare r buffer forceAll viewportY)"
  define pt where "pt = render_paint F r0 buffer fa viewportY sp"
  define fa' where "fa' \<longleftrightarrow> forceAll \<or> needsFullRedraw buffer = Some True \<or> viewportY \<noteq> lastViewportY r"
  have eq: "render F r buffer forceAll viewportY sp so =
      (case pt of Inl (e, r) \<Rightarrow> Inl (e, r, buffer)
       | Inr r \<Rightarrow> Inr (render_finish r buffer viewportY sp n so))"
    unfolding render_def Let_def n_def pt_def r0_def fa_def by (simp add: case_prod_beta)
  have k0: "keeps r r0" unfolding r0_def by (rule render_prepare_keeps)
  have kp: "keeps r0 (outcome pt)" unfolding pt_def by (rule outcome_render_paint(1))
  have fits: "canvas_width (ctx r) = 0 \<Longrightarrow> canvas_height (ctx r) = 0
      \<Longrightarrow> ctx r0 = ctx r \<and> (fa \<longleftrightarrow> fa')"
    using render_prepare_fits(1,3)[of r buffer forceAll viewportY] c0 z0
    by (simp add: r0_def fa_def fa'_def)
  have grows: "canvas_width (ctx r) \<noteq> 0 \<or> canvas_height (ctx r) \<noteq> 0
      \<Longrightarrow> length (ops (ctx r)) < length (ops (ctx r0))"
    using render_prepare_resizes[of r buffer forceAll viewportY] c0 z0 by (simp add: r0_def)
  show ?thesis
  proof
    assume R: ?R
    then have w: "canvas_width (ctx r) = 0" "canvas_height (ctx r) = 0"
      and idle: "\<not> cursorLinesRepainted r buffer fa'"
      and nc: "\<not> (viewportY = 0 \<and> cursor_visible (getCursor buffer) \<and> cursorVisible r
                \<and> \<not> cursorSuppressed r)"
      and nb: "sp = None \<or> so \<le> 0"
      by (simp_all add: fa'_def)
    from fits[OF w] have c: "ctx r0 = ctx r" and f: "fa \<longleftrightarrow> fa'" by simp_all
    have "\<not> cursorLinesRepainted r0 buffer fa"
      using idle by (simp add: cursorLinesRepainted_keeps[OF k0] f)
    from outcome_render_paint(3)[OF this z0, of F viewportY sp]
    obtain r4 where p: "pt = Inr r4" and c4: "ctx r4 = ctx r0" by (auto simp: pt_def)
    have "keeps r r4" using keeps_trans[OF k0 kp] by (simp add: p outcome_Inr)
    then have "\<not> shouldDrawCursor r4 buffer viewportY"
      using nc by (simp add: shouldDrawCursor_def keeps_def)
    from render_finish_idle[OF this nb, of n]
    have "ctx (fst (render_finish r4 buffer viewportY sp n so)) = ctx r" by (simp add: c4 c)
    moreover have "render F r buffer forceAll viewportY sp so =
        Inr (fst (render_finish r4 buffer viewportY sp n so), snd (render_finish r4 buffer viewportY sp n so))"
      by (simp add: eq p)
    ultimately show ?L by blast
  next
    assume ?L
    then obtain r' b' where ret: "render F r buffer forceAll viewportY sp so = Inr (r', b')"
      and same: "ctx r' = ctx r" by blast
    from ret obtain r4 where p: "pt = Inr r4"
      and fin: "render_finish r4 buffer viewportY sp n so = (r', b')"
      by (auto simp: eq split: sum.splits)
    have k4: "keeps r0 r4" using kp by (simp add: p outcome_Inr)
    have k: "keeps r r4" by (rule keeps_trans[OF k0 k4])
    note fo = render_finish_ops[OF fin]
    have l1: "length (ops (ctx r)) \<le> length (ops (ctx r0))" by (rule keeps_le[OF k0])
    have l2: "length (ops (ctx r0)) \<le> length (ops (ctx r4))" by (rule keeps_le[OF k4])
    have l3: "length (ops (ctx r4)) \<le> length (ops (ctx r'))" by (simp add: fo)
    have l4: "length (ops (ctx r')) = length (ops (ctx r))" by (simp add: same)
    have e1: "length (ops (ctx r0)) = length (ops (ctx r))" using l1 l2 l3 l4 by simp
    have e2: "length (ops (ctx r4)) = length (ops (ctx r0))" using l1 l2 l3 l4 by simp
    have e3: "length (ops (ctx r')) = length (ops (ctx r4))" using l1 l2 l3 l4 by simp
    have w: "canvas_width (ctx r) = 0" "canvas_height (ctx r) = 0"
      using grows e1 by auto
    from fits[OF w] have f: "fa \<longleftrightarrow> fa'" by simp
    have "\<not> cursorLinesRepainted r0 buffer fa"
      using outcome_render_paint(2)[of r0 buffer fa F viewportY sp] e2
      by (auto simp: pt_def[symmetric] p outcome_Inr)
    then have idle: "\<not> cursorLinesRepainted r buffer fa'"
      by (simp add: cursorLinesRepainted_keeps[OF k0] f)
    from fo e3 have nd: "\<not> shouldDrawCursor r4 buffer viewportY"
      and ni: "issued r4 (if sp \<noteq> None \<and> so > 0
                then renderScrollbar r4 viewportY n (rows (getDimensions buffer)) so else r4) = []"
      by (auto split: if_splits)
    from nd k have nc: "\<not> (viewportY = 0 \<and> cursor_visible (getCursor buffer) \<and> cursorVisible r
                \<and> \<not> cursorSuppressed r)"
      by (simp add: shouldDrawCursor_def keeps_def)
    from ni have nb: "sp = None \<or> so \<le> 0"
      using issued_renderScrollbar(2)[of r4 viewportY n "rows (getDimensions buffer)" so]
      by (auto split: if_splits)
    from w idle nc nb show ?R by (simp add: fa'_def)
  qed
qed

text \<open>The four conditions hold for the buffer without lines on the 0 x 0 canvas with the
  cursor suppressed, and \<^verbatim>\<open>render\<close> leaves the context as it was; with the buffer that
  returns a line for the cursor's row the second condition fails, and it does not.\<close>

theorem zero_dimensions_untouched_iff_witness:
  "cols (getDimensions empty_buffer) = 0 \<and> rows (getDimensions empty_buffer) = 0
   \<and> canvas_width (ctx zero_renderer) = 0 \<and> canvas_height (ctx zero_renderer) = 0
   \<and> \<not> cursorLinesRepainted zero_renderer empty_buffer False
   \<and> cursorSuppressed zero_renderer
   \<and> (\<exists>r' b'. render example_flags zero_renderer empty_buffer False 0 None 1 = Inr (r', b')
         \<and> ctx r' = ctx zero_renderer)
   \<and> cursorLinesRepainted zero_renderer empty_line_buffer False
   \<and> \<not> (\<exists>r' b'. render example_flags zero_renderer empty_line_buffer False 0 None 1 = Inr (r', b')
         \<and> ctx r' = ctx zero_renderer)"
proof -
  have a: "cols (getDimensions empty_buffer) = 0" "rows (getDimensions empty_buffer) = 0"
    by (simp_all add: empty_buffer_def)
  have a': "cols (getDimensions empty_line_buffer) = 0" "rows (getDimensions empty_line_buffer) = 0"
    by (simp_all add: empty_line_buffer_def empty_buffer_def)
  have w: "canvas_width (ctx zero_renderer) = 0" "canvas_height (ctx zero_renderer) = 0"
    "cursorSuppressed zero_renderer" "lastViewportY zero_renderer = 0"
    by (simp_all add: zero_renderer_def example_renderer_def)
  have n: "needsFullRedraw empty_buffer = None" "needsFullRedraw empty_line_buffer = None"
    by (simp_all add: empty_line_buffer_def empty_buffer_def)
  have i: "\<not> cursorLinesRepainted zero_renderer empty_buffer False"
    by (simp add: cursorLinesRepainted_def empty_buffer_def zero_renderer_def example_renderer_def)
  have j: "cursorLinesRepainted zero_renderer empty_line_buffer False"
    by (simp add: cursorLinesRepainted_def empty_line_buffer_def empty_buffer_def zero_renderer_def
        example_renderer_def isRowDirty_def)
  from zero_dimensions_untouched_iff[OF a, of example_flags zero_renderer False 0 None 1] w n i
  have p: "\<exists>r' b'. render example_flags zero_renderer empty_buffer False 0 None 1 = Inr (r', b')
         \<and> ctx r' = ctx zero_renderer"
    by simp
  from zero_dimensions_untouched_iff[OF a', of example_flags zero_renderer False 0 None 1] w n j
  have q: "\<not> (\<exists>r' b'. render example_flags zero_renderer empty_line_buffer False 0 None 1 = Inr (r', b')
         \<and> ctx r' = ctx zero_renderer)"
    by simp
  show ?thesis by (intro conjI) (rule a w(1-3) i p j q)+
qed

subsection \<open>The cursor (C7)\<close>

text \<open>
  Claim C7 says that on every call \<^verbatim>\<open>render\<close> draws the cursor if and only if \<^verbatim>\<open>viewportY\<close>
  is 0, the buffer's cursor is visible, \<^verbatim>\<open>cursorVisible\<close> is on and the cursor is not
  suppressed. \<^verbatim>\<open>render\<close> catches no exception, and the cursor is drawn after the rows: with
  a number that is not a code point in row 0 the call raises \<^verbatim>\<open>RangeError\<close> while painting
  that row, so the condition holds and no cursor is drawn. The call has entered
  \<^verbatim>\<open>resize\<close> and \<^verbatim>\<open>renderLine\<close> for row 0 only, and the last recorded drawing call is the
  background of row 0.
\<close>

theorem render_raises_before_cursor:
  "cursor_visible (getCursor invalid_buffer) \<and> cursorVisible example_renderer
   \<and> \<not> cursorSuppressed example_renderer
   \<and> isl (render example_flags example_renderer invalid_buffer False 0 None 1)
   \<and> fst (projl (render example_flags example_renderer invalid_buffer False 0 None 1)) = RangeError
   \<and> calls (fst (snd (projl (render example_flags example_renderer invalid_buffer False 0 None 1))))
       = [CallResize 2 4, CallRenderLine 0]
   \<and> ops (ctx (fst (snd (projl (render example_flags example_renderer invalid_buffer False 0 None 1)))))
       = [SetStyleWidth 20, SetStyleHeight 80, SetCanvasWidth 20, SetCanvasHeight 80, Scale 1 1,
          FillRect (Css ''#1e1e1e'') 1 0 0 20 80, FillRect (Css ''#1e1e1e'') 1 0 0 20 20]"
proof -
  let ?res = "render example_flags example_renderer invalid_buffer False 0 None 1"
  have a: "cursor_visible (getCursor invalid_buffer)" "cursorVisible example_renderer"
    "\<not> cursorSuppressed example_renderer"
    by (simp_all add: invalid_buffer_def example_buffer_def example_renderer_def)
  have b: "isl ?res" by code_simp
  have c: "fst (projl ?res) = RangeError" by code_simp
  have d: "calls (fst (snd (projl ?res))) = [CallResize 2 4, CallRenderLine 0]" by code_simp
  have e: "ops (ctx (fst (snd (projl ?res))))
       = [SetStyleWidth 20, SetStyleHeight 80, SetCanvasWidth 20, SetCanvasHeight 80, Scale 1 1,
          FillRect (Css ''#1e1e1e'') 1 0 0 20 80, FillRect (Css ''#1e1e1e'') 1 0 0 20 20]"
    by code_simp
  show ?thesis by (intro conjI) (rule a b c d e)+
qed

text \<open>
  Claim C7 as amended, for every call of \<^verbatim>\<open>render\<close>. A call that raises does so while the
  rows are painted: it has not entered \<^verbatim>\<open>renderCursor\<close>, and it leaves the renderer as the
  painting left it. A call that returns has painted the rows and then, if \<^verbatim>\<open>viewportY\<close> is
  0, the buffer's cursor is visible, \<^verbatim>\<open>cursorVisible\<close> is on and the cursor is not
  suppressed, entered \<^verbatim>\<open>renderCursor\<close> once at the buffer's cursor position and recorded
  one rectangle in the theme's cursor colour at the cursor's cell: the cell for a block
  cursor, its bottom strip of height \<open>max 2 \<lfloor>0.15 h\<rfloor>\<close> for an underline, its left strip
  of width \<open>max 2 \<lfloor>0.15 w\<rfloor>\<close> for a bar. Otherwise it has not entered \<^verbatim>\<open>renderCursor\<close> and
  has recorded no such rectangle. All it records after the rows and the cursor is what
  the scrollbar records.
\<close>

theorem render_draws_cursor_when_it_returns:
  "case render F r buffer forceAll viewportY sp so of
     Inl (e, r', b') \<Rightarrow>
       render_paint F (fst (render_prepare r buffer forceAll viewportY)) buffer
         (snd (render_prepare r buffer forceAll viewportY)) viewportY sp = Inl (e, r')
       \<and> filter isRenderCursorCall (calls r') = filter isRenderCursorCall (calls r)
   | Inr (r', b') \<Rightarrow>
       (\<exists>r4. render_paint F (fst (render_prepare r buffer forceAll viewportY)) buffer
                (snd (render_prepare r buffer forceAll viewportY)) viewportY sp = Inr r4
          \<and> filter isRenderCursorCall (calls r') =
               filter isRenderCursorCall (calls r) @
               (if viewportY = 0 \<and> cursor_visible (getCursor buffer) \<and> cursorVisible r
                   \<and> \<not> cursorSuppressed r
                then [CallRenderCursor (cursor_x (getCursor buffer)) (cursor_y (getCursor buffer))]
                else [])
          \<and> ops (ctx r') =
               ops (ctx r4) @
               (if viewportY = 0 \<and> cursor_visible (getCursor buffer) \<and> cursorVisible r
                   \<and> \<not> cursorSuppressed r
                then [case cursorStyle r of
                        Block \<Rightarrow>
                          FillRect (Css (cursor (theme r))) (globalAlpha (ctx r4))
                            (of_int (cursor_x (getCursor buffer)) * mwidth (metrics r))
                            (of_int (cursor_y (getCursor buffer)) * mheight (metrics r))
                            (mwidth (metrics r)) (mheight (metrics r))
                      | Underline \<Rightarrow>
                          FillRect (Css (cursor (theme r))) (globalAlpha (ctx r4))
                            (of_int (cursor_x (getCursor buffer)) * mwidth (metrics r))
                            (of_int (cursor_y (getCursor buffer)) * mheight (metrics r)
                               + mheight (metrics r)
                               - max 2 (Math_floor (mheight (metrics r) * (15 / 100))))
                            (mwidth (metrics r))
                            (max 2 (Math_floor (mheight (metrics r) * (15 / 100))))
                      | Bar \<Rightarrow>
                          FillRect (Css (cursor (theme r))) (globalAlpha (ctx r4))
                            (of_int (cursor_x (getCursor buffer)) * mwidth (metrics r))
                            (of_int (cursor_y (getCursor buffer)) * mheight (metrics r))
                            (max 2 (Math_floor (mwidth (metrics r) * (15 / 100))))
                            (mheight (metrics r))]
                else []) @
               issued r4
                 (if sp \<noteq> None \<and> so > 0
                  then renderScrollbar r4 viewportY
                         (case sp of Some provider \<Rightarrow> getScrollbackLength provider | None \<Rightarrow> 0)
                         (rows (getDimensions buffer)) so
                  else r4))"
proof -
  define n where "n = (case sp of Some provider \<Rightarrow> getScrollbackLength provider | None \<Rightarrow> 0)"
  define r0 where "r0 = fst (render_prepare r buffer forceAll viewportY)"
  define fa where "fa = snd (render_prepare r buffer forceAll viewportY)"
  define pt where "pt = render_paint F r0 buffer fa viewportY sp"
  have eq: "render F r buffer forceAll viewportY sp so =
      (case pt of Inl (e, r) \<Rightarrow> Inl (e, r, buffer)
       | Inr r \<Rightarrow> Inr (render_finish r buffer viewportY sp n so))"
    unfolding render_def Let_def n_def pt_def r0_def fa_def by (simp add: case_prod_beta)
  have k: "keeps r (outcome pt)"
    unfolding pt_def r0_def
    by (rule keeps_trans[OF render_prepare_keeps outcome_render_paint(1)])
  show ?thesis
  proof (cases pt)
    case (Inl x)
    obtain e r1 where x: "x = (e, r1)" by (cases x)
    have "outcome pt = r1" by (simp add: Inl x outcome_Inl)
    with k have "cursorCalls r1 = cursorCalls r" by (simp add: keeps_def)
    then show ?thesis
      by (simp add: eq Inl x pt_def[symmetric] r0_def[symmetric] fa_def[symmetric] cursorCalls_def)
  next
    case (Inr r4)
    have "outcome pt = r4" by (simp add: Inr outcome_Inr)
    with k have k4: "keeps r r4" by simp
    obtain r' b' where fin: "render_finish r4 buffer viewportY sp n so = (r', b')"
      by (cases "render_finish r4 buffer viewportY sp n so")
    have sd: "shouldDrawCursor r4 buffer viewportY \<longleftrightarrow>
        viewportY = 0 \<and> cursor_visible (getCursor buffer) \<and> cursorVisible r \<and> \<not> cursorSuppressed r"
      using k4 by (simp add: shouldDrawCursor_def keeps_def)
    have cc: "cursorCalls r4 = cursorCalls r" using k4 by (simp add: keeps_def)
    have fl: "metrics r4 = metrics r" "theme r4 = theme r" "cursorStyle r4 = cursorStyle r"
      using k4 by (simp_all add: keeps_def)
    have c1: "filter isRenderCursorCall (calls r') =
               filter isRenderCursorCall (calls r) @
               (if viewportY = 0 \<and> cursor_visible (getCursor buffer) \<and> cursorVisible r
                   \<and> \<not> cursorSuppressed r
                then [CallRenderCursor (cursor_x (getCursor buffer)) (cursor_y (getCursor buffer))]
                else [])"
      using render_finish_facts(4)[OF fin] cc sd by (simp add: cursorCalls_def)
    have lst: "last (ops (ctx (renderCursor r4 x y))) = last [op]"
      if "ops (ctx (renderCursor r4 x y)) = ops (ctx r4) @ [op]" for x y op
      using that by simp
    note c2 = render_finish_ops[OF fin, unfolded sd lst[OF ops_renderCursor] fl n_def]
    show ?thesis
      unfolding eq Inr sum.case fin prod.case pt_def[symmetric, unfolded r0_def fa_def]
      using c1 c2 by (intro exI[of _ r4] conjI) simp_all
  qed
qed

text \<open>The example buffer, cursor at column 1 of row 3 with cells of 10 x 20 pixels: at
  \<^verbatim>\<open>viewportY = 0\<close> the rows are followed by the cursor's rectangle at (10, 60); at
  \<^verbatim>\<open>viewportY = 2.5\<close> by the three rectangles of the scrollbar only.\<close>

theorem render_draws_cursor_when_it_returns_witness:
  "(\<exists>r' b' r4.
      render example_flags example_renderer example_buffer False 0 None 1 = Inr (r', b')
      \<and> render_paint example_flags (fst (render_prepare example_renderer example_buffer False 0))
           example_buffer (snd (render_prepare example_renderer example_buffer False 0)) 0 None = Inr r4
      \<and> filter isRenderCursorCall (calls r') = [CallRenderCursor 1 3]
      \<and> ops (ctx r') = ops (ctx r4) @ [FillRect (Css ''#ffffff'') 1 10 60 10 20])
   \<and> (\<exists>r' b' r4.
      render example_flags example_renderer example_buffer False (5 / 2) (Some example_scrollback) 1
        = Inr (r', b')
      \<and> render_paint example_flags (fst (render_prepare example_renderer example_buffer False (5 / 2)))
           example_buffer (snd (render_prepare example_renderer example_buffer False (5 / 2))) (5 / 2)
           (Some example_scrollback) = Inr r4
      \<and> filter isRenderCursorCall (calls r') = []
      \<and> ops (ctx r') = ops (ctx r4) @
           [FillRect (Css ''#1e1e1e'') 1 6 0 14 80,
            FillRect (Rgba 128 128 128 (1 / 10)) 1 8 4 8 72,
            FillRect (Rgba 128 128 128 (1 / 2)) 1 8 (298 / 7) 8 (144 / 7)])"
proof -
  let ?a = "render example_flags example_renderer example_buffer False 0 None 1"
  let ?pa = "render_paint example_flags (fst (render_prepare example_renderer example_buffer False 0))
           example_buffer (snd (render_prepare example_renderer example_buffer False 0)) 0 None"
  let ?b = "render example_flags example_renderer example_buffer False (5 / 2)
               (Some example_scrollback) 1"
  let ?pb = "render_paint example_flags (fst (render_prepare example_renderer example_buffer False (5 / 2)))
           example_buffer (snd (render_prepare example_renderer example_buffer False (5 / 2))) (5 / 2)
           (Some example_scrollback)"
  have f: "calls example_renderer = []" "cursor_visible (getCursor example_buffer)"
    "cursorVisible example_renderer" "\<not> cursorSuppressed example_renderer"
    "cursor_x (getCursor example_buffer) = 1" "cursor_y (getCursor example_buffer) = 3"
    "cursorStyle example_renderer = Block" "cursor (theme example_renderer) = ''#ffffff''"
    "mwidth (metrics example_renderer) = 10" "mheight (metrics example_renderer) = 20"
    "getScrollbackLength example_scrollback = 10" "rows (getDimensions example_buffer) = 4"
    by (simp_all add: example_renderer_def example_buffer_def example_scrollback_def)
  have "\<not> isl ?a" by code_simp
  then obtain ra ba where a: "?a = Inr (ra, ba)" by (cases ?a) auto
  have ga: "globalAlpha (ctx (projr ?pa)) = 1" by code_simp
  have "\<not> isl ?b" by code_simp
  then obtain rb bb where b: "?b = Inr (rb, bb)" by (cases ?b) auto
  have gb: "issued (projr ?pb) (renderScrollbar (projr ?pb) (5 / 2) 10 4 1) =
           [FillRect (Css ''#1e1e1e'') 1 6 0 14 80,
            FillRect (Rgba 128 128 128 (1 / 10)) 1 8 4 8 72,
            FillRect (Rgba 128 128 128 (1 / 2)) 1 8 (298 / 7) 8 (144 / 7)]"
    by code_simp
  from render_draws_cursor_when_it_returns[of example_flags example_renderer example_buffer False 0 None 1]
  obtain r4 where a4: "?pa = Inr r4"
    and ac: "filter isRenderCursorCall (calls ra) = [CallRenderCursor 1 3]"
    and ao: "ops (ctx ra) = ops (ctx r4) @ [FillRect (Css ''#ffffff'') (globalAlpha (ctx r4)) 10 60 10 20]"
    unfolding a sum.case prod.case by (auto simp: f issued_self)
  from ga a4 have "globalAlpha (ctx r4) = 1" by simp
  with a a4 ac ao have A: "\<exists>r' b' r4. ?a = Inr (r', b') \<and> ?pa = Inr r4
      \<and> filter isRenderCursorCall (calls r') = [CallRenderCursor 1 3]
      \<and> ops (ctx r') = ops (ctx r4) @ [FillRect (Css ''#ffffff'') 1 10 60 10 20]"
    by simp
  from render_draws_cursor_when_it_returns[of example_flags example_renderer example_buffer False "5 / 2"
      "Some example_scrollback" 1]
  obtain r5 where b4: "?pb = Inr r5"
    and bc: "filter isRenderCursorCall (calls rb) = []"
    and bo: "ops (ctx rb) = ops (ctx r5) @ issued r5 (renderScrollbar r5 (5 / 2) 10 4 1)"
    unfolding b sum.case prod.case by (auto simp: f)
  from gb b4 have "issued r5 (renderScrollbar r5 (5 / 2) 10 4 1) =
           [FillRect (Css ''#1e1e1e'') 1 6 0 14 80,
            FillRect (Rgba 128 128 128 (1 / 10)) 1 8 4 8 72,
            FillRect (Rgba 128 128 128 (1 / 2)) 1 8 (298 / 7) 8 (144 / 7)]"
    by simp
  with b b4 bc bo have B: "\<exists>r' b' r4. ?b = Inr (r', b') \<and> ?pb = Inr r4
      \<and> filter isRenderCursorCall (calls r') = []
      \<and> ops (ctx r') = ops (ctx r4) @
           [FillRect (Css ''#1e1e1e'') 1 6 0 14 80,
            FillRect (Rgba 128 128 128 (1 / 10)) 1 8 4 8 72,
            FillRect (Rgba 128 128 128 (1 / 2)) 1 8 (298 / 7) 8 (144 / 7)]"
    by simp
  from A B show ?thesis by (rule conjI)
qed

subsection \<open>The scrollbar thumb (C8)\<close>

lemma render_finish_thumb:
  assumes fin: "render_finish r4 buffer viewportY (Some provider) n so = (r', b')"
    and so: "so > 0" and n: "n \<noteq> 0"
  shows "\<exists>col a px.
      last (ops (ctx r')) =
        FillRect col a px
          (4 + ((canvas_height (ctx r') / devicePixelRatio r4 - 4 * 2)
                - max 20 ((of_int (rows (getDimensions buffer))
                           / of_int (n + rows (getDimensions buffer)))
                          * (canvas_height (ctx r') / devicePixelRatio r4 - 4 * 2)))
               * (1 - viewportY / of_int n))
          8
          (max 20 ((of_int (rows (getDimensions buffer))
                    / of_int (n + rows (getDimensions buffer)))
                   * (canvas_height (ctx r') / devicePixelRatio r4 - 4 * 2)))"
proof -
  define ra where "ra = (if shouldDrawCursor r4 buffer viewportY
     then renderCursor r4 (cursor_x (getCursor buffer)) (cursor_y (getCursor buffer)) else r4)"
  have dpr: "devicePixelRatio ra = devicePixelRatio r4"
    by (simp add: ra_def renderCursor_def Let_def)
  have "render_finish r4 buffer viewportY (Some provider) n so =
      ((renderScrollbar ra viewportY n (rows (getDimensions buffer)) so)
         \<lparr>lastCursorPosition := (cursor_x (getCursor buffer), cursor_y (getCursor buffer)),
          currentBuffer := Some (clearDirty buffer)\<rparr>, clearDirty buffer)"
    unfolding render_finish_def Let_def ra_def using so by simp
  with fin have r': "r' = (renderScrollbar ra viewportY n (rows (getDimensions buffer)) so)
         \<lparr>lastCursorPosition := (cursor_x (getCursor buffer), cursor_y (getCursor buffer)),
          currentBuffer := Some (clearDirty buffer)\<rparr>"
    by auto
  show ?thesis
    unfolding r' using so n dpr
    by (simp add: renderScrollbar_def fillRect_def Let_def)
qed

text \<open>
  Claim C8. When \<^verbatim>\<open>render\<close> is given a scrollback provider with a positive length and a
  positive opacity, the last rectangle it fills is the thumb: 8 px wide, of height
  \<open>max(20, (visibleRows / totalLines) * trackHeight)\<close> and with its top edge at
  \<open>trackTop + (trackHeight - thumbHeight) * (1 - viewportY / scrollbackLength)\<close>, where
  \<open>trackTop = 4\<close> and \<open>trackHeight = canvasHeight - 8\<close> in CSS pixels. (The device pixel
  ratio is positive and the row count is not negative, so that no quotient has a zero
  denominator.)
\<close>

theorem scrollbar_thumb_geometry:
  assumes ret: "render F r buffer forceAll viewportY (Some provider) so = Inr (r', b')"
    and so: "so > 0"
    and len: "getScrollbackLength provider > 0"
    and dpr: "devicePixelRatio r > 0"
    and nrows: "rows (getDimensions buffer) \<ge> 0"
  shows "let scrollbackLength = getScrollbackLength provider;
             visibleRows = rows (getDimensions buffer);
             canvasHeight = canvas_height (ctx r') / devicePixelRatio r;
             trackTop = 4;
             trackHeight = canvasHeight - 8;
             totalLines = scrollbackLength + visibleRows;
             thumbHeight = max 20 ((of_int visibleRows / of_int totalLines) * trackHeight);
             thumbTop = trackTop + (trackHeight - thumbHeight)
                                   * (1 - viewportY / of_int scrollbackLength)
         in \<exists>col a px. last (ops (ctx r')) = FillRect col a px thumbTop 8 thumbHeight"
proof -
  from ret obtain r0 fa r1 r2 sel r3 hyp r4 where
    p0: "render_prepare r buffer forceAll viewportY = (r0, fa)"
    and p1: "render_cursorLines F r0 buffer fa = Inr r1"
    and p2: "render_selectionRows r1 = (r2, sel)"
    and p3: "render_hyperlinkRows r2 buffer viewportY (Some provider)
        (case Some provider of Some provider \<Rightarrow> getScrollbackLength provider | None \<Rightarrow> 0) = (r3, hyp)"
    and p4: "render_rows F r3 buffer viewportY (Some provider)
        (case Some provider of Some provider \<Rightarrow> getScrollbackLength provider | None \<Rightarrow> 0)
        (render_rowsToRender buffer fa viewportY sel hyp)
        [0..rows (getDimensions buffer) - 1] = Inr r4"
    and p5: "render_finish r4 buffer viewportY (Some provider)
        (case Some provider of Some provider \<Rightarrow> getScrollbackLength provider | None \<Rightarrow> 0) so = (r', b')"
    by (rule render_decompose)
  have d4: "devicePixelRatio r4 = devicePixelRatio r"
    using render_prepare_facts(6)[OF p0] frame_fields(4)[OF frame_render_cursorLines(1)[OF p1]]
      render_selectionRows_facts(8)[OF p2] render_hyperlinkRows_facts(7)[OF p3]
      frame_fields(4)[OF conjunct1[OF frame_render_rows[OF p4]]]
    by simp
  from len have n: "getScrollbackLength provider \<noteq> 0" by simp
  from p5 have p5': "render_finish r4 buffer viewportY (Some provider) (getScrollbackLength provider) so = (r', b')"
    by simp
  from render_finish_thumb[OF p5' so n] show ?thesis
    by (simp add: d4 Let_def)
qed

theorem scrollbar_thumb_geometry_witness:
  "\<not> isl (render example_flags example_renderer example_buffer False (5 / 2)
               (Some example_scrollback) 1)
   \<and> (1::rat) > 0
   \<and> getScrollbackLength example_scrollback > 0
   \<and> devicePixelRatio example_renderer > 0
   \<and> rows (getDimensions example_buffer) \<ge> 0
   \<and> (let scrollbackLength = getScrollbackLength example_scrollback;
             visibleRows = rows (getDimensions example_buffer);
             canvasHeight = canvas_height (ctx (fst (projr (render example_flags example_renderer
                  example_buffer False (5 / 2) (Some example_scrollback) 1))))
                  / devicePixelRatio example_renderer;
             trackTop = 4;
             trackHeight = canvasHeight - 8;
             totalLines = scrollbackLength + visibleRows;
             thumbHeight = max 20 ((of_int visibleRows / of_int totalLines) * trackHeight);
             thumbTop = trackTop + (trackHeight - thumbHeight)
                                   * (1 - (5 / 2) / of_int scrollbackLength)
         in \<exists>col a px. last (ops (ctx (fst (projr (render example_flags example_renderer
                  example_buffer False (5 / 2) (Some example_scrollback) 1)))))
               = FillRect col a px thumbTop 8 thumbHeight)
   \<and> last (ops (ctx (fst (projr (render example_flags example_renderer example_buffer False (5 / 2)
               (Some example_scrollback) 1)))))
       = FillRect (Rgba 128 128 128 (1 / 2)) 1 8 (298 / 7) 8 (144 / 7)"
proof -
  let ?b = "render example_flags example_renderer example_buffer False (5 / 2)
               (Some example_scrollback) 1"
  have b: "\<not> isl ?b" by code_simp
  then have b': "?b = Inr (fst (projr ?b), snd (projr ?b))" by simp
  have h1: "(1::rat) > 0" by simp
  have h2: "getScrollbackLength example_scrollback > 0" by (simp add: example_scrollback_def)
  have h3: "devicePixelRatio example_renderer > 0" by (simp add: example_renderer_def)
  have h4: "rows (getDimensions example_buffer) \<ge> 0" by (simp add: example_buffer_def)
  have l: "last (ops (ctx (fst (projr ?b)))) = FillRect (Rgba 128 128 128 (1 / 2)) 1 8 (298 / 7) 8 (144 / 7)"
    by code_simp
  note t = scrollbar_thumb_geometry[OF b' h1 h2 h3 h4]
  show ?thesis
    by (intro conjI) (rule b h1 h2 h3 h4 l t)+
qed

end
